theory Spec2Isabelle
  imports Complex_Main "HOL-Library.AList" "HOL-Library.Sublist"
begin

section \<open>Strings, paths and numbers of the JavaScript runtime\<close>

text \<open>
  A JavaScript string is modelled as a \<^typ>\<open>string\<close>: a list of 8-bit characters, that is,
  the strings whose UTF-16 code units are all below 256. JavaScript numbers are modelled as
  exact rationals (\<^typ>\<open>rat\<close>): every constant of the scanner is a multiple of 0.05 and
  the scanner only adds them, halves them, rounds to two decimals and compares them.
\<close>

definition is_js_space :: "char \<Rightarrow> bool" where
  \<comment> \<open>the characters of \<open>\s\<close> and of \<open>String.prototype.trim\<close> below code 256:
      TAB, LF, VT, FF, CR, SPACE, NBSP\<close>
  "is_js_space c = (of_char c \<in> {9::nat, 10, 11, 12, 13, 32, 160})"

definition is_js_word :: "char \<Rightarrow> bool" where
  \<comment> \<open>the characters of \<open>\w\<close>: \<open>[A-Za-z0-9_]\<close>\<close>
  "is_js_word c = (let n = (of_char c :: nat) in
     (65 \<le> n \<and> n \<le> 90) \<or> (97 \<le> n \<and> n \<le> 122) \<or> (48 \<le> n \<and> n \<le> 57) \<or> n = 95)"

definition lower_char :: "char \<Rightarrow> char" where
  \<comment> \<open>\<open>toLowerCase\<close> on one code unit below 256: A-Z, and the Latin-1 capitals
      0xC0-0xDE other than the multiplication sign 0xD7\<close>
  "lower_char c = (let n = (of_char c :: nat) in
     if (65 \<le> n \<and> n \<le> 90) \<or> (192 \<le> n \<and> n \<le> 222 \<and> n \<noteq> 215) then char_of (n + 32) else c)"

definition toLowerCase :: "string \<Rightarrow> string" where
  "toLowerCase s = map lower_char s"

definition trim :: "string \<Rightarrow> string" where
  "trim s = rev (dropWhile is_js_space (rev (dropWhile is_js_space s)))"

fun split_on :: "char \<Rightarrow> string \<Rightarrow> string list" where
  \<comment> \<open>\<open>s.split(sep)\<close> for a one-character separator: never empty, \<open>"".split("\n") = [""]\<close>\<close>
  "split_on sep [] = [[]]"
| "split_on sep (c # cs) =
     (if c = sep then [] # split_on sep cs
      else (case split_on sep cs of
              [] \<Rightarrow> [[c]]
            | l # ls \<Rightarrow> (c # l) # ls))"

definition startsWith :: "string \<Rightarrow> string \<Rightarrow> bool" where
  "startsWith s p = prefix p s"

definition str_includes :: "string \<Rightarrow> string \<Rightarrow> bool" where
  \<comment> \<open>\<open>s.includes(t)\<close>: \<open>t\<close> occurs in \<open>s\<close> as a contiguous substring\<close>
  "str_includes s t = sublist t s"

definition basename :: "string \<Rightarrow> string" where
  \<comment> \<open>\<open>path.basename\<close> (POSIX) on a path without trailing separators, as the glob returns them\<close>
  "basename p = rev (takeWhile (\<lambda>c. c \<noteq> CHR ''/'') (rev p))"

definition extname :: "string \<Rightarrow> string" where
  \<comment> \<open>\<open>path.extname\<close> (POSIX): from the last dot of the last segment; empty when there is
      no dot, when the only dot is the first character, and for the segment \<open>..\<close>\<close>
  "extname p =
     (let seg = basename p;
          ext = rev (takeWhile (\<lambda>c. c \<noteq> CHR ''.'') (rev seg))
      in if \<not> List.member seg (CHR ''.'') \<or> length ext + 1 = length seg \<or> seg = ''..''
         then [] else CHR ''.'' # ext)"

definition join_path :: "string \<Rightarrow> string \<Rightarrow> string" where
  \<comment> \<open>\<open>path.join(scanPath, file)\<close> for a resolved (absolute, normalised) scan path and a
      normalised relative path\<close>
  "join_path scanPath file =
     (if scanPath = ''/'' then scanPath @ file else scanPath @ ''/'' @ file)"

definition Math_round :: "rat \<Rightarrow> rat" where
  \<comment> \<open>\<open>Math.round\<close>: the nearest integer, halves towards plus infinity\<close>
  "Math_round x = of_int \<lfloor>x + 1 / 2\<rfloor>"

definition slice0 :: "int \<Rightarrow> 'a list \<Rightarrow> 'a list" where
  \<comment> \<open>\<open>xs.slice(0, n)\<close> for an integer \<open>n\<close>: a negative end counts from the end\<close>
  "slice0 n xs = (if n < 0 then take (nat (int (length xs) + n)) xs else take (nat n) xs)"

section \<open>Data model (types/index.ts)\<close>

text \<open>
  Field names are those of the TypeScript interfaces. Where two interfaces share a field
  name, or a field name is an Isabelle keyword, the field carries a prefix (\<open>ev_\<close>,
  \<open>pd_\<close>, \<open>fp_\<close>, \<open>fd_\<close>, \<open>dm_\<close>, \<open>env_\<close>, \<open>risk_\<close>, \<open>md_\<close>). Optional fields
  that the scanner never writes (\<open>capabilities\<close>, \<open>metadata.dependencies\<close>,
  \<open>metadata.configFiles\<close>, \<open>modelProvider\<close>, \<open>modelId\<close>, \<open>location.repository\<close>) are
  left out, and so are the human-readable \<open>description\<close> of a risk flag and the two clock
  readings of the result summary (\<open>scanDuration\<close>, \<open>timestamp\<close>).
\<close>

datatype AgentFramework =
    Langchain | Langgraph | Crewai | Autogen | SemanticKernel | Haystack | Llamaindex
  | OpenaiAssistants | AnthropicClaude | AwsBedrock | GoogleVertex | VercelAi
  | Custom | UnknownFramework

fun framework_name :: "AgentFramework \<Rightarrow> string" where
  "framework_name Langchain = ''langchain''"
| "framework_name Langgraph = ''langgraph''"
| "framework_name Crewai = ''crewai''"
| "framework_name Autogen = ''autogen''"
| "framework_name SemanticKernel = ''semantic-kernel''"
| "framework_name Haystack = ''haystack''"
| "framework_name Llamaindex = ''llamaindex''"
| "framework_name OpenaiAssistants = ''openai-assistants''"
| "framework_name AnthropicClaude = ''anthropic-claude''"
| "framework_name AwsBedrock = ''aws-bedrock''"
| "framework_name GoogleVertex = ''google-vertex''"
| "framework_name VercelAi = ''vercel-ai''"
| "framework_name Custom = ''custom''"
| "framework_name UnknownFramework = ''unknown''"

datatype Language = Python | Typescript | Javascript | UnknownLanguage

datatype RiskSeverity = Low | Medium | High | Critical

datatype EvidenceType = Import | Instantiation | ConfigFile | Dependency | EnvVar | CodePattern

datatype ScanType = LocalScan | GithubScan | CloudScan

datatype Phase = Discovering | Scanning | Analyzing | Enriching | Complete

type_synonym Date = int

record AgentLocation =
  filePath :: string
  line :: "nat option"
  column :: "nat option"

record RiskFlag =
  severity :: RiskSeverity
  risk_type :: string

record DetectionEvidence =
  ev_type :: EvidenceType
  ev_pattern :: string
  matchedText :: string
  ev_filePath :: string
  ev_line :: "nat option"
  confidenceContribution :: rat

record AgentMetadata =
  language :: Language
  entryPoint :: "string option"
  owner :: "string option"
  lastModified :: "Date option"

record AgentRecord =
  agent_id :: string
  name :: string
  framework :: AgentFramework
  confidence :: rat
  location :: AgentLocation
  metadata :: AgentMetadata
  risks :: "RiskFlag list option"
  evidence :: "DetectionEvidence list"

record PatternDefinition =
  pattern :: string
  pd_type :: EvidenceType
  pd_confidence :: rat
  description :: string

record FrameworkPatterns =
  fp_framework :: AgentFramework
  displayName :: string
  languages :: "Language list"
  fp_imports :: "PatternDefinition list"
  instantiations :: "PatternDefinition list"
  configFiles :: "string list option"
  dependencies :: "string list option"

record GithubOptions =
  org :: string
  token :: string
  repos :: "string list option"

record ScanOptions =
  opt_path :: "string option"
  github :: "GithubOptions option"
  excludePatterns :: "string list option"
  confidenceThreshold :: "rat option"
  maxFiles :: "int option"

record ScanProgress =
  phase :: Phase
  filesDiscovered :: nat
  filesScanned :: nat
  agentsFound :: nat
  currentFile :: "string option"

record ScanSummary =
  totalAgents :: nat
  totalFiles :: nat
  totalRepositories :: nat
  scanType :: ScanType
  scanPath :: string

record RiskSummary =
  critical :: nat
  high :: nat
  medium :: nat
  low :: nat
  details :: "RiskFlag list"

record ScanMetadata =
  md_scanType :: ScanType
  paths :: "string list"
  excludedPaths :: "string list"
  md_confidenceThreshold :: rat
  version :: string

record ScanResult =
  summary :: ScanSummary
  agents :: "AgentRecord list"
  frameworkBreakdown :: "(string \<times> nat) list"
  result_risks :: RiskSummary
  result_metadata :: ScanMetadata

text \<open>The interfaces of file-analyzer.ts, git-blame.ts and patterns/config.\<close>

record FileDetection =
  fd_framework :: AgentFramework
  fd_displayName :: string
  fd_evidence :: "DetectionEvidence list"
  totalConfidence :: rat

record FileAnalysisResult =
  far_filePath :: string
  far_language :: Language
  detections :: "FileDetection list"

record GitBlameResult =
  blame_owner :: "string option"
  blame_lastModified :: "Date option"
  authors :: "string list"

datatype DependencyLanguage = DepPython | DepTypescript | DepJavascript | DepAny

record DependencyMapping =
  dm_name :: string
  dm_framework :: AgentFramework
  dm_confidence :: rat
  dm_language :: DependencyLanguage

record EnvVarPattern =
  env_pattern :: string
  provider :: string
  env_confidence :: rat

section \<open>What the scanner takes from its runtime\<close>

text \<open>
  The scanner calls libraries and the operating system; their answers are parameters of the
  model. A regular expression is kept as its source text (\<open>RegExp.prototype.source\<close>), and
  \<open>regexExec src s\<close> is \<open>match[0]\<close> of \<open>new RegExp(src).exec(s)\<close>, \<open>None\<close> for \<open>null\<close>
  (no pattern of the tables carries a flag, so \<open>exec\<close> and \<open>test\<close> keep no state between
  calls). \<open>packageJsonDeps\<close> is \<open>JSON.parse\<close> followed by the spread of \<open>dependencies\<close>
  and \<open>devDependencies\<close>: the entries of \<open>allDeps\<close> in key order, each value as the
  template literal prints it, \<open>None\<close> when anything in that block throws. \<open>randomUUID k\<close>
  is the value of the \<open>k\<close>-th call of \<open>crypto.randomUUID\<close>. \<open>isGitRepo\<close> and
  \<open>getFileBlame\<close> are the answers of git for the scan path. Two functions of the
  repository itself are parameters as well, because they consist of regular-expression
  searches and clock readings and no property below depends on what they return:
  \<open>extractAgentName\<close> (file-analyzer.ts) and \<open>evaluateAgentRisks\<close> (risk.ts).
\<close>

type_synonym RegExpEngine = "string \<Rightarrow> string \<Rightarrow> string option"

record Runtime =
  regexExec :: RegExpEngine
  packageJsonDeps :: "string \<Rightarrow> (string \<times> string) list option"
  randomUUID :: "nat \<Rightarrow> string"
  extractAgentName :: "string \<Rightarrow> string option \<Rightarrow> string"
  isGitRepo :: bool
  getFileBlame :: "string \<Rightarrow> GitBlameResult"
  evaluateAgentRisks :: "AgentRecord \<Rightarrow> RiskFlag list"
  cwd :: string

text \<open>
  The scanned tree: the files the glob returns, in its order, each with what \<open>stat\<close> and
  \<open>readFile\<close> answer (\<open>None\<close> when the call throws), and the verdict of the ignore filter
  (built from .gitignore, the skip directories and the caller's exclusions).
\<close>

record FileEntry =
  path :: string
  fileSize :: "nat option"
  content :: "string option"

record FileTree =
  globResult :: "FileEntry list"
  ignores :: "string \<Rightarrow> bool"

section \<open>Pattern registry (patterns/)\<close>

text \<open>
  The tables are copied entry by entry. In a regular-expression source or a string,
  \<open>CHR 0x5C\<close> is the backslash, \<open>CHR 0x22\<close> the double quote and \<open>CHR 0x27\<close> the single
  quote; weights are written as fractions (0.3 is \<open>3 / 10\<close>).
\<close>

definition langchainPatterns :: FrameworkPatterns where
  \<open>langchainPatterns = \<lparr>
    fp_framework = Langchain,
    displayName = ''LangChain'',
    languages = [Python],
    fp_imports = [
      \<lparr>pattern = (''from'' @ [CHR 0x5C] @ ''s+langchain[._'' @ [CHR 0x5C] @ ''s]''),
        pd_type = Import, pd_confidence = 3 / 10,
        description = ''LangChain import''\<rparr>,
      \<lparr>pattern = (''import'' @ [CHR 0x5C] @ ''s+langchain''),
        pd_type = Import, pd_confidence = 3 / 10,
        description = ''LangChain module import''\<rparr>,
      \<lparr>pattern = (''from'' @ [CHR 0x5C] @ ''s+langchain_core''),
        pd_type = Import, pd_confidence = 3 / 10,
        description = ''LangChain Core import''\<rparr>,
      \<lparr>pattern = (''from'' @ [CHR 0x5C] @ ''s+langchain_openai''),
        pd_type = Import, pd_confidence = 3 / 10,
        description = ''LangChain OpenAI integration''\<rparr>,
      \<lparr>pattern = (''from'' @ [CHR 0x5C] @ ''s+langchain_anthropic''),
        pd_type = Import, pd_confidence = 3 / 10,
        description = ''LangChain Anthropic integration''\<rparr>,
      \<lparr>pattern = (''from'' @ [CHR 0x5C] @ ''s+langchain_community''),
        pd_type = Import, pd_confidence = 3 / 10,
        description = ''LangChain Community import''\<rparr>],
    instantiations = [
      \<lparr>pattern = (''AgentExecutor'' @ [CHR 0x5C] @ ''s*'' @ [CHR 0x5C] @ ''(''),
        pd_type = Instantiation, pd_confidence = 3 / 10,
        description = ''LangChain AgentExecutor instantiation''\<rparr>,
      \<lparr>pattern = (''create_react_agent'' @ [CHR 0x5C] @ ''s*'' @ [CHR 0x5C] @ ''(''),
        pd_type = Instantiation, pd_confidence = 3 / 10,
        description = ''LangChain React agent creation''\<rparr>,
      \<lparr>pattern = (''create_openai_functions_agent'' @ [CHR 0x5C] @ ''s*'' @ [CHR 0x5C] @ ''(''),
        pd_type = Instantiation, pd_confidence = 3 / 10,
        description = ''LangChain OpenAI Functions agent''\<rparr>,
      \<lparr>pattern = (''initialize_agent'' @ [CHR 0x5C] @ ''s*'' @ [CHR 0x5C] @ ''(''),
        pd_type = Instantiation, pd_confidence = 3 / 10,
        description = ''LangChain agent initialization''\<rparr>,
      \<lparr>pattern = (''create_tool_calling_agent'' @ [CHR 0x5C] @ ''s*'' @ [CHR 0x5C] @ ''(''),
        pd_type = Instantiation, pd_confidence = 3 / 10,
        description = ''LangChain tool-calling agent''\<rparr>],
    configFiles = None,
    dependencies = Some [''langchain'', ''langchain-core'', ''langchain-openai'', ''langchain-anthropic'', ''langchain-community'']\<rparr>\<close>

definition langgraphPatterns :: FrameworkPatterns where
  \<open>langgraphPatterns = \<lparr>
    fp_framework = Langgraph,
    displayName = ''LangGraph'',
    languages = [Python],
    fp_imports = [
      \<lparr>pattern = (''from'' @ [CHR 0x5C] @ ''s+langgraph''),
        pd_type = Import, pd_confidence = 3 / 10,
        description = ''LangGraph import''\<rparr>,
      \<lparr>pattern = (''import'' @ [CHR 0x5C] @ ''s+langgraph''),
        pd_type = Import, pd_confidence = 3 / 10,
        description = ''LangGraph module import''\<rparr>],
    instantiations = [
      \<lparr>pattern = (''StateGraph'' @ [CHR 0x5C] @ ''s*'' @ [CHR 0x5C] @ ''(''),
        pd_type = Instantiation, pd_confidence = 3 / 10,
        description = ''LangGraph StateGraph creation''\<rparr>,
      \<lparr>pattern = ([CHR 0x5C] @ ''.compile'' @ [CHR 0x5C] @ ''s*'' @ [CHR 0x5C] @ ''('' @ [CHR 0x5C] @ ''s*'' @ [CHR 0x5C] @ '')''),
        pd_type = Instantiation, pd_confidence = 3 / 20,
        description = ''LangGraph graph compilation''\<rparr>,
      \<lparr>pattern = (''MessageGraph'' @ [CHR 0x5C] @ ''s*'' @ [CHR 0x5C] @ ''(''),
        pd_type = Instantiation, pd_confidence = 3 / 10,
        description = ''LangGraph MessageGraph creation''\<rparr>],
    configFiles = None,
    dependencies = Some [''langgraph'', ''langgraph-checkpoint'']\<rparr>\<close>

definition crewaiPatterns :: FrameworkPatterns where
  \<open>crewaiPatterns = \<lparr>
    fp_framework = Crewai,
    displayName = ''CrewAI'',
    languages = [Python],
    fp_imports = [
      \<lparr>pattern = (''from'' @ [CHR 0x5C] @ ''s+crewai'' @ [CHR 0x5C] @ ''s+import''),
        pd_type = Import, pd_confidence = 3 / 10,
        description = ''CrewAI import''\<rparr>,
      \<lparr>pattern = (''import'' @ [CHR 0x5C] @ ''s+crewai''),
        pd_type = Import, pd_confidence = 3 / 10,
        description = ''CrewAI module import''\<rparr>,
      \<lparr>pattern = (''from'' @ [CHR 0x5C] @ ''s+crewai_tools''),
        pd_type = Import, pd_confidence = 1 / 4,
        description = ''CrewAI tools import''\<rparr>,
      \<lparr>pattern = (''from'' @ [CHR 0x5C] @ ''s+crewai'' @ [CHR 0x5C] @ ''.project'' @ [CHR 0x5C] @ ''s+import''),
        pd_type = Import, pd_confidence = 3 / 10,
        description = ''CrewAI project import''\<rparr>],
    instantiations = [
      \<lparr>pattern = (''Crew'' @ [CHR 0x5C] @ ''s*'' @ [CHR 0x5C] @ ''(''),
        pd_type = Instantiation, pd_confidence = 3 / 10,
        description = ''CrewAI Crew instantiation''\<rparr>,
      \<lparr>pattern = ''@CrewBase'',
        pd_type = Instantiation, pd_confidence = 3 / 10,
        description = ''CrewAI class decorator''\<rparr>,
      \<lparr>pattern = (''@agent'' @ [CHR 0x5C] @ ''b''),
        pd_type = CodePattern, pd_confidence = 3 / 20,
        description = ''CrewAI agent decorator''\<rparr>,
      \<lparr>pattern = (''@task'' @ [CHR 0x5C] @ ''b''),
        pd_type = CodePattern, pd_confidence = 3 / 20,
        description = ''CrewAI task decorator''\<rparr>],
    configFiles = Some [''crewai.yaml'', ''crewai.yml''],
    dependencies = Some [''crewai'', ''crewai-tools'']\<rparr>\<close>

definition autogenPatterns :: FrameworkPatterns where
  \<open>autogenPatterns = \<lparr>
    fp_framework = Autogen,
    displayName = ''AutoGen / AG2'',
    languages = [Python],
    fp_imports = [
      \<lparr>pattern = (''from'' @ [CHR 0x5C] @ ''s+autogen'' @ [CHR 0x5C] @ ''s+import''),
        pd_type = Import, pd_confidence = 3 / 10,
        description = ''AutoGen import''\<rparr>,
      \<lparr>pattern = (''import'' @ [CHR 0x5C] @ ''s+autogen''),
        pd_type = Import, pd_confidence = 3 / 10,
        description = ''AutoGen module import''\<rparr>,
      \<lparr>pattern = (''from'' @ [CHR 0x5C] @ ''s+pyautogen''),
        pd_type = Import, pd_confidence = 3 / 10,
        description = ''PyAutoGen import''\<rparr>,
      \<lparr>pattern = (''from'' @ [CHR 0x5C] @ ''s+ag2'' @ [CHR 0x5C] @ ''s+import''),
        pd_type = Import, pd_confidence = 3 / 10,
        description = ''AG2 import''\<rparr>,
      \<lparr>pattern = (''import'' @ [CHR 0x5C] @ ''s+ag2''),
        pd_type = Import, pd_confidence = 3 / 10,
        description = ''AG2 module import''\<rparr>,
      \<lparr>pattern = (''from'' @ [CHR 0x5C] @ ''s+autogen_agentchat''),
        pd_type = Import, pd_confidence = 3 / 10,
        description = ''AutoGen AgentChat import''\<rparr>],
    instantiations = [
      \<lparr>pattern = (''AssistantAgent'' @ [CHR 0x5C] @ ''s*'' @ [CHR 0x5C] @ ''(''),
        pd_type = Instantiation, pd_confidence = 3 / 10,
        description = ''AutoGen AssistantAgent''\<rparr>,
      \<lparr>pattern = (''UserProxyAgent'' @ [CHR 0x5C] @ ''s*'' @ [CHR 0x5C] @ ''(''),
        pd_type = Instantiation, pd_confidence = 3 / 10,
        description = ''AutoGen UserProxyAgent''\<rparr>,
      \<lparr>pattern = (''ConversableAgent'' @ [CHR 0x5C] @ ''s*'' @ [CHR 0x5C] @ ''(''),
        pd_type = Instantiation, pd_confidence = 3 / 10,
        description = ''AutoGen ConversableAgent''\<rparr>,
      \<lparr>pattern = (''GroupChat'' @ [CHR 0x5C] @ ''s*'' @ [CHR 0x5C] @ ''(''),
        pd_type = Instantiation, pd_confidence = 1 / 4,
        description = ''AutoGen GroupChat''\<rparr>],
    configFiles = None,
    dependencies = Some [''autogen'', ''pyautogen'', ''ag2'', ''autogen-agentchat'']\<rparr>\<close>

definition semanticKernelPatterns :: FrameworkPatterns where
  \<open>semanticKernelPatterns = \<lparr>
    fp_framework = SemanticKernel,
    displayName = ''Semantic Kernel'',
    languages = [Python],
    fp_imports = [
      \<lparr>pattern = (''from'' @ [CHR 0x5C] @ ''s+semantic_kernel''),
        pd_type = Import, pd_confidence = 3 / 10,
        description = ''Semantic Kernel import''\<rparr>,
      \<lparr>pattern = (''import'' @ [CHR 0x5C] @ ''s+semantic_kernel''),
        pd_type = Import, pd_confidence = 3 / 10,
        description = ''Semantic Kernel module import''\<rparr>],
    instantiations = [
      \<lparr>pattern = (''Kernel'' @ [CHR 0x5C] @ ''s*'' @ [CHR 0x5C] @ ''('' @ [CHR 0x5C] @ ''s*'' @ [CHR 0x5C] @ '')''),
        pd_type = Instantiation, pd_confidence = 1 / 4,
        description = ''Semantic Kernel instantiation''\<rparr>,
      \<lparr>pattern = (''ChatCompletionAgent'' @ [CHR 0x5C] @ ''s*'' @ [CHR 0x5C] @ ''(''),
        pd_type = Instantiation, pd_confidence = 3 / 10,
        description = ''Semantic Kernel ChatCompletionAgent''\<rparr>],
    configFiles = None,
    dependencies = Some [''semantic-kernel'']\<rparr>\<close>

definition haystackPatterns :: FrameworkPatterns where
  \<open>haystackPatterns = \<lparr>
    fp_framework = Haystack,
    displayName = ''Haystack'',
    languages = [Python],
    fp_imports = [
      \<lparr>pattern = (''from'' @ [CHR 0x5C] @ ''s+haystack'' @ [CHR 0x5C] @ ''.components'' @ [CHR 0x5C] @ ''.agents''),
        pd_type = Import, pd_confidence = 3 / 10,
        description = ''Haystack agents import''\<rparr>,
      \<lparr>pattern = (''from'' @ [CHR 0x5C] @ ''s+haystack''),
        pd_type = Import, pd_confidence = 1 / 5,
        description = ''Haystack import''\<rparr>],
    instantiations = [
      \<lparr>pattern = (''Pipeline'' @ [CHR 0x5C] @ ''s*'' @ [CHR 0x5C] @ ''('' @ [CHR 0x5C] @ ''s*'' @ [CHR 0x5C] @ '')''),
        pd_type = Instantiation, pd_confidence = 3 / 20,
        description = ''Haystack Pipeline instantiation''\<rparr>],
    configFiles = None,
    dependencies = Some [''haystack'', ''haystack-ai'', ''haystack-experimental'']\<rparr>\<close>

definition llamaindexPatterns :: FrameworkPatterns where
  \<open>llamaindexPatterns = \<lparr>
    fp_framework = Llamaindex,
    displayName = ''LlamaIndex'',
    languages = [Python],
    fp_imports = [
      \<lparr>pattern = (''from'' @ [CHR 0x5C] @ ''s+llama_index''),
        pd_type = Import, pd_confidence = 1 / 4,
        description = ''LlamaIndex import''\<rparr>,
      \<lparr>pattern = (''import'' @ [CHR 0x5C] @ ''s+llama_index''),
        pd_type = Import, pd_confidence = 1 / 4,
        description = ''LlamaIndex module import''\<rparr>],
    instantiations = [
      \<lparr>pattern = (''VectorStoreIndex'' @ [CHR 0x5C] @ ''s*'' @ [CHR 0x5C] @ ''(''),
        pd_type = Instantiation, pd_confidence = 3 / 20,
        description = ''LlamaIndex VectorStoreIndex''\<rparr>,
      \<lparr>pattern = (''QueryEngine'' @ [CHR 0x5C] @ ''s*'' @ [CHR 0x5C] @ ''(''),
        pd_type = Instantiation, pd_confidence = 1 / 5,
        description = ''LlamaIndex QueryEngine''\<rparr>],
    configFiles = None,
    dependencies = Some [''llama-index'', ''llama-index-core'']\<rparr>\<close>

definition openaiAssistantsPatterns :: FrameworkPatterns where
  \<open>openaiAssistantsPatterns = \<lparr>
    fp_framework = OpenaiAssistants,
    displayName = ''OpenAI Assistants'',
    languages = [Python],
    fp_imports = [
      \<lparr>pattern = (''from'' @ [CHR 0x5C] @ ''s+openai'' @ [CHR 0x5C] @ ''s+import''),
        pd_type = Import, pd_confidence = 1 / 5,
        description = ''OpenAI import''\<rparr>,
      \<lparr>pattern = (''import'' @ [CHR 0x5C] @ ''s+openai''),
        pd_type = Import, pd_confidence = 1 / 5,
        description = ''OpenAI module import''\<rparr>],
    instantiations = [
      \<lparr>pattern = ([CHR 0x5C] @ ''.beta'' @ [CHR 0x5C] @ ''.assistants'' @ [CHR 0x5C] @ ''.create'' @ [CHR 0x5C] @ ''s*'' @ [CHR 0x5C] @ ''(''),
        pd_type = Instantiation, pd_confidence = 7 / 20,
        description = ''OpenAI Assistants API create''\<rparr>,
      \<lparr>pattern = ([CHR 0x5C] @ ''.beta'' @ [CHR 0x5C] @ ''.threads'' @ [CHR 0x5C] @ ''.create'' @ [CHR 0x5C] @ ''s*'' @ [CHR 0x5C] @ ''(''),
        pd_type = Instantiation, pd_confidence = 1 / 4,
        description = ''OpenAI Threads API create''\<rparr>,
      \<lparr>pattern = (''client'' @ [CHR 0x5C] @ ''.beta'' @ [CHR 0x5C] @ ''.assistants''),
        pd_type = Instantiation, pd_confidence = 3 / 10,
        description = ''OpenAI Assistants API access''\<rparr>],
    configFiles = None,
    dependencies = Some [''openai'']\<rparr>\<close>

definition anthropicPatterns :: FrameworkPatterns where
  \<open>anthropicPatterns = \<lparr>
    fp_framework = AnthropicClaude,
    displayName = ''Anthropic Claude'',
    languages = [Python],
    fp_imports = [
      \<lparr>pattern = (''from'' @ [CHR 0x5C] @ ''s+anthropic'' @ [CHR 0x5C] @ ''s+import''),
        pd_type = Import, pd_confidence = 1 / 5,
        description = ''Anthropic import''\<rparr>,
      \<lparr>pattern = (''from'' @ [CHR 0x5C] @ ''s+claude_agent_sdk''),
        pd_type = Import, pd_confidence = 7 / 20,
        description = ''Claude Agent SDK import''\<rparr>],
    instantiations = [
      \<lparr>pattern = ''tool_use'',
        pd_type = CodePattern, pd_confidence = 1 / 5,
        description = ''Anthropic tool_use pattern''\<rparr>,
      \<lparr>pattern = (''ClaudeAgentOptions'' @ [CHR 0x5C] @ ''s*'' @ [CHR 0x5C] @ ''(''),
        pd_type = Instantiation, pd_confidence = 7 / 20,
        description = ''Claude Agent SDK instantiation''\<rparr>],
    configFiles = None,
    dependencies = Some [''anthropic'', ''claude-agent-sdk'']\<rparr>\<close>

definition awsBedrockPatterns :: FrameworkPatterns where
  \<open>awsBedrockPatterns = \<lparr>
    fp_framework = AwsBedrock,
    displayName = ''AWS Bedrock Agents'',
    languages = [Python],
    fp_imports = [
      \<lparr>pattern = (''boto3'' @ [CHR 0x5C] @ ''.client'' @ [CHR 0x5C] @ ''s*'' @ [CHR 0x5C] @ ''('' @ [CHR 0x5C] @ ''s*['' @ [CHR 0x27, CHR 0x22] @ '']bedrock-agent['' @ [CHR 0x27, CHR 0x22] @ '']'' @ [CHR 0x5C] @ ''s*'' @ [CHR 0x5C] @ '')''),
        pd_type = Import, pd_confidence = 7 / 20,
        description = ''AWS Bedrock Agent client''\<rparr>,
      \<lparr>pattern = (''boto3'' @ [CHR 0x5C] @ ''.client'' @ [CHR 0x5C] @ ''s*'' @ [CHR 0x5C] @ ''('' @ [CHR 0x5C] @ ''s*['' @ [CHR 0x27, CHR 0x22] @ '']bedrock-agent-runtime['' @ [CHR 0x27, CHR 0x22] @ '']'' @ [CHR 0x5C] @ ''s*'' @ [CHR 0x5C] @ '')''),
        pd_type = Import, pd_confidence = 7 / 20,
        description = ''AWS Bedrock Agent Runtime client''\<rparr>,
      \<lparr>pattern = (''boto3'' @ [CHR 0x5C] @ ''.client'' @ [CHR 0x5C] @ ''s*'' @ [CHR 0x5C] @ ''('' @ [CHR 0x5C] @ ''s*['' @ [CHR 0x27, CHR 0x22] @ '']bedrock['' @ [CHR 0x27, CHR 0x22] @ '']'' @ [CHR 0x5C] @ ''s*'' @ [CHR 0x5C] @ '')''),
        pd_type = Import, pd_confidence = 1 / 5,
        description = ''AWS Bedrock client''\<rparr>],
    instantiations = [
      \<lparr>pattern = (''create_agent'' @ [CHR 0x5C] @ ''s*'' @ [CHR 0x5C] @ ''(''),
        pd_type = Instantiation, pd_confidence = 1 / 5,
        description = ''Bedrock create_agent call''\<rparr>,
      \<lparr>pattern = (''invoke_agent'' @ [CHR 0x5C] @ ''s*'' @ [CHR 0x5C] @ ''(''),
        pd_type = Instantiation, pd_confidence = 1 / 4,
        description = ''Bedrock invoke_agent call''\<rparr>],
    configFiles = None,
    dependencies = Some [''boto3'']\<rparr>\<close>

definition googleVertexPatterns :: FrameworkPatterns where
  \<open>googleVertexPatterns = \<lparr>
    fp_framework = GoogleVertex,
    displayName = ''Google Vertex AI'',
    languages = [Python],
    fp_imports = [
      \<lparr>pattern = (''from'' @ [CHR 0x5C] @ ''s+vertexai'' @ [CHR 0x5C] @ ''s+import'' @ [CHR 0x5C] @ ''s+agent_engines''),
        pd_type = Import, pd_confidence = 7 / 20,
        description = ''Vertex AI agent_engines import''\<rparr>,
      \<lparr>pattern = (''import'' @ [CHR 0x5C] @ ''s+vertexai''),
        pd_type = Import, pd_confidence = 3 / 20,
        description = ''Vertex AI import''\<rparr>,
      \<lparr>pattern = (''from'' @ [CHR 0x5C] @ ''s+langchain_google_vertexai''),
        pd_type = Import, pd_confidence = 1 / 4,
        description = ''LangChain Google Vertex AI integration''\<rparr>],
    instantiations = [
      \<lparr>pattern = (''agent_engines'' @ [CHR 0x5C] @ ''.create''),
        pd_type = Instantiation, pd_confidence = 3 / 10,
        description = ''Vertex AI agent engine creation''\<rparr>],
    configFiles = None,
    dependencies = Some [''vertexai'', ''langchain-google-vertexai'']\<rparr>\<close>

definition vercelAiPatterns :: FrameworkPatterns where
  \<open>vercelAiPatterns = \<lparr>
    fp_framework = VercelAi,
    displayName = ''Vercel AI SDK'',
    languages = [Typescript, Javascript],
    fp_imports = [
      \<lparr>pattern = (''from'' @ [CHR 0x5C] @ ''s+['' @ [CHR 0x22, CHR 0x27] @ '']ai['' @ [CHR 0x22, CHR 0x27] @ '']''),
        pd_type = Import, pd_confidence = 1 / 4,
        description = ''Vercel AI SDK import''\<rparr>,
      \<lparr>pattern = (''from'' @ [CHR 0x5C] @ ''s+['' @ [CHR 0x22, CHR 0x27] @ '']@ai-sdk'' @ [CHR 0x5C] @ ''/''),
        pd_type = Import, pd_confidence = 3 / 10,
        description = ''Vercel AI SDK scoped import''\<rparr>],
    instantiations = [
      \<lparr>pattern = (''generateText'' @ [CHR 0x5C] @ ''s*'' @ [CHR 0x5C] @ ''(''),
        pd_type = Instantiation, pd_confidence = 1 / 5,
        description = ''Vercel AI SDK generateText''\<rparr>,
      \<lparr>pattern = (''streamText'' @ [CHR 0x5C] @ ''s*'' @ [CHR 0x5C] @ ''(''),
        pd_type = Instantiation, pd_confidence = 1 / 5,
        description = ''Vercel AI SDK streamText''\<rparr>,
      \<lparr>pattern = ([CHR 0x5C] @ ''btool'' @ [CHR 0x5C] @ ''s*'' @ [CHR 0x5C] @ ''('' @ [CHR 0x5C] @ ''s*'' @ [CHR 0x5C] @ ''{''),
        pd_type = Instantiation, pd_confidence = 1 / 5,
        description = ''Vercel AI SDK tool definition''\<rparr>],
    configFiles = None,
    dependencies = Some [''ai'', ''@ai-sdk/openai'', ''@ai-sdk/anthropic'', ''@ai-sdk/google'']\<rparr>\<close>

definition openaiSdkJsPatterns :: FrameworkPatterns where
  \<open>openaiSdkJsPatterns = \<lparr>
    fp_framework = OpenaiAssistants,
    displayName = ''OpenAI SDK'',
    languages = [Typescript, Javascript],
    fp_imports = [
      \<lparr>pattern = (''from'' @ [CHR 0x5C] @ ''s+['' @ [CHR 0x22, CHR 0x27] @ '']openai['' @ [CHR 0x22, CHR 0x27] @ '']''),
        pd_type = Import, pd_confidence = 1 / 5,
        description = ''OpenAI SDK import''\<rparr>,
      \<lparr>pattern = (''require'' @ [CHR 0x5C] @ ''s*'' @ [CHR 0x5C] @ ''('' @ [CHR 0x5C] @ ''s*['' @ [CHR 0x22, CHR 0x27] @ '']openai['' @ [CHR 0x22, CHR 0x27] @ '']'' @ [CHR 0x5C] @ ''s*'' @ [CHR 0x5C] @ '')''),
        pd_type = Import, pd_confidence = 1 / 5,
        description = ''OpenAI SDK require''\<rparr>],
    instantiations = [
      \<lparr>pattern = (''new'' @ [CHR 0x5C] @ ''s+OpenAI'' @ [CHR 0x5C] @ ''s*'' @ [CHR 0x5C] @ ''(''),
        pd_type = Instantiation, pd_confidence = 3 / 20,
        description = ''OpenAI client instantiation''\<rparr>,
      \<lparr>pattern = (''chat'' @ [CHR 0x5C] @ ''.completions'' @ [CHR 0x5C] @ ''.create''),
        pd_type = Instantiation, pd_confidence = 3 / 20,
        description = ''OpenAI chat completions''\<rparr>,
      \<lparr>pattern = ([CHR 0x5C] @ ''.beta'' @ [CHR 0x5C] @ ''.assistants''),
        pd_type = Instantiation, pd_confidence = 3 / 10,
        description = ''OpenAI Assistants API''\<rparr>,
      \<lparr>pattern = (''tools'' @ [CHR 0x5C] @ ''s*:'' @ [CHR 0x5C] @ ''s*'' @ [CHR 0x5C] @ ''[''),
        pd_type = CodePattern, pd_confidence = 1 / 10,
        description = ''Tool definitions array''\<rparr>],
    configFiles = None,
    dependencies = Some [''openai'']\<rparr>\<close>

definition langchainJsPatterns :: FrameworkPatterns where
  \<open>langchainJsPatterns = \<lparr>
    fp_framework = Langchain,
    displayName = ''LangChain.js'',
    languages = [Typescript, Javascript],
    fp_imports = [
      \<lparr>pattern = (''from'' @ [CHR 0x5C] @ ''s+['' @ [CHR 0x22, CHR 0x27] @ '']langchain''),
        pd_type = Import, pd_confidence = 3 / 10,
        description = ''LangChain.js import''\<rparr>,
      \<lparr>pattern = (''from'' @ [CHR 0x5C] @ ''s+['' @ [CHR 0x22, CHR 0x27] @ '']@langchain'' @ [CHR 0x5C] @ ''/''),
        pd_type = Import, pd_confidence = 3 / 10,
        description = ''LangChain.js scoped import''\<rparr>,
      \<lparr>pattern = (''require'' @ [CHR 0x5C] @ ''s*'' @ [CHR 0x5C] @ ''('' @ [CHR 0x5C] @ ''s*['' @ [CHR 0x22, CHR 0x27] @ '']langchain''),
        pd_type = Import, pd_confidence = 3 / 10,
        description = ''LangChain.js require''\<rparr>],
    instantiations = [
      \<lparr>pattern = (''new'' @ [CHR 0x5C] @ ''s+AgentExecutor'' @ [CHR 0x5C] @ ''s*'' @ [CHR 0x5C] @ ''(''),
        pd_type = Instantiation, pd_confidence = 3 / 10,
        description = ''LangChain.js AgentExecutor''\<rparr>,
      \<lparr>pattern = (''createReactAgent'' @ [CHR 0x5C] @ ''s*'' @ [CHR 0x5C] @ ''(''),
        pd_type = Instantiation, pd_confidence = 3 / 10,
        description = ''LangChain.js React agent''\<rparr>,
      \<lparr>pattern = (''createOpenAIFunctionsAgent'' @ [CHR 0x5C] @ ''s*'' @ [CHR 0x5C] @ ''(''),
        pd_type = Instantiation, pd_confidence = 3 / 10,
        description = ''LangChain.js OpenAI Functions agent''\<rparr>,
      \<lparr>pattern = (''initializeAgent'' @ [CHR 0x5C] @ ''s*'' @ [CHR 0x5C] @ ''(''),
        pd_type = Instantiation, pd_confidence = 3 / 10,
        description = ''LangChain.js agent initialization''\<rparr>],
    configFiles = None,
    dependencies = Some [''langchain'', ''@langchain/core'', ''@langchain/openai'', ''@langchain/anthropic'', ''@langchain/community'']\<rparr>\<close>

definition DEPENDENCY_MAPPINGS :: "DependencyMapping list" where
  \<open>DEPENDENCY_MAPPINGS = [
    \<lparr>dm_name = ''langchain'', dm_framework = Langchain, dm_confidence = 3 / 10, dm_language = DepPython\<rparr>,
    \<lparr>dm_name = ''langchain-core'', dm_framework = Langchain, dm_confidence = 3 / 10, dm_language = DepPython\<rparr>,
    \<lparr>dm_name = ''langchain-openai'', dm_framework = Langchain, dm_confidence = 3 / 10, dm_language = DepPython\<rparr>,
    \<lparr>dm_name = ''langchain-anthropic'', dm_framework = Langchain, dm_confidence = 3 / 10, dm_language = DepPython\<rparr>,
    \<lparr>dm_name = ''langchain-community'', dm_framework = Langchain, dm_confidence = 3 / 10, dm_language = DepPython\<rparr>,
    \<lparr>dm_name = ''langgraph'', dm_framework = Langgraph, dm_confidence = 3 / 10, dm_language = DepPython\<rparr>,
    \<lparr>dm_name = ''langgraph-checkpoint'', dm_framework = Langgraph, dm_confidence = 1 / 4, dm_language = DepPython\<rparr>,
    \<lparr>dm_name = ''crewai'', dm_framework = Crewai, dm_confidence = 3 / 10, dm_language = DepPython\<rparr>,
    \<lparr>dm_name = ''crewai-tools'', dm_framework = Crewai, dm_confidence = 1 / 4, dm_language = DepPython\<rparr>,
    \<lparr>dm_name = ''autogen'', dm_framework = Autogen, dm_confidence = 3 / 10, dm_language = DepPython\<rparr>,
    \<lparr>dm_name = ''pyautogen'', dm_framework = Autogen, dm_confidence = 3 / 10, dm_language = DepPython\<rparr>,
    \<lparr>dm_name = ''ag2'', dm_framework = Autogen, dm_confidence = 3 / 10, dm_language = DepPython\<rparr>,
    \<lparr>dm_name = ''autogen-agentchat'', dm_framework = Autogen, dm_confidence = 3 / 10, dm_language = DepPython\<rparr>,
    \<lparr>dm_name = ''semantic-kernel'', dm_framework = SemanticKernel, dm_confidence = 3 / 10, dm_language = DepPython\<rparr>,
    \<lparr>dm_name = ''haystack-ai'', dm_framework = Haystack, dm_confidence = 3 / 10, dm_language = DepPython\<rparr>,
    \<lparr>dm_name = ''haystack'', dm_framework = Haystack, dm_confidence = 1 / 4, dm_language = DepPython\<rparr>,
    \<lparr>dm_name = ''llama-index'', dm_framework = Llamaindex, dm_confidence = 1 / 4, dm_language = DepPython\<rparr>,
    \<lparr>dm_name = ''llama-index-core'', dm_framework = Llamaindex, dm_confidence = 1 / 4, dm_language = DepPython\<rparr>,
    \<lparr>dm_name = ''openai'', dm_framework = OpenaiAssistants, dm_confidence = 3 / 20, dm_language = DepAny\<rparr>,
    \<lparr>dm_name = ''anthropic'', dm_framework = AnthropicClaude, dm_confidence = 3 / 20, dm_language = DepAny\<rparr>,
    \<lparr>dm_name = ''claude-agent-sdk'', dm_framework = AnthropicClaude, dm_confidence = 7 / 20, dm_language = DepPython\<rparr>,
    \<lparr>dm_name = ''vertexai'', dm_framework = GoogleVertex, dm_confidence = 1 / 5, dm_language = DepPython\<rparr>,
    \<lparr>dm_name = ''langchain-google-vertexai'', dm_framework = GoogleVertex, dm_confidence = 1 / 4, dm_language = DepPython\<rparr>,
    \<lparr>dm_name = ''@langchain/core'', dm_framework = Langchain, dm_confidence = 3 / 10, dm_language = DepTypescript\<rparr>,
    \<lparr>dm_name = ''@langchain/openai'', dm_framework = Langchain, dm_confidence = 3 / 10, dm_language = DepTypescript\<rparr>,
    \<lparr>dm_name = ''@langchain/anthropic'', dm_framework = Langchain, dm_confidence = 3 / 10, dm_language = DepTypescript\<rparr>,
    \<lparr>dm_name = ''@langchain/community'', dm_framework = Langchain, dm_confidence = 3 / 10, dm_language = DepTypescript\<rparr>,
    \<lparr>dm_name = ''ai'', dm_framework = VercelAi, dm_confidence = 1 / 5, dm_language = DepTypescript\<rparr>,
    \<lparr>dm_name = ''@ai-sdk/openai'', dm_framework = VercelAi, dm_confidence = 1 / 4, dm_language = DepTypescript\<rparr>,
    \<lparr>dm_name = ''@ai-sdk/anthropic'', dm_framework = VercelAi, dm_confidence = 1 / 4, dm_language = DepTypescript\<rparr>,
    \<lparr>dm_name = ''@ai-sdk/google'', dm_framework = VercelAi, dm_confidence = 1 / 4, dm_language = DepTypescript\<rparr>]\<close>

definition ENV_VAR_PATTERNS :: "EnvVarPattern list" where
  \<open>ENV_VAR_PATTERNS = [
    \<lparr>env_pattern = (''OPENAI_API_KEY'' @ [CHR 0x5C] @ ''s*=''), provider = ''openai'', env_confidence = 1 / 10\<rparr>,
    \<lparr>env_pattern = (''ANTHROPIC_API_KEY'' @ [CHR 0x5C] @ ''s*=''), provider = ''anthropic'', env_confidence = 1 / 10\<rparr>,
    \<lparr>env_pattern = (''AZURE_OPENAI_API_KEY'' @ [CHR 0x5C] @ ''s*=''), provider = ''azure-openai'', env_confidence = 1 / 10\<rparr>,
    \<lparr>env_pattern = (''AZURE_OPENAI_ENDPOINT'' @ [CHR 0x5C] @ ''s*=''), provider = ''azure-openai'', env_confidence = 1 / 10\<rparr>,
    \<lparr>env_pattern = (''GOOGLE_API_KEY'' @ [CHR 0x5C] @ ''s*=''), provider = ''google'', env_confidence = 1 / 20\<rparr>,
    \<lparr>env_pattern = (''GEMINI_API_KEY'' @ [CHR 0x5C] @ ''s*=''), provider = ''google'', env_confidence = 1 / 10\<rparr>,
    \<lparr>env_pattern = ''AWS_BEDROCK'', provider = ''aws-bedrock'', env_confidence = 1 / 10\<rparr>,
    \<lparr>env_pattern = (''HUGGINGFACE_API_KEY'' @ [CHR 0x5C] @ ''s*=''), provider = ''huggingface'', env_confidence = 1 / 20\<rparr>,
    \<lparr>env_pattern = (''COHERE_API_KEY'' @ [CHR 0x5C] @ ''s*=''), provider = ''cohere'', env_confidence = 1 / 20\<rparr>,
    \<lparr>env_pattern = (''OPENROUTER_API_KEY'' @ [CHR 0x5C] @ ''s*=''), provider = ''openrouter'', env_confidence = 1 / 10\<rparr>]\<close>

text \<open>patterns/index.ts\<close>

definition ALL_PATTERNS :: "FrameworkPatterns list" where
  "ALL_PATTERNS = [
     langchainPatterns, langgraphPatterns, crewaiPatterns, autogenPatterns,
     semanticKernelPatterns, haystackPatterns, llamaindexPatterns, openaiAssistantsPatterns,
     anthropicPatterns, awsBedrockPatterns, googleVertexPatterns,
     langchainJsPatterns, vercelAiPatterns, openaiSdkJsPatterns]"

definition getPatternsForLanguage :: "Language \<Rightarrow> FrameworkPatterns list" where
  "getPatternsForLanguage lang = filter (\<lambda>p. List.member (languages p) lang) ALL_PATTERNS"

definition array_from_set :: "'a list \<Rightarrow> 'a list" where
  \<comment> \<open>\<open>[...new Set(xs)]\<close>: duplicates dropped, the first occurrence keeps its place\<close>
  "array_from_set xs = rev (remdups (rev xs))"

definition getAgentConfigFileNames :: "string list" where
  "getAgentConfigFileNames =
     (let names = fold (\<lambda>p names. case configFiles p of None \<Rightarrow> names | Some cf \<Rightarrow> names @ cf)
                       ALL_PATTERNS [];
          names = names @ [''agents.yaml'', ''agents.yml'', ''agent.json'',
                           ''agent_config.json'', ''agent_config.yaml'']
      in array_from_set names)"

definition LANGUAGE_EXTENSIONS :: "(string \<times> Language) list" where
  "LANGUAGE_EXTENSIONS = [
     (''.py'', Python), (''.pyw'', Python),
     (''.ts'', Typescript), (''.tsx'', Typescript),
     (''.js'', Javascript), (''.jsx'', Javascript), (''.mjs'', Javascript), (''.cjs'', Javascript)]"

definition DEPENDENCY_FILES :: "string list" where
  "DEPENDENCY_FILES =
     [''requirements.txt'', ''pyproject.toml'', ''setup.py'', ''setup.cfg'', ''Pipfile'', ''package.json'']"

definition SKIP_DIRECTORIES :: "string list" where
  "SKIP_DIRECTORIES = [
     ''node_modules'', ''__pycache__'', ''.git'', ''.svn'', ''.hg'', ''dist'', ''build'', ''.next'',
     ''.nuxt'', ''venv'', ''.venv'', ''env'', ''.env'', ''.tox'', ''.mypy_cache'', ''.pytest_cache'',
     ''coverage'', ''.coverage'', ''htmlcov'', ''.eggs'', ''*.egg-info'', ''.terraform'']"

definition MAX_FILE_SIZE :: nat where
  "MAX_FILE_SIZE = 1000000"

definition CONFIDENCE_THRESHOLDS_REPORT :: rat where
  \<comment> \<open>\<open>CONFIDENCE_THRESHOLDS.REPORT\<close> of analyzers/confidence.ts\<close>
  "CONFIDENCE_THRESHOLDS_REPORT = 4 / 10"

section \<open>Content matcher and confidence aggregator (analyzers/file-analyzer.ts)\<close>

definition truncate_text :: "string \<Rightarrow> nat \<Rightarrow> string" where
  "truncate_text str maxLen = (if length str > maxLen then take maxLen str @ ''...'' else str)"

text \<open>
  The inner loop of \<open>matchPatterns\<close>: the lines from index \<open>i\<close> on, tried in order; the
  \<open>break\<close> is the first equation of the \<open>case\<close> returning without a recursive call.
\<close>

fun scanLines :: "RegExpEngine \<Rightarrow> PatternDefinition \<Rightarrow> string \<Rightarrow> string list \<Rightarrow> nat
                  \<Rightarrow> DetectionEvidence list" where
  "scanLines rx patternDef fp [] i = []"
| "scanLines rx patternDef fp (l # ls) i =
     (case rx (pattern patternDef) l of
        Some m \<Rightarrow> [\<lparr>ev_type = pd_type patternDef,
                    ev_pattern = pattern patternDef,
                    matchedText = truncate_text m 200,
                    ev_filePath = fp,
                    ev_line = Some (i + 1),
                    confidenceContribution = pd_confidence patternDef\<rparr>]
      | None \<Rightarrow> scanLines rx patternDef fp ls (i + 1))"

definition matchPatterns :: "RegExpEngine \<Rightarrow> string \<Rightarrow> string \<Rightarrow> FrameworkPatterns
                             \<Rightarrow> DetectionEvidence list" where
  "matchPatterns rx cont fp frameworkPatterns =
     (let lines = split_on (CHR 0x0A) cont;
          allPatternDefs = fp_imports frameworkPatterns @ instantiations frameworkPatterns
      in fold (\<lambda>patternDef evidence. evidence @ scanLines rx patternDef fp lines 0)
              allPatternDefs [])"

definition calculateConfidence :: "DetectionEvidence list \<Rightarrow> rat" where
  "calculateConfidence ev =
     (if length ev = 0 then 0
      else
        let (total, typesSeen) =
              fold (\<lambda>e (total, typesSeen). (total + confidenceContribution e, insert (ev_type e) typesSeen))
                   ev (0, {});
            total = (if card typesSeen \<ge> 2 then total + 1 / 10 else total)
        in min 1 (Math_round (total * 100) / 100))"

definition or_empty :: "'a list option \<Rightarrow> 'a list" where
  \<comment> \<open>\<open>xs ?? []\<close>\<close>
  "or_empty xs = (case xs of None \<Rightarrow> [] | Some l \<Rightarrow> l)"

definition deduplicatePatterns :: "FrameworkPatterns list \<Rightarrow> FrameworkPatterns list" where
  "deduplicatePatterns patterns =
     map snd
       (fold (\<lambda>p seen.
                case map_of seen (fp_framework p) of
                  None \<Rightarrow> AList.update (fp_framework p) p seen
                | Some existing \<Rightarrow>
                    AList.update (fp_framework p)
                      (existing\<lparr>fp_imports := fp_imports existing @ fp_imports p,
                                instantiations := instantiations existing @ instantiations p,
                                configFiles := Some (or_empty (configFiles existing) @ or_empty (configFiles p)),
                                dependencies := Some (or_empty (dependencies existing) @ or_empty (dependencies p))\<rparr>)
                      seen)
             patterns [])"

definition detectLanguage :: "string \<Rightarrow> Language" where
  "detectLanguage fp =
     (case map_of LANGUAGE_EXTENSIONS (toLowerCase (extname fp)) of
        None \<Rightarrow> UnknownLanguage
      | Some l \<Rightarrow> l)"

definition detectFrameworks :: "RegExpEngine \<Rightarrow> string \<Rightarrow> string \<Rightarrow> FrameworkPatterns list
                                \<Rightarrow> FileDetection list" where
  \<comment> \<open>the loop over \<open>uniquePatterns\<close> that \<open>analyzeFile\<close> and \<open>analyzeContent\<close> share\<close>
  "detectFrameworks rx cont fp uniquePatterns =
     fold (\<lambda>frameworkPatterns ds.
             let ev = matchPatterns rx cont fp frameworkPatterns
             in if length ev > 0
                then ds @ [\<lparr>fd_framework = fp_framework frameworkPatterns,
                             fd_displayName = displayName frameworkPatterns,
                             fd_evidence = ev,
                             totalConfidence = calculateConfidence ev\<rparr>]
                else ds)
          uniquePatterns []"

definition analyzeFile :: "RegExpEngine \<Rightarrow> string \<Rightarrow> string option \<Rightarrow> FileAnalysisResult" where
  \<comment> \<open>the second argument is the path handed in, the third what \<open>readFile\<close> answers for it\<close>
  "analyzeFile rx fp readResult =
     (let lang = detectLanguage fp;
          result = \<lparr>far_filePath = fp, far_language = lang, detections = []\<rparr>
      in if lang = UnknownLanguage then result
         else case readResult of
                None \<Rightarrow> result
              | Some cont \<Rightarrow>
                  let patterns = getPatternsForLanguage lang;
                      allPatterns =
                        (if lang = Typescript then patterns @ getPatternsForLanguage Javascript
                         else if lang = Javascript then patterns @ getPatternsForLanguage Typescript
                         else patterns);
                      uniquePatterns = deduplicatePatterns allPatterns
                  in result\<lparr>detections := detectFrameworks rx cont fp uniquePatterns\<rparr>)"

section \<open>Auxiliary evidence (scanners/local.ts)\<close>

definition python_dependency :: "DependencyMapping \<Rightarrow> bool" where
  "python_dependency d = (dm_language d = DepPython \<or> dm_language d = DepAny)"

definition js_dependency :: "DependencyMapping \<Rightarrow> bool" where
  "js_dependency d =
     (dm_language d = DepTypescript \<or> dm_language d = DepJavascript \<or> dm_language d = DepAny)"

definition cleanLine :: "string \<Rightarrow> string" where
  \<comment> \<open>\<open>line.trim().toLowerCase().split(/[>=<![#;]/)[0].trim()\<close>: the first piece of a split
      is the text before the first separator character\<close>
  "cleanLine l =
     trim (takeWhile (\<lambda>c. \<not> List.member ''>=<![#;'' c) (toLowerCase (trim l)))"

definition analyzeDependencyFile :: "Runtime \<Rightarrow> string \<Rightarrow> string \<Rightarrow> string
                                     \<Rightarrow> DetectionEvidence list" where
  "analyzeDependencyFile rt cont fp fileName =
     (if fileName = ''requirements.txt'' \<or> fileName = ''Pipfile'' then
        concat (map (\<lambda>l.
          case find (\<lambda>d. dm_name d = cleanLine l \<and> python_dependency d) DEPENDENCY_MAPPINGS of
            None \<Rightarrow> []
          | Some match \<Rightarrow> [\<lparr>ev_type = Dependency,
                              ev_pattern = dm_name match,
                              matchedText = take 200 (trim l),
                              ev_filePath = fp,
                              ev_line = None,
                              confidenceContribution = dm_confidence match\<rparr>])
          (split_on (CHR 0x0A) cont))
      else if fileName = ''pyproject.toml'' then
        concat (map (\<lambda>dep.
          if \<not> python_dependency dep then []
          else if str_includes cont ([CHR 0x22] @ dm_name dep @ [CHR 0x22])
                  \<or> str_includes cont ([CHR 0x27] @ dm_name dep @ [CHR 0x27])
                  \<or> str_includes cont (dm_name dep)
               then [\<lparr>ev_type = Dependency,
                       ev_pattern = dm_name dep,
                       matchedText = dm_name dep,
                       ev_filePath = fp,
                       ev_line = None,
                       confidenceContribution = dm_confidence dep\<rparr>]
               else [])
          DEPENDENCY_MAPPINGS)
      else if fileName = ''package.json'' then
        (case packageJsonDeps rt cont of
           None \<Rightarrow> []
         | Some allDeps \<Rightarrow>
             concat (map (\<lambda>(depName, depVersion).
               case find (\<lambda>d. dm_name d = depName \<and> js_dependency d) DEPENDENCY_MAPPINGS of
                 None \<Rightarrow> []
               | Some match \<Rightarrow> [\<lparr>ev_type = Dependency,
                                   ev_pattern = dm_name match,
                                   matchedText = depName @ '': '' @ depVersion,
                                   ev_filePath = fp,
                                   ev_line = None,
                                   confidenceContribution = dm_confidence match\<rparr>])
               allDeps))
      else [])"

definition redacted_text :: "string \<Rightarrow> string" where
  \<comment> \<open>the template literal of \<open>analyzeEnvFile\<close>\<close>
  "redacted_text prov = prov @ '' API key detected (value redacted)''"

definition analyzeEnvFile :: "RegExpEngine \<Rightarrow> string \<Rightarrow> string \<Rightarrow> DetectionEvidence list" where
  "analyzeEnvFile rx cont fp =
     concat (map (\<lambda>envPattern.
       if rx (env_pattern envPattern) cont \<noteq> None
       then [\<lparr>ev_type = EnvVar,
               ev_pattern = env_pattern envPattern,
               matchedText = redacted_text (provider envPattern),
               ev_filePath = fp,
               ev_line = None,
               confidenceContribution = env_confidence envPattern\<rparr>]
       else [])
       ENV_VAR_PATTERNS)"

section \<open>Agent registry and fold-in of auxiliary evidence (scanners/local.ts)\<close>

text \<open>
  The \<open>Map\<close> from keys to agent records is an association list in insertion order:
  \<open>has\<close>/\<open>get\<close> are \<^const>\<open>map_of\<close>, \<open>set\<close> is \<^const>\<open>AList.update\<close> (a new key goes to the
  end, an old key keeps its place), \<open>values()\<close> is \<open>map snd\<close>. The loops over
  \<open>agentMap.values()\<close> update the records in place, which is a map over the list.
\<close>

type_synonym AgentMap = "(string \<times> AgentRecord) list"

definition alreadyHas :: "EvidenceType \<Rightarrow> AgentRecord \<Rightarrow> DetectionEvidence \<Rightarrow> bool" where
  "alreadyHas ty agent ev =
     list_ex (\<lambda>e. ev_type e = ty \<and> ev_pattern e = ev_pattern ev) (evidence agent)"

definition addDependency :: "DetectionEvidence \<Rightarrow> DependencyMapping \<Rightarrow> AgentRecord \<Rightarrow> AgentRecord" where
  \<comment> \<open>the body of the inner loop of \<open>enrichWithDependencies\<close>\<close>
  "addDependency dep mapping agent =
     (if framework agent = dm_framework mapping then
        if \<not> alreadyHas Dependency agent dep then
          agent\<lparr>evidence := evidence agent @ [dep],
                confidence := min 1 (confidence agent + confidenceContribution dep * (1 / 2))\<rparr>
        else agent
      else agent)"

definition enrichWithDependencies :: "AgentMap \<Rightarrow> DetectionEvidence list \<Rightarrow> AgentMap" where
  "enrichWithDependencies agentMap depEvidence =
     fold (\<lambda>dep m.
             case find (\<lambda>d. dm_name d = ev_pattern dep) DEPENDENCY_MAPPINGS of
               None \<Rightarrow> m
             | Some mapping \<Rightarrow> map (\<lambda>(k, agent). (k, addDependency dep mapping agent)) m)
          depEvidence agentMap"

definition addEnvVar :: "DetectionEvidence \<Rightarrow> AgentRecord \<Rightarrow> AgentRecord" where
  \<comment> \<open>the body of the inner loop of \<open>enrichWithEnvVars\<close>\<close>
  "addEnvVar env agent =
     (if \<not> alreadyHas EnvVar agent env then
        agent\<lparr>evidence := evidence agent @ [env],
              confidence := min 1 (confidence agent + 5 / 100)\<rparr>
      else agent)"

definition enrichWithEnvVars :: "AgentMap \<Rightarrow> DetectionEvidence list \<Rightarrow> AgentMap" where
  "enrichWithEnvVars agentMap envEv =
     fold (\<lambda>env m. map (\<lambda>(k, agent). (k, addEnvVar env agent)) m) envEv agentMap"

section \<open>Ownership and risk enrichment (enrichers/)\<close>

definition enrichWithGitBlame :: "Runtime \<Rightarrow> AgentRecord list \<Rightarrow> AgentRecord list" where
  \<comment> \<open>the cache only saves calls: \<open>getFileBlame\<close> is a function of the path\<close>
  "enrichWithGitBlame rt ags =
     (if \<not> isGitRepo rt then ags
      else map (\<lambda>agent.
                  let blame = getFileBlame rt (filePath (location agent))
                  in agent\<lparr>metadata := (metadata agent)\<lparr>owner := blame_owner blame,
                                                          lastModified := blame_lastModified blame\<rparr>\<rparr>)
               ags)"

definition count_severity :: "RiskSeverity \<Rightarrow> RiskFlag list \<Rightarrow> nat" where
  "count_severity sev flags = length (filter (\<lambda>r. severity r = sev) flags)"

definition enrichWithRisks :: "Runtime \<Rightarrow> AgentRecord list \<Rightarrow> AgentRecord list \<times> RiskSummary" where
  \<comment> \<open>returns the agents with their \<open>risks\<close> field written, and the summary\<close>
  "enrichWithRisks rt ags =
     (let ags' = map (\<lambda>agent. agent\<lparr>risks := Some (evaluateAgentRisks rt agent)\<rparr>) ags;
          allRisks = concat (map (evaluateAgentRisks rt) ags);
          uniqueFrameworks = set (map framework ags);
          allRisks = (if card uniqueFrameworks \<ge> 4
                      then allRisks @ [\<lparr>severity = Medium, risk_type = ''framework-sprawl''\<rparr>]
                      else allRisks);
          allRisks = (if length ags > 20
                      then allRisks @ [\<lparr>severity = High, risk_type = ''high-agent-count''\<rparr>]
                      else allRisks)
      in (ags', \<lparr>critical = count_severity Critical allRisks,
                 high = count_severity High allRisks,
                 medium = count_severity Medium allRisks,
                 low = count_severity Low allRisks,
                 details = allRisks\<rparr>))"

section \<open>The local scan (scanners/local.ts)\<close>

text \<open>
  The mutable locals of \<open>scanLocal\<close> are the fields of \<open>ScanState\<close>. \<open>events\<close> lists the
  progress objects as the callback sees them, one snapshot for each \<open>onProgress?.(progress)\<close>.
\<close>

record ScanState =
  agentMap :: AgentMap
  dependencyEvidence :: "DetectionEvidence list"
  envEvidence :: "DetectionEvidence list"
  progress :: ScanProgress
  events :: "ScanProgress list"

definition onProgress :: "ScanState \<Rightarrow> ScanState" where
  "onProgress s = s\<lparr>events := events s @ [progress s]\<rparr>"

definition agentKey :: "AgentFramework \<Rightarrow> string \<Rightarrow> string" where
  \<comment> \<open>the template literal \<open>`${framework}:${file}`\<close>\<close>
  "agentKey fw file = framework_name fw @ '':'' @ file"

definition agentsFoundChanged :: "ScanState \<Rightarrow> ScanState" where
  \<comment> \<open>\<open>progress.agentsFound = agentMap.size; onProgress?.(progress)\<close>\<close>
  "agentsFoundChanged s =
     onProgress (s\<lparr>progress := (progress s)\<lparr>agentsFound := length (agentMap s)\<rparr>\<rparr>)"

definition addDetection :: "Runtime \<Rightarrow> rat \<Rightarrow> FileEntry \<Rightarrow> FileAnalysisResult \<Rightarrow> FileDetection
                            \<Rightarrow> ScanState \<Rightarrow> ScanState" where
  \<comment> \<open>the body of the loop over \<open>result.detections\<close>; the identifier is the value of the
      next call of \<open>randomUUID\<close>, and one call was made for each record already in the map\<close>
  "addDetection rt threshold f result detection s =
     (if totalConfidence detection \<ge> threshold then
        if map_of (agentMap s) (agentKey (fd_framework detection) (path f)) = None then
          agentsFoundChanged
            (s\<lparr>agentMap :=
                 AList.update (agentKey (fd_framework detection) (path f))
                   \<lparr>agent_id = ''ag_'' @ randomUUID rt (length (agentMap s)),
                    name = extractAgentName rt (path f) (content f),
                    framework = fd_framework detection,
                    confidence = totalConfidence detection,
                    location = \<lparr>filePath = path f, line = None, column = None\<rparr>,
                    metadata = \<lparr>language = far_language result,
                                entryPoint = Some (path f),
                                owner = None,
                                lastModified = None\<rparr>,
                    risks = None,
                    evidence = fd_evidence detection\<rparr>
                   (agentMap s)\<rparr>)
        else s
      else s)"

definition sourceStep :: "Runtime \<Rightarrow> string \<Rightarrow> rat \<Rightarrow> FileEntry \<Rightarrow> ScanState \<Rightarrow> ScanState" where
  \<comment> \<open>"Check if it's a source file"\<close>
  "sourceStep rt fullPath threshold f s =
     (if map_of LANGUAGE_EXTENSIONS (toLowerCase (extname (path f))) \<noteq> None then
        let result = analyzeFile (regexExec rt) fullPath (content f)
        in fold (addDetection rt threshold f result) (detections result) s
      else s)"

definition dependencyStep :: "Runtime \<Rightarrow> FileEntry \<Rightarrow> ScanState \<Rightarrow> ScanState" where
  \<comment> \<open>"Check dependency files"\<close>
  "dependencyStep rt f s =
     (if List.member DEPENDENCY_FILES (basename (path f)) then
        case content f of
          None \<Rightarrow> s
        | Some cont \<Rightarrow>
            s\<lparr>dependencyEvidence :=
                dependencyEvidence s @ analyzeDependencyFile rt cont (path f) (basename (path f))\<rparr>
      else s)"

definition envStep :: "Runtime \<Rightarrow> FileEntry \<Rightarrow> ScanState \<Rightarrow> ScanState" where
  \<comment> \<open>"Check .env files"\<close>
  "envStep rt f s =
     (if basename (path f) = ''.env'' \<or> startsWith (basename (path f)) ''.env.'' then
        case content f of
          None \<Rightarrow> s
        | Some cont \<Rightarrow>
            s\<lparr>envEvidence := envEvidence s @ analyzeEnvFile (regexExec rt) cont (path f)\<rparr>
      else s)"

definition configStep :: "Runtime \<Rightarrow> string list \<Rightarrow> FileEntry \<Rightarrow> ScanState \<Rightarrow> ScanState" where
  \<comment> \<open>"Check agent config files"; \<open>configEvidence\<close> is used by the crewai branch only\<close>
  "configStep rt configFileNames f s =
     (if List.member configFileNames (basename (path f)) then
        let configEvidence = \<lparr>ev_type = ConfigFile,
                               ev_pattern = basename (path f),
                               matchedText = basename (path f),
                               ev_filePath = path f,
                               ev_line = None,
                               confidenceContribution = 1 / 10\<rparr>
        in if basename (path f) = ''crewai.yaml'' \<or> basename (path f) = ''crewai.yml'' then
             if map_of (agentMap s) (agentKey Crewai (path f)) = None then
               agentsFoundChanged
                 (s\<lparr>agentMap :=
                      AList.update (agentKey Crewai (path f))
                        \<lparr>agent_id = ''ag_'' @ randomUUID rt (length (agentMap s)),
                         name = ''CrewAI Agent'',
                         framework = Crewai,
                         confidence = 7 / 10,
                         location = \<lparr>filePath = path f, line = None, column = None\<rparr>,
                         metadata = \<lparr>language = Python,
                                     entryPoint = None,
                                     owner = None,
                                     lastModified = None\<rparr>,
                         risks = None,
                         evidence = [configEvidence\<lparr>confidenceContribution := 7 / 10\<rparr>]\<rparr>
                        (agentMap s)\<rparr>)
             else s
           else s
      else s)"

definition scanFile :: "Runtime \<Rightarrow> string \<Rightarrow> rat \<Rightarrow> string list \<Rightarrow> FileEntry \<Rightarrow> ScanState
                        \<Rightarrow> ScanState" where
  \<comment> \<open>one round of the loop over \<open>files\<close>; both \<open>continue\<close>s leave \<open>filesScanned\<close> alone\<close>
  "scanFile rt scanPth threshold configFileNames f s =
     (let fullPath = join_path scanPth (path f);
          s = onProgress (s\<lparr>progress := (progress s)\<lparr>currentFile := Some (path f)\<rparr>\<rparr>)
      in case fileSize f of
           None \<Rightarrow> s
         | Some sz \<Rightarrow>
             if sz > MAX_FILE_SIZE then s
             else
               let s = sourceStep rt fullPath threshold f s;
                   s = dependencyStep rt f s;
                   s = envStep rt f s;
                   s = configStep rt configFileNames f s
               in onProgress (s\<lparr>progress := (progress s)\<lparr>filesScanned := filesScanned (progress s) + 1\<rparr>\<rparr>))"

definition discoveredFiles :: "FileTree \<Rightarrow> ScanOptions \<Rightarrow> FileEntry list" where
  \<comment> \<open>\<open>allFiles.filter((f) => !ig.ignores(f)).slice(0, maxFiles)\<close>\<close>
  "discoveredFiles tree options =
     slice0 (case maxFiles options of None \<Rightarrow> 10000 | Some n \<Rightarrow> n)
            (filter (\<lambda>f. \<not> ignores tree (path f)) (globResult tree))"

definition thresholdOf :: "ScanOptions \<Rightarrow> rat" where
  \<comment> \<open>\<open>options.confidenceThreshold ?? CONFIDENCE_THRESHOLDS.REPORT\<close>\<close>
  "thresholdOf options =
     (case confidenceThreshold options of None \<Rightarrow> CONFIDENCE_THRESHOLDS_REPORT | Some t \<Rightarrow> t)"

definition scanPathOf :: "Runtime \<Rightarrow> ScanOptions \<Rightarrow> string" where
  \<comment> \<open>\<open>resolve(options.path ?? process.cwd())\<close>, for paths that are already resolved\<close>
  "scanPathOf rt options = (case opt_path options of None \<Rightarrow> cwd rt | Some p \<Rightarrow> p)"

definition initialState :: ScanState where
  "initialState =
     \<lparr>agentMap = [], dependencyEvidence = [], envEvidence = [],
      progress = \<lparr>phase = Discovering, filesDiscovered = 0, filesScanned = 0,
                  agentsFound = 0, currentFile = None\<rparr>,
      events = []\<rparr>"

definition scanFiles :: "Runtime \<Rightarrow> FileTree \<Rightarrow> ScanOptions \<Rightarrow> ScanState" where
  \<comment> \<open>\<open>scanLocal\<close> up to the end of the loop over \<open>files\<close>\<close>
  "scanFiles rt tree options =
     (let s = onProgress initialState;
          files = discoveredFiles tree options;
          s = onProgress (s\<lparr>progress := (progress s)\<lparr>phase := Scanning,
                                                       filesDiscovered := length files\<rparr>\<rparr>)
      in fold (scanFile rt (scanPathOf rt options) (thresholdOf options) getAgentConfigFileNames)
              files s)"

definition enrichedAgentMap :: "Runtime \<Rightarrow> FileTree \<Rightarrow> ScanOptions \<Rightarrow> AgentMap" where
  \<comment> \<open>the map after \<open>enrichWithDependencies\<close> and \<open>enrichWithEnvVars\<close>\<close>
  "enrichedAgentMap rt tree options =
     (let s = scanFiles rt tree options
      in enrichWithEnvVars (enrichWithDependencies (agentMap s) (dependencyEvidence s))
                           (envEvidence s))"

definition sortByConfidence :: "AgentRecord list \<Rightarrow> AgentRecord list" where
  \<comment> \<open>\<open>.sort((a, b) => b.confidence - a.confidence)\<close>: \<open>Array.prototype.sort\<close> is stable,
      as is the insertion sort of the list library\<close>
  "sortByConfidence ags = sort_key (\<lambda>a. - confidence a) ags"

definition countFrameworks :: "AgentRecord list \<Rightarrow> (string \<times> nat) list" where
  "countFrameworks ags =
     fold (\<lambda>agent fb.
             AList.update (framework_name (framework agent))
               ((case map_of fb (framework_name (framework agent)) of None \<Rightarrow> 0 | Some n \<Rightarrow> n) + 1) fb)
          ags []"

definition VERSION :: string where
  "VERSION = ''0.1.0''"

definition scanLocal :: "Runtime \<Rightarrow> FileTree \<Rightarrow> ScanOptions \<Rightarrow> ScanProgress list \<times> ScanResult" where
  \<comment> \<open>the progress notifications in order, and the result\<close>
  "scanLocal rt tree options =
     (let s = scanFiles rt tree options;
          s = s\<lparr>agentMap := enrichedAgentMap rt tree options\<rparr>;
          s = onProgress (s\<lparr>progress := (progress s)\<lparr>phase := Enriching\<rparr>\<rparr>);
          ags = sortByConfidence (map snd (agentMap s));
          ags = enrichWithGitBlame rt ags;
          (ags, rsk) = enrichWithRisks rt ags;
          s = onProgress (s\<lparr>progress := (progress s)\<lparr>phase := Complete\<rparr>\<rparr>)
      in (events s,
          \<lparr>summary = \<lparr>totalAgents = length ags,
                       totalFiles = length (discoveredFiles tree options),
                       totalRepositories = 1,
                       scanType = LocalScan,
                       scanPath = scanPathOf rt options\<rparr>,
           agents = ags,
           frameworkBreakdown = countFrameworks ags,
           result_risks = rsk,
           result_metadata = \<lparr>md_scanType = LocalScan,
                               paths = [scanPathOf rt options],
                               excludedPaths = SKIP_DIRECTORIES,
                               md_confidenceThreshold = thresholdOf options,
                               version = VERSION\<rparr>\<rparr>))"

section \<open>The orchestrator (orchestrator.ts)\<close>

datatype ScanError = Error string

definition scan :: "Runtime \<Rightarrow> FileTree \<Rightarrow> ScanOptions
                    \<Rightarrow> ScanProgress list \<times> (ScanError + ScanResult)" where
  \<comment> \<open>\<open>Inl\<close> is the rejected promise; the first component lists the progress notifications\<close>
  "scan rt tree options =
     (case github options of
        Some g \<Rightarrow>
          ([], Inl (Error ''GitHub scanning is not yet implemented. Use local scanning: agentgov audit --path /your/code''))
      | None \<Rightarrow>
          (let (evs, result) = scanLocal rt tree options in (evs, Inr result)))"

section \<open>A reference regular-expression engine for the pattern tables\<close>

text \<open>
  Every theorem below holds for any \<open>regexExec\<close>. To run the scanner on concrete files, this
  section gives \<open>exec\<close> for the fragment of the regular-expression syntax that the pattern
  tables use: a sequence of one-character atoms (a literal, an escaped literal, \<open>\s\<close>, a
  character class of literals and \<open>\s\<close>), each with an optional greedy \<open>*\<close> or \<open>+\<close>, and
  the word boundary \<open>\b\<close>. Any other syntax makes \<open>parse_regex\<close> return \<open>None\<close>.
  \<open>rx_match\<close> tries the alternatives in the order of a backtracking matcher (longest
  repetition first) and returns the length of the first match at the current position;
  \<open>rx_search\<close> moves the start position from left to right.
\<close>

datatype RxAtom = RxChar char | RxSpace | RxClass "char list" bool

datatype RxItem = RxOne RxAtom | RxStar RxAtom | RxPlus RxAtom | RxWordBoundary

fun atom_matches :: "RxAtom \<Rightarrow> char \<Rightarrow> bool" where
  "atom_matches (RxChar c) x = (x = c)"
| "atom_matches RxSpace x = is_js_space x"
| "atom_matches (RxClass cs sp) x = (List.member cs x \<or> (sp \<and> is_js_space x))"

fun parse_class :: "string \<Rightarrow> char list \<Rightarrow> bool \<Rightarrow> RxAtom option" where
  \<comment> \<open>the text between \<open>[\<close> and \<open>]\<close>\<close>
  "parse_class [] acc sp = Some (RxClass (rev acc) sp)"
| "parse_class [c] acc sp =
     (if c = CHR 0x5C \<or> c = CHR ''-'' \<or> c = CHR ''^'' then None
      else Some (RxClass (rev (c # acc)) sp))"
| "parse_class (c # d # ds) acc sp =
     (if c = CHR 0x5C then
        (if d = CHR ''s'' then parse_class ds acc True
         else if is_js_word d then None
         else parse_class ds (d # acc) sp)
      else if c = CHR ''-'' \<or> c = CHR ''^'' then None
      else parse_class (d # ds) (c # acc) sp)"

definition flush :: "RxAtom option \<Rightarrow> RxItem list" where
  "flush pending = (case pending of None \<Rightarrow> [] | Some a \<Rightarrow> [RxOne a])"

function parse_items :: "string \<Rightarrow> RxAtom option \<Rightarrow> RxItem list option" where
  \<comment> \<open>\<open>pending\<close> is the atom just read, which a following \<open>*\<close> or \<open>+\<close> would repeat\<close>
  "parse_items [] pending = Some (flush pending)"
| "parse_items (c # cs) pending =
     (if c = CHR ''*'' then
        (case pending of
           None \<Rightarrow> None
         | Some a \<Rightarrow> map_option (\<lambda>r. RxStar a # r) (parse_items cs None))
      else if c = CHR ''+'' then
        (case pending of
           None \<Rightarrow> None
         | Some a \<Rightarrow> map_option (\<lambda>r. RxPlus a # r) (parse_items cs None))
      else if c = CHR 0x5C then
        (case cs of
           [] \<Rightarrow> None
         | d # ds \<Rightarrow>
             if d = CHR ''s'' then map_option (\<lambda>r. flush pending @ r) (parse_items ds (Some RxSpace))
             else if d = CHR ''b'' then
               map_option (\<lambda>r. flush pending @ RxWordBoundary # r) (parse_items ds None)
             else if is_js_word d then None
             else map_option (\<lambda>r. flush pending @ r) (parse_items ds (Some (RxChar d))))
      else if c = CHR ''['' then
        (if \<not> List.member cs (CHR '']'') then None
         else case parse_class (takeWhile (\<lambda>x. x \<noteq> CHR '']'') cs) [] False of
                None \<Rightarrow> None
              | Some a \<Rightarrow>
                  map_option (\<lambda>r. flush pending @ r)
                    (parse_items (tl (dropWhile (\<lambda>x. x \<noteq> CHR '']'') cs)) (Some a)))
      else if List.member ''().|?^${}]'' c then None
      else map_option (\<lambda>r. flush pending @ r) (parse_items cs (Some (RxChar c))))"
  by pat_completeness auto
termination
  apply (relation "measure (\<lambda>(s, p). length s)")
    apply simp_all
  apply (simp add: less_Suc_eq_le le_diff_conv le_SucI length_dropWhile_le trans_le_add1)
  done

definition parse_regex :: "string \<Rightarrow> RxItem list option" where
  "parse_regex src = parse_items src None"

definition word_before :: "char option \<Rightarrow> bool" where
  "word_before prev = (case prev of None \<Rightarrow> False | Some c \<Rightarrow> is_js_word c)"

definition word_at :: "string \<Rightarrow> bool" where
  "word_at s = (case s of [] \<Rightarrow> False | c # cs \<Rightarrow> is_js_word c)"

fun rx_match :: "RxItem list \<Rightarrow> char option \<Rightarrow> string \<Rightarrow> nat option" where
  "rx_match [] prev s = Some 0"
| "rx_match (RxWordBoundary # r) prev s =
     (if word_before prev \<noteq> word_at s then rx_match r prev s else None)"
| "rx_match (RxOne a # r) prev [] = None"
| "rx_match (RxOne a # r) prev (c # cs) =
     (if atom_matches a c then map_option Suc (rx_match r (Some c) cs) else None)"
| "rx_match (RxPlus a # r) prev [] = None"
| "rx_match (RxPlus a # r) prev (c # cs) =
     (if atom_matches a c then map_option Suc (rx_match (RxStar a # r) (Some c) cs) else None)"
| "rx_match (RxStar a # r) prev [] = rx_match r prev []"
| "rx_match (RxStar a # r) prev (c # cs) =
     (if atom_matches a c then
        (case rx_match (RxStar a # r) (Some c) cs of
           Some n \<Rightarrow> Some (Suc n)
         | None \<Rightarrow> rx_match r prev (c # cs))
      else rx_match r prev (c # cs))"

fun rx_search :: "RxItem list \<Rightarrow> char option \<Rightarrow> string \<Rightarrow> string option" where
  "rx_search items prev [] =
     (case rx_match items prev [] of None \<Rightarrow> None | Some n \<Rightarrow> Some [])"
| "rx_search items prev (c # cs) =
     (case rx_match items prev (c # cs) of
        Some n \<Rightarrow> Some (take n (c # cs))
      | None \<Rightarrow> rx_search items (Some c) cs)"

definition reference_exec :: RegExpEngine where
  "reference_exec src s =
     (case parse_regex src of None \<Rightarrow> None | Some items \<Rightarrow> rx_search items None s)"

section \<open>The aggregation rule in the words of the specification\<close>

text \<open>
  Section 4.3 of the specification: sum the contributions; add 0.10 when the evidence spans
  at least two distinct categories; round to two decimal places; clamp to at most 1.0.
\<close>

definition spec_confidence :: "DetectionEvidence list \<Rightarrow> rat" where
  "spec_confidence ev =
     (let s = sum_list (map confidenceContribution ev);
          bonus = (if card (set (map ev_type ev)) \<ge> 2 then 1 / 10 else 0);
          rounded = of_int \<lfloor>(s + bonus) * 100 + 1 / 2\<rfloor> / 100
      in min 1 rounded)"

section \<open>Concrete inputs\<close>

text \<open>
  A runtime for a directory outside any git repository, with the reference engine for
  regular expressions. The trees below hold no package.json, so \<open>JSON.parse\<close> is never
  called on them, and their only source file is crew.py without a class, for which
  \<open>extractAgentName\<close> answers \<open>Crew\<close>. Risk flags are not part of any statement below; the
  runtime returns none.
\<close>

definition plain_runtime :: Runtime where
  "plain_runtime =
     \<lparr>regexExec = reference_exec,
      packageJsonDeps = (\<lambda>_. None),
      randomUUID = (\<lambda>k. ''00000000-0000-4000-8000-000000000000''),
      extractAgentName = (\<lambda>file cont. ''Crew''),
      isGitRepo = False,
      getFileBlame = (\<lambda>_. \<lparr>blame_owner = None, blame_lastModified = None, authors = []\<rparr>),
      evaluateAgentRisks = (\<lambda>agent. []),
      cwd = ''/work''\<rparr>"

definition import_evidence :: DetectionEvidence where
  "import_evidence =
     \<lparr>ev_type = Import, ev_pattern = ''import'' @ [CHR 0x5C] @ ''s+crewai'',
      matchedText = ''import crewai'', ev_filePath = ''/work/crew.py'', ev_line = Some 1,
      confidenceContribution = 3 / 10\<rparr>"

definition decorator_evidence :: DetectionEvidence where
  "decorator_evidence =
     \<lparr>ev_type = CodePattern, ev_pattern = ''@agent'' @ [CHR 0x5C] @ ''b'',
      matchedText = ''@agent'', ev_filePath = ''/work/crew.py'', ev_line = Some 4,
      confidenceContribution = 3 / 20\<rparr>"




definition github_options :: ScanOptions where
  "github_options =
     \<lparr>opt_path = None,
      github = Some \<lparr>org = ''testorg'', token = ''fake-token'', repos = None\<rparr>,
      excludePatterns = None, confidenceThreshold = None, maxFiles = None\<rparr>"

definition empty_tree :: FileTree where
  "empty_tree = \<lparr>globResult = [], ignores = (\<lambda>p. False)\<rparr>"

definition crewai_record :: AgentRecord where
  \<comment> \<open>the record that \<open>scanLocal\<close> creates for a file crewai.yaml at the root of the tree\<close>
  "crewai_record =
     \<lparr>agent_id = ''ag_00000000-0000-4000-8000-000000000000'',
      name = ''CrewAI Agent'',
      framework = Crewai,
      confidence = 7 / 10,
      location = \<lparr>filePath = ''crewai.yaml'', line = None, column = None\<rparr>,
      metadata = \<lparr>language = Python, entryPoint = None, owner = None, lastModified = None\<rparr>,
      risks = None,
      evidence = [\<lparr>ev_type = ConfigFile, ev_pattern = ''crewai.yaml'',
                   matchedText = ''crewai.yaml'', ev_filePath = ''crewai.yaml'',
                   ev_line = None, confidenceContribution = 7 / 10\<rparr>]\<rparr>"


definition crewai_dependency :: DetectionEvidence where
  \<comment> \<open>what \<open>analyzeDependencyFile\<close> returns for the line \<open>crewai>=0.1\<close> of requirements.txt\<close>
  "crewai_dependency =
     \<lparr>ev_type = Dependency, ev_pattern = ''crewai'', matchedText = ''crewai>=0.1'',
      ev_filePath = ''requirements.txt'', ev_line = None, confidenceContribution = 3 / 10\<rparr>"

section \<open>Vocabulary for the registry\<close>

text \<open>
  Names for conditions that \<open>scanLocal\<close> tests inline, used to state what the registry
  holds after the loop over the files.
\<close>

definition scannable :: "FileEntry \<Rightarrow> bool" where
  \<comment> \<open>\<open>stat\<close> succeeds and the size is at most \<open>MAX_FILE_SIZE\<close>: neither \<open>continue\<close> is taken\<close>
  "scannable f = (case fileSize f of None \<Rightarrow> False | Some sz \<Rightarrow> \<not> sz > MAX_FILE_SIZE)"

definition isSourceFile :: "FileEntry \<Rightarrow> bool" where
  \<comment> \<open>\<open>ext in LANGUAGE_EXTENSIONS\<close>\<close>
  "isSourceFile f = (map_of LANGUAGE_EXTENSIONS (toLowerCase (extname (path f))) \<noteq> None)"

definition isCrewaiConfig :: "FileEntry \<Rightarrow> bool" where
  \<comment> \<open>\<open>name === "crewai.yaml" || name === "crewai.yml"\<close>\<close>
  "isCrewaiConfig f = (basename (path f) = ''crewai.yaml'' \<or> basename (path f) = ''crewai.yml'')"

definition fileDetections :: "Runtime \<Rightarrow> string \<Rightarrow> FileEntry \<Rightarrow> FileDetection list" where
  \<comment> \<open>\<open>result.detections\<close> for a file of the tree\<close>
  "fileDetections rt scanPth f =
     detections (analyzeFile (regexExec rt) (join_path scanPth (path f)) (content f))"

definition crewaiConfigEvidence :: "FileEntry \<Rightarrow> DetectionEvidence" where
  \<comment> \<open>\<open>{ ...configEvidence, confidenceContribution: 0.7 }\<close>\<close>
  "crewaiConfigEvidence f =
     \<lparr>ev_type = ConfigFile, ev_pattern = basename (path f), matchedText = basename (path f),
      ev_filePath = path f, ev_line = None, confidenceContribution = 7 / 10\<rparr>"

definition fromSource :: "Runtime \<Rightarrow> string \<Rightarrow> rat \<Rightarrow> FileEntry \<Rightarrow> string \<Rightarrow> AgentRecord \<Rightarrow> bool" where
  \<comment> \<open>the entry was created from a detection of file \<open>f\<close> that met the threshold\<close>
  "fromSource rt scanPth threshold f k a =
     (isSourceFile f \<and>
      list_ex (\<lambda>d. threshold \<le> totalConfidence d
                   \<and> k = agentKey (fd_framework d) (path f)
                   \<and> framework a = fd_framework d
                   \<and> confidence a = totalConfidence d
                   \<and> evidence a = fd_evidence d)
              (fileDetections rt scanPth f)
      \<and> filePath (location a) = path f)"

definition fromConfig :: "FileEntry \<Rightarrow> string \<Rightarrow> AgentRecord \<Rightarrow> bool" where
  \<comment> \<open>the entry was created for the crewai configuration file \<open>f\<close>\<close>
  "fromConfig f k a =
     (isCrewaiConfig f
      \<and> k = agentKey Crewai (path f)
      \<and> framework a = Crewai
      \<and> confidence a = 7 / 10
      \<and> evidence a = [crewaiConfigEvidence f]
      \<and> filePath (location a) = path f)"

definition fromFiles :: "Runtime \<Rightarrow> string \<Rightarrow> rat \<Rightarrow> FileEntry list \<Rightarrow> string \<times> AgentRecord \<Rightarrow> bool" where
  "fromFiles rt scanPth threshold fs e =
     list_ex (\<lambda>f. scannable f
                   \<and> (fromSource rt scanPth threshold f (fst e) (snd e) \<or> fromConfig f (fst e) (snd e)))
             fs"

definition sourceKeys :: "Runtime \<Rightarrow> string \<Rightarrow> rat \<Rightarrow> FileEntry \<Rightarrow> string list" where
  "sourceKeys rt scanPth threshold f =
     (if isSourceFile f
      then map (\<lambda>d. agentKey (fd_framework d) (path f))
               (filter (\<lambda>d. threshold \<le> totalConfidence d) (fileDetections rt scanPth f))
      else [])"

definition fileKeys :: "Runtime \<Rightarrow> string \<Rightarrow> rat \<Rightarrow> FileEntry \<Rightarrow> string list" where
  \<comment> \<open>the keys that one round of the loop asks the registry to hold\<close>
  "fileKeys rt scanPth threshold f =
     (if scannable f
      then sourceKeys rt scanPth threshold f
           @ (if isCrewaiConfig f then [agentKey Crewai (path f)] else [])
      else [])"

definition sourceRecord :: "Runtime \<Rightarrow> FileEntry \<Rightarrow> FileAnalysisResult \<Rightarrow> FileDetection \<Rightarrow> nat
                            \<Rightarrow> AgentRecord" where
  \<comment> \<open>the object literal of the source branch, created when the map holds \<open>n\<close> records\<close>
  "sourceRecord rt f result detection n =
     \<lparr>agent_id = ''ag_'' @ randomUUID rt n,
      name = extractAgentName rt (path f) (content f),
      framework = fd_framework detection,
      confidence = totalConfidence detection,
      location = \<lparr>filePath = path f, line = None, column = None\<rparr>,
      metadata = \<lparr>language = far_language result, entryPoint = Some (path f),
                  owner = None, lastModified = None\<rparr>,
      risks = None,
      evidence = fd_evidence detection\<rparr>"

definition configRecord :: "Runtime \<Rightarrow> FileEntry \<Rightarrow> nat \<Rightarrow> AgentRecord" where
  \<comment> \<open>the object literal of the crewai branch, created when the map holds \<open>n\<close> records\<close>
  "configRecord rt f n =
     \<lparr>agent_id = ''ag_'' @ randomUUID rt n,
      name = ''CrewAI Agent'',
      framework = Crewai,
      confidence = 7 / 10,
      location = \<lparr>filePath = path f, line = None, column = None\<rparr>,
      metadata = \<lparr>language = Python, entryPoint = None, owner = None, lastModified = None\<rparr>,
      risks = None,
      evidence = [crewaiConfigEvidence f]\<rparr>"

definition cfg_ok :: "string list \<Rightarrow> bool" where
  \<comment> \<open>both crewai names are among the configuration-file names\<close>
  "cfg_ok cfg = (''crewai.yaml'' \<in> set cfg \<and> ''crewai.yml'' \<in> set cfg)"

definition fileDependencies :: "Runtime \<Rightarrow> FileEntry \<Rightarrow> DetectionEvidence list" where
  \<comment> \<open>what one round of the loop pushes to \<open>dependencyEvidence\<close>\<close>
  "fileDependencies rt f =
     (if scannable f \<and> basename (path f) \<in> set DEPENDENCY_FILES
      then (case content f of None \<Rightarrow> []
            | Some c \<Rightarrow> analyzeDependencyFile rt c (path f) (basename (path f)))
      else [])"

definition fileEnvVars :: "Runtime \<Rightarrow> FileEntry \<Rightarrow> DetectionEvidence list" where
  \<comment> \<open>what one round of the loop pushes to \<open>envEvidence\<close>\<close>
  "fileEnvVars rt f =
     (if scannable f \<and> (basename (path f) = ''.env'' \<or> startsWith (basename (path f)) ''.env.'')
      then (case content f of None \<Rightarrow> []
            | Some c \<Rightarrow> analyzeEnvFile (regexExec rt) c (path f))
      else [])"

definition boosted :: "AgentRecord \<Rightarrow> AgentRecord \<Rightarrow> bool" where
  \<comment> \<open>what the fold-in of auxiliary evidence may do to a record\<close>
  "boosted a a' =
     (framework a' = framework a \<and> location a' = location a
      \<and> confidence a \<le> confidence a' \<and> confidence a' \<le> 1
      \<and> prefix (evidence a) (evidence a'))"

definition dependencyBoost :: "DetectionEvidence \<Rightarrow> AgentRecord \<Rightarrow> AgentRecord" where
  \<comment> \<open>one round of the outer loop of \<open>enrichWithDependencies\<close>, seen from one record\<close>
  "dependencyBoost dep agent =
     (case find (\<lambda>d. dm_name d = ev_pattern dep) DEPENDENCY_MAPPINGS of
        None \<Rightarrow> agent
      | Some mapping \<Rightarrow> addDependency dep mapping agent)"

definition agentCore :: "AgentRecord \<Rightarrow> AgentFramework \<times> AgentLocation \<times> rat \<times> DetectionEvidence list" where
  \<comment> \<open>the fields that ownership and risk enrichment leave alone\<close>
  "agentCore a = (framework a, location a, confidence a, evidence a)"

text \<open>Files, trees and options for the concrete scans.\<close>

definition config_file :: FileEntry where
  "config_file = \<lparr>path = ''crewai.yaml'', fileSize = Some 10, content = Some ''agents: []''\<rparr>"

definition source_file :: FileEntry where
  "source_file = \<lparr>path = ''crew.py'', fileSize = Some 13, content = Some ''import crewai''\<rparr>"

definition env_file :: FileEntry where
  "env_file =
     \<lparr>path = ''.env.local'', fileSize = Some 22, content = Some ''OPENAI_API_KEY=sk-test''\<rparr>"

definition requirements_file :: FileEntry where
  "requirements_file =
     \<lparr>path = ''requirements.txt'', fileSize = Some 11, content = Some ''crewai>=0.1''\<rparr>"

definition tree_with_source :: FileTree where
  "tree_with_source = \<lparr>globResult = [config_file, source_file], ignores = (\<lambda>p. False)\<rparr>"

definition tree_with_env :: FileTree where
  "tree_with_env = \<lparr>globResult = [config_file, env_file], ignores = (\<lambda>p. False)\<rparr>"

definition tree_with_requirements :: FileTree where
  "tree_with_requirements =
     \<lparr>globResult = [config_file, requirements_file], ignores = (\<lambda>p. False)\<rparr>"

definition generic_config_file :: FileEntry where
  \<comment> \<open>a generic name of the configuration-file list\<close>
  "generic_config_file =
     \<lparr>path = ''agents.yaml'', fileSize = Some 10, content = Some ''agents: []''\<rparr>"

definition oversized_config_file :: FileEntry where
  \<comment> \<open>a crewai.yaml above \<open>MAX_FILE_SIZE\<close>\<close>
  "oversized_config_file =
     \<lparr>path = ''crewai.yaml'', fileSize = Some 2000000, content = Some ''agents: []''\<rparr>"

definition second_config_file :: FileEntry where
  "second_config_file =
     \<lparr>path = ''sub/crewai.yml'', fileSize = Some 10, content = Some ''agents: []''\<rparr>"

definition tree_with_generic :: FileTree where
  "tree_with_generic = \<lparr>globResult = [generic_config_file], ignores = (\<lambda>p. False)\<rparr>"

definition tree_with_oversized :: FileTree where
  "tree_with_oversized = \<lparr>globResult = [oversized_config_file], ignores = (\<lambda>p. False)\<rparr>"

definition tree_with_two_configs :: FileTree where
  "tree_with_two_configs =
     \<lparr>globResult = [config_file, second_config_file], ignores = (\<lambda>p. False)\<rparr>"

definition default_options :: ScanOptions where
  "default_options =
     \<lparr>opt_path = Some ''/work'', github = None, excludePatterns = None,
      confidenceThreshold = None, maxFiles = None\<rparr>"

definition openai_env_evidence :: DetectionEvidence where
  \<comment> \<open>what \<open>analyzeEnvFile\<close> returns for \<open>env_file\<close>\<close>
  "openai_env_evidence =
     \<lparr>ev_type = EnvVar, ev_pattern = ''OPENAI_API_KEY'' @ [CHR 0x5C] @ ''s*='',
      matchedText = ''openai API key detected (value redacted)'',
      ev_filePath = ''.env.local'', ev_line = None, confidenceContribution = 1 / 10\<rparr>"

definition crewai_detection :: FileDetection where
  \<comment> \<open>what \<open>analyzeFile\<close> detects in \<open>source_file\<close>\<close>
  "crewai_detection =
     \<lparr>fd_framework = Crewai, fd_displayName = ''CrewAI'',
      fd_evidence = [\<lparr>ev_type = Import, ev_pattern = ''import'' @ [CHR 0x5C] @ ''s+crewai'',
                      matchedText = ''import crewai'', ev_filePath = ''/work/crew.py'',
                      ev_line = Some 1, confidenceContribution = 3 / 10\<rparr>],
      totalConfidence = 3 / 10\<rparr>"

section \<open>Confidence aggregation\<close>

lemma floor_int_add_half: "\<lfloor>(of_int n :: rat) + 1 / 2\<rfloor> = n"
  by (rule floor_unique) simp_all

lemma Math_round_numeral [simp]: "Math_round (numeral k) = numeral k"
  using floor_int_add_half [of "numeral k"] by (simp add: Math_round_def)

lemma Math_round_zero [simp]: "Math_round 0 = 0"
  using floor_int_add_half [of 0] by (simp add: Math_round_def)

lemma Math_round_nonneg: "0 \<le> x \<Longrightarrow> 0 \<le> Math_round x"
  by (simp add: Math_round_def)

lemma confidence_fold:
  "fold (\<lambda>e (total, typesSeen). (total + confidenceContribution e, insert (ev_type e) typesSeen)) ev (t, S)
     = (t + sum_list (map confidenceContribution ev), S \<union> set (map ev_type ev))"
  by (induction ev arbitrary: t S) (simp_all add: add.assoc)

lemma calculateConfidence_eq: "calculateConfidence ev = spec_confidence ev"
proof (cases "ev = []")
  case True
  then show ?thesis
    using floor_int_add_half [of 0] by (simp add: calculateConfidence_def spec_confidence_def)
next
  case False
  then show ?thesis
    by (simp add: calculateConfidence_def spec_confidence_def confidence_fold Math_round_def
        distrib_right)
qed

lemma calculateConfidence_le_1: "calculateConfidence ev \<le> 1"
  by (simp add: calculateConfidence_def Let_def split: prod.splits)

text \<open>
  Claim C1. For a non-empty list of evidence items, \<open>calculateConfidence\<close> returns the sum
  of the contributions, plus 0.10 exactly when the items span at least two distinct
  categories, rounded to two decimal places and clamped to at most 1.0 (the rule of the
  specification, \<^const>\<open>spec_confidence\<close>); the result never exceeds 1.
\<close>

theorem C1_aggregate_confidence:
  "ev \<noteq> [] \<Longrightarrow> calculateConfidence ev = spec_confidence ev \<and> calculateConfidence ev \<le> 1"
  by (rule conjI [OF calculateConfidence_eq calculateConfidence_le_1])

theorem C1_aggregate_confidence_witness:
  "[import_evidence, decorator_evidence] \<noteq> []
   \<and> calculateConfidence [import_evidence, decorator_evidence]
       = spec_confidence [import_evidence, decorator_evidence]
   \<and> calculateConfidence [import_evidence, decorator_evidence] \<le> 1
   \<and> calculateConfidence [import_evidence, decorator_evidence] = 11 / 20"
proof -
  have ne: "[import_evidence, decorator_evidence] \<noteq> []" by simp
  have v: "calculateConfidence [import_evidence, decorator_evidence] = 11 / 20"
    by (simp add: calculateConfidence_def import_evidence_def decorator_evidence_def)
  from C1_aggregate_confidence [OF ne] ne v show ?thesis by blast
qed

section \<open>Pattern matching\<close>

lemma fold_append_concat:
  "fold (\<lambda>x acc. acc @ g x) xs a = a @ concat (map g xs)"
  by (induction xs arbitrary: a) simp_all

lemma matchPatterns_concat:
  "matchPatterns rx cont fp fps =
     concat (map (\<lambda>pd. scanLines rx pd fp (split_on (CHR 0x0A) cont) 0)
                 (fp_imports fps @ instantiations fps))"
  by (simp add: matchPatterns_def Let_def fold_append_concat)





lemmas rx_eval = reference_exec_def parse_regex_def flush_def is_js_word_def is_js_space_def
  word_at_def word_before_def




section \<open>The orchestrator\<close>

text \<open>
  Claim C9. When the options select GitHub scanning (the only non-local mode that
  \<open>ScanOptions\<close> can express), \<open>scan\<close> fails with the unsupported-operation error: it emits
  no progress notification, returns no result, and its outcome does not depend on the
  tree or the runtime, so nothing has been discovered, read or matched.
\<close>

theorem C9_github_unsupported:
  "github options = Some g \<Longrightarrow>
     scan rt tree options =
       ([], Inl (Error ''GitHub scanning is not yet implemented. Use local scanning: agentgov audit --path /your/code''))
     \<and> scan rt' tree' options = scan rt tree options"
  by (simp add: scan_def)

theorem C9_github_unsupported_witness:
  "github github_options = Some \<lparr>org = ''testorg'', token = ''fake-token'', repos = None\<rparr>
   \<and> scan plain_runtime empty_tree github_options =
       ([], Inl (Error ''GitHub scanning is not yet implemented. Use local scanning: agentgov audit --path /your/code''))"
proof -
  have g: "github github_options = Some \<lparr>org = ''testorg'', token = ''fake-token'', repos = None\<rparr>"
    by (simp add: github_options_def)
  from C9_github_unsupported [OF g, of plain_runtime empty_tree plain_runtime empty_tree] g
  show ?thesis by blast
qed

section \<open>Environment-variable evidence\<close>

lemma set_concat_if:
  "set (concat (map (\<lambda>p. if P p then [f p] else []) ps)) = f ` {p \<in> set ps. P p}"
  by (induction ps) auto

lemma map_concat_if:
  "map g (concat (map (\<lambda>p. if P p then [f p] else []) ps)) = map (\<lambda>p. g (f p)) (filter P ps)"
  by (induction ps) auto

lemma analyzeEnvFile_set:
  "set (analyzeEnvFile rx cont fp) =
     (\<lambda>p. \<lparr>ev_type = EnvVar, ev_pattern = env_pattern p,
            matchedText = redacted_text (provider p), ev_filePath = fp, ev_line = None,
            confidenceContribution = env_confidence p\<rparr>)
       ` {p \<in> set ENV_VAR_PATTERNS. rx (env_pattern p) cont \<noteq> None}"
  unfolding analyzeEnvFile_def by (rule set_concat_if)

lemma analyzeEnvFile_texts:
  "map matchedText (analyzeEnvFile rx cont fp) =
     map (\<lambda>p. redacted_text (provider p))
         (filter (\<lambda>p. rx (env_pattern p) cont \<noteq> None) ENV_VAR_PATTERNS)"
  unfolding analyzeEnvFile_def by (simp add: map_concat_if)

lemma filter_cong_set: "(\<And>x. x \<in> set xs \<Longrightarrow> P x = Q x) \<Longrightarrow> filter P xs = filter Q xs"
  by (induction xs) auto

text \<open>
  Claim C6, as amended. Every item that \<open>analyzeEnvFile\<close> returns is of type \<open>env_var\<close>,
  and its \<open>matchedText\<close> is the fixed description "PROVIDER API key detected (value
  redacted)" of a pattern of \<open>ENV_VAR_PATTERNS\<close> that matches the content. The texts depend
  on the content only through which patterns match: two files matched by the same patterns
  give the same texts, whatever values they assign. No text is copied from the file; the
  description contains the assigned value only when that value happens to be a substring of
  the description itself.
\<close>

theorem C6_env_text_fixed_by_provider:
  "(e \<in> set (analyzeEnvFile rx cont fp) \<longrightarrow>
      ev_type e = EnvVar
      \<and> (\<exists>p \<in> set ENV_VAR_PATTERNS. rx (env_pattern p) cont \<noteq> None
             \<and> ev_pattern e = env_pattern p
             \<and> matchedText e = provider p @ '' API key detected (value redacted)''))
   \<and> ((\<forall>p \<in> set ENV_VAR_PATTERNS.
          (rx (env_pattern p) cont = None) = (rx (env_pattern p) cont' = None))
       \<longrightarrow> map matchedText (analyzeEnvFile rx cont fp)
           = map matchedText (analyzeEnvFile rx cont' fp'))"
proof (intro conjI impI)
  assume "e \<in> set (analyzeEnvFile rx cont fp)"
  then obtain p where p: "p \<in> set ENV_VAR_PATTERNS" "rx (env_pattern p) cont \<noteq> None"
    and e: "e = \<lparr>ev_type = EnvVar, ev_pattern = env_pattern p,
            matchedText = redacted_text (provider p), ev_filePath = fp, ev_line = None,
            confidenceContribution = env_confidence p\<rparr>"
    unfolding analyzeEnvFile_set by blast
  from e show "ev_type e = EnvVar" by simp
  from p e show "\<exists>p \<in> set ENV_VAR_PATTERNS. rx (env_pattern p) cont \<noteq> None
             \<and> ev_pattern e = env_pattern p
             \<and> matchedText e = provider p @ '' API key detected (value redacted)''"
    by (auto simp: redacted_text_def)
next
  assume same: "\<forall>p \<in> set ENV_VAR_PATTERNS.
          (rx (env_pattern p) cont = None) = (rx (env_pattern p) cont' = None)"
  have "filter (\<lambda>p. rx (env_pattern p) cont \<noteq> None) ENV_VAR_PATTERNS
        = filter (\<lambda>p. rx (env_pattern p) cont' \<noteq> None) ENV_VAR_PATTERNS"
    by (rule filter_cong_set) (use same in auto)
  then show "map matchedText (analyzeEnvFile rx cont fp)
           = map matchedText (analyzeEnvFile rx cont' fp')"
    by (simp add: analyzeEnvFile_texts)
qed

lemma env_secret_eval:
  "analyzeEnvFile reference_exec (''OPENAI_API_KEY='' @ ''sk-live-1234'') ''prod/.env.production'' =
     [\<lparr>ev_type = EnvVar, ev_pattern = ''OPENAI_API_KEY'' @ [CHR 0x5C] @ ''s*='',
       matchedText = ''openai API key detected (value redacted)'',
       ev_filePath = ''prod/.env.production'', ev_line = None, confidenceContribution = 1 / 10\<rparr>]"
  by (simp add: analyzeEnvFile_def ENV_VAR_PATTERNS_def redacted_text_def rx_eval)

lemma env_same_patterns_eval:
  "map (\<lambda>p. reference_exec (env_pattern p) (''OPENAI_API_KEY='' @ ''openai'') = None) ENV_VAR_PATTERNS
   = map (\<lambda>p. reference_exec (env_pattern p) (''OPENAI_API_KEY='' @ ''sk-live-1234'') = None)
         ENV_VAR_PATTERNS"
  by (simp add: ENV_VAR_PATTERNS_def rx_eval)

lemma env_openai_eval:
  "analyzeEnvFile reference_exec (''OPENAI_API_KEY='' @ ''openai'') ''.env.local'' =
     [\<lparr>ev_type = EnvVar, ev_pattern = ''OPENAI_API_KEY'' @ [CHR 0x5C] @ ''s*='',
       matchedText = ''openai API key detected (value redacted)'',
       ev_filePath = ''.env.local'', ev_line = None, confidenceContribution = 1 / 10\<rparr>]"
  by (simp add: analyzeEnvFile_def ENV_VAR_PATTERNS_def redacted_text_def rx_eval)

theorem C6_env_text_fixed_by_provider_witness:
  "\<lparr>ev_type = EnvVar, ev_pattern = ''OPENAI_API_KEY'' @ [CHR 0x5C] @ ''s*='',
    matchedText = ''openai API key detected (value redacted)'',
    ev_filePath = ''.env.local'', ev_line = None, confidenceContribution = 1 / 10\<rparr>
     \<in> set (analyzeEnvFile reference_exec (''OPENAI_API_KEY='' @ ''openai'') ''.env.local'')
   \<and> map (\<lambda>p. reference_exec (env_pattern p) (''OPENAI_API_KEY='' @ ''openai'') = None)
          ENV_VAR_PATTERNS
       = map (\<lambda>p. reference_exec (env_pattern p) (''OPENAI_API_KEY='' @ ''sk-live-1234'') = None)
          ENV_VAR_PATTERNS
   \<and> map matchedText (analyzeEnvFile reference_exec (''OPENAI_API_KEY='' @ ''openai'') ''.env.local'')
       = map matchedText (analyzeEnvFile reference_exec (''OPENAI_API_KEY='' @ ''sk-live-1234'')
                            ''prod/.env.production'')
   \<and> map matchedText (analyzeEnvFile reference_exec (''OPENAI_API_KEY='' @ ''sk-live-1234'')
                            ''prod/.env.production'')
       = [''openai API key detected (value redacted)'']"
proof -
  have mem: "\<lparr>ev_type = EnvVar, ev_pattern = ''OPENAI_API_KEY'' @ [CHR 0x5C] @ ''s*='',
    matchedText = ''openai API key detected (value redacted)'',
    ev_filePath = ''.env.local'', ev_line = None, confidenceContribution = 1 / 10\<rparr>
     \<in> set (analyzeEnvFile reference_exec (''OPENAI_API_KEY='' @ ''openai'') ''.env.local'')"
    unfolding env_openai_eval by simp
  have same: "\<forall>p \<in> set ENV_VAR_PATTERNS.
      (reference_exec (env_pattern p) (''OPENAI_API_KEY='' @ ''openai'') = None)
      = (reference_exec (env_pattern p) (''OPENAI_API_KEY='' @ ''sk-live-1234'') = None)"
    using env_same_patterns_eval by (simp only: map_eq_conv)
  have texts: "map matchedText (analyzeEnvFile reference_exec (''OPENAI_API_KEY='' @ ''openai'') ''.env.local'')
       = map matchedText (analyzeEnvFile reference_exec (''OPENAI_API_KEY='' @ ''sk-live-1234'')
                            ''prod/.env.production'')"
    using C6_env_text_fixed_by_provider [of _ reference_exec "''OPENAI_API_KEY='' @ ''openai''"
        "''.env.local''" "''OPENAI_API_KEY='' @ ''sk-live-1234''" "''prod/.env.production''"] same
    by blast
  have val: "map matchedText (analyzeEnvFile reference_exec (''OPENAI_API_KEY='' @ ''sk-live-1234'')
                            ''prod/.env.production'')
       = [''openai API key detected (value redacted)'']"
    unfolding env_secret_eval by simp
  from mem env_same_patterns_eval texts val show ?thesis by blast
qed

text \<open>
  Claim C6 as stated fails on a file that assigns a value occurring in the description: for
  the line \<open>OPENAI_API_KEY=openai\<close> the text is "openai API key detected (value redacted)",
  which contains the assigned value \<open>openai\<close>.
\<close>

theorem C6_value_in_text_counterexample:
  "analyzeEnvFile reference_exec (''OPENAI_API_KEY='' @ ''openai'') ''.env.local'' =
     [\<lparr>ev_type = EnvVar, ev_pattern = ''OPENAI_API_KEY'' @ [CHR 0x5C] @ ''s*='',
       matchedText = ''openai API key detected (value redacted)'',
       ev_filePath = ''.env.local'', ev_line = None, confidenceContribution = 1 / 10\<rparr>]
   \<and> str_includes ''openai API key detected (value redacted)'' ''openai''"
proof -
  have "sublist ''openai'' ([] @ ''openai'' @ '' API key detected (value redacted)'')"
    by (rule sublist_appendI)
  then have "str_includes ''openai API key detected (value redacted)'' ''openai''"
    by (simp add: str_includes_def)
  with env_openai_eval show ?thesis by blast
qed

section \<open>Fold-in of dependency evidence\<close>



lemma find_crewai_mapping:
  "find (\<lambda>d. dm_name d = ''crewai'') DEPENDENCY_MAPPINGS =
     Some \<lparr>dm_name = ''crewai'', dm_framework = Crewai, dm_confidence = 3 / 10,
           dm_language = DepPython\<rparr>"
  by (simp add: DEPENDENCY_MAPPINGS_def)


section \<open>The registry during the loop over the files\<close>

lemma update_absent: "map_of m k = None \<Longrightarrow> AList.update k v m = m @ [(k, v)]"
  by (induction m) (auto split: if_splits)

lemma map_of_None_keys: "(map_of m k = None) = (k \<notin> fst ` set m)"
  by (simp add: map_of_eq_None_iff)

lemma onProgress_fields [simp]:
  "agentMap (onProgress s) = agentMap s"
  "dependencyEvidence (onProgress s) = dependencyEvidence s"
  "envEvidence (onProgress s) = envEvidence s"
  "progress (onProgress s) = progress s"
  by (simp_all add: onProgress_def)

lemma agentsFoundChanged_fields [simp]:
  "agentMap (agentsFoundChanged s) = agentMap s"
  "dependencyEvidence (agentsFoundChanged s) = dependencyEvidence s"
  "envEvidence (agentsFoundChanged s) = envEvidence s"
  by (simp_all add: agentsFoundChanged_def)

lemma addDetection_agentMap:
  "agentMap (addDetection rt T f r d s) =
     (if T \<le> totalConfidence d \<and> map_of (agentMap s) (agentKey (fd_framework d) (path f)) = None
      then agentMap s @ [(agentKey (fd_framework d) (path f), sourceRecord rt f r d (length (agentMap s)))]
      else agentMap s)"
  by (simp add: addDetection_def update_absent sourceRecord_def)

lemma addDetection_other [simp]:
  "dependencyEvidence (addDetection rt T f r d s) = dependencyEvidence s"
  "envEvidence (addDetection rt T f r d s) = envEvidence s"
  by (simp_all add: addDetection_def)

lemma fold_addDetection_other [simp]:
  "dependencyEvidence (fold (addDetection rt T f r) ds s) = dependencyEvidence s"
  "envEvidence (fold (addDetection rt T f r) ds s) = envEvidence s"
  by (induction ds arbitrary: s) simp_all

lemma fold_addDetection_keys:
  "fst ` set (agentMap (fold (addDetection rt T f r) ds s)) =
     fst ` set (agentMap s)
     \<union> set (map (\<lambda>d. agentKey (fd_framework d) (path f)) (filter (\<lambda>d. T \<le> totalConfidence d) ds))"
proof (induction ds arbitrary: s)
  case Nil
  then show ?case by simp
next
  case (Cons d ds)
  show ?case
    by (simp add: Cons.IH addDetection_agentMap map_of_None_keys) blast
qed

lemma fold_addDetection_distinct:
  "distinct (map fst (agentMap s)) \<Longrightarrow> distinct (map fst (agentMap (fold (addDetection rt T f r) ds s)))"
proof (induction ds arbitrary: s)
  case Nil
  then show ?case by simp
next
  case (Cons d ds)
  have "distinct (map fst (agentMap (addDetection rt T f r d s)))"
    using Cons.prems by (simp add: addDetection_agentMap map_of_None_keys)
  from Cons.IH [OF this] show ?case by simp
qed

lemma fold_addDetection_entries:
  "e \<in> set (agentMap (fold (addDetection rt T f r) ds s)) \<Longrightarrow>
     e \<in> set (agentMap s)
     \<or> (\<exists>d \<in> set ds. \<exists>n. T \<le> totalConfidence d
            \<and> e = (agentKey (fd_framework d) (path f), sourceRecord rt f r d n))"
proof (induction ds arbitrary: s)
  case Nil
  then show ?case by simp
next
  case (Cons d ds)
  from Cons.prems have "e \<in> set (agentMap (fold (addDetection rt T f r) ds (addDetection rt T f r d s)))"
    by simp
  from Cons.IH [OF this] show ?case
    by (auto simp: addDetection_agentMap split: if_splits)
qed

lemma fold_addDetection_prefix:
  "\<exists>news. agentMap (fold (addDetection rt T f r) ds s) = agentMap s @ news"
proof (induction ds arbitrary: s)
  case Nil
  then show ?case by simp
next
  case (Cons d ds)
  from Cons.IH [of "addDetection rt T f r d s"] show ?case
    by (auto simp: addDetection_agentMap split: if_splits)
qed

lemma sourceStep_other [simp]:
  "dependencyEvidence (sourceStep rt fullPath T f s) = dependencyEvidence s"
  "envEvidence (sourceStep rt fullPath T f s) = envEvidence s"
  by (simp_all add: sourceStep_def Let_def)

lemma dependencyStep_fields [simp]:
  "agentMap (dependencyStep rt f s) = agentMap s"
  "envEvidence (dependencyStep rt f s) = envEvidence s"
  by (simp_all add: dependencyStep_def split: option.splits)

lemma envStep_fields [simp]:
  "agentMap (envStep rt f s) = agentMap s"
  "dependencyEvidence (envStep rt f s) = dependencyEvidence s"
  by (simp_all add: envStep_def split: option.splits)

lemma configStep_agentMap:
  "agentMap (configStep rt cfg f s) =
     (if basename (path f) \<in> set cfg \<and> isCrewaiConfig f
         \<and> map_of (agentMap s) (agentKey Crewai (path f)) = None
      then agentMap s @ [(agentKey Crewai (path f), configRecord rt f (length (agentMap s)))]
      else agentMap s)"
  by (simp add: configStep_def update_absent configRecord_def crewaiConfigEvidence_def
      isCrewaiConfig_def Let_def)

lemma configStep_other [simp]:
  "dependencyEvidence (configStep rt cfg f s) = dependencyEvidence s"
  "envEvidence (configStep rt cfg f s) = envEvidence s"
  by (simp_all add: configStep_def Let_def)

lemma sourceStep_keys:
  "fst ` set (agentMap (sourceStep rt (join_path sp (path f)) T f s)) =
     fst ` set (agentMap s) \<union> set (sourceKeys rt sp T f)"
  by (simp add: sourceStep_def sourceKeys_def isSourceFile_def fileDetections_def Let_def
      fold_addDetection_keys)

lemma sourceStep_distinct:
  "distinct (map fst (agentMap s)) \<Longrightarrow>
   distinct (map fst (agentMap (sourceStep rt fullPath T f s)))"
  by (simp add: sourceStep_def Let_def fold_addDetection_distinct)

lemma sourceRecord_fromSource:
  "isSourceFile f \<Longrightarrow> d \<in> set (fileDetections rt sp f) \<Longrightarrow> T \<le> totalConfidence d \<Longrightarrow>
   fromSource rt sp T f (agentKey (fd_framework d) (path f)) (sourceRecord rt f r d n)"
  by (auto simp: fromSource_def sourceRecord_def list_ex_iff)

lemma sourceStep_entries:
  "e \<in> set (agentMap (sourceStep rt (join_path sp (path f)) T f s)) \<Longrightarrow>
     e \<in> set (agentMap s) \<or> fromSource rt sp T f (fst e) (snd e)"
proof (cases "isSourceFile f")
  case False
  assume "e \<in> set (agentMap (sourceStep rt (join_path sp (path f)) T f s))"
  with False show ?thesis by (simp add: sourceStep_def isSourceFile_def)
next
  case True
  assume "e \<in> set (agentMap (sourceStep rt (join_path sp (path f)) T f s))"
  with True have "e \<in> set (agentMap (fold
      (addDetection rt T f (analyzeFile (regexExec rt) (join_path sp (path f)) (content f)))
      (fileDetections rt sp f) s))"
    by (simp add: sourceStep_def isSourceFile_def fileDetections_def Let_def)
  from fold_addDetection_entries [OF this] True show ?thesis
    by (auto intro: sourceRecord_fromSource)
qed

lemma sourceStep_prefix:
  "\<exists>news. agentMap (sourceStep rt fullPath T f s) = agentMap s @ news"
  using fold_addDetection_prefix by (simp add: sourceStep_def Let_def)

lemma configRecord_fromConfig:
  "isCrewaiConfig f \<Longrightarrow> fromConfig f (agentKey Crewai (path f)) (configRecord rt f n)"
  by (simp add: fromConfig_def configRecord_def)

lemma scanFile_agentMap:
  "agentMap (scanFile rt sp T cfg f s) =
     (if scannable f
      then agentMap (configStep rt cfg f (envStep rt f (dependencyStep rt f
             (sourceStep rt (join_path sp (path f)) T f
                (onProgress (s\<lparr>progress := (progress s)\<lparr>currentFile := Some (path f)\<rparr>\<rparr>))))))
      else agentMap s)"
  by (simp add: scanFile_def scannable_def Let_def split: option.splits)

lemma scanFile_keys:
  assumes "cfg_ok cfg"
  shows "fst ` set (agentMap (scanFile rt sp T cfg f s)) =
           fst ` set (agentMap s) \<union> set (fileKeys rt sp T f)"
proof (cases "scannable f")
  case False
  then show ?thesis by (simp add: scanFile_agentMap fileKeys_def)
next
  case True
  have in_cfg: "isCrewaiConfig f \<Longrightarrow> basename (path f) \<in> set cfg"
    using assms by (auto simp: cfg_ok_def isCrewaiConfig_def)
  show ?thesis
    using True in_cfg
    by (auto simp: scanFile_agentMap fileKeys_def configStep_agentMap sourceStep_keys
        map_of_None_keys)
qed

lemma scanFile_distinct:
  assumes "distinct (map fst (agentMap s))"
  shows "distinct (map fst (agentMap (scanFile rt sp T cfg f s)))"
proof -
  let ?s0 = "onProgress (s\<lparr>progress := (progress s)\<lparr>currentFile := Some (path f)\<rparr>\<rparr>)"
  have "distinct (map fst (agentMap ?s0))" using assms by simp
  then have "distinct (map fst (agentMap (sourceStep rt (join_path sp (path f)) T f ?s0)))"
    by (rule sourceStep_distinct)
  then show ?thesis
    using assms by (simp add: scanFile_agentMap configStep_agentMap map_of_None_keys)
qed

lemma scanFile_entries:
  assumes "e \<in> set (agentMap (scanFile rt sp T cfg f s))"
  shows "e \<in> set (agentMap s)
         \<or> (scannable f \<and> (fromSource rt sp T f (fst e) (snd e) \<or> fromConfig f (fst e) (snd e)))"
proof (cases "scannable f")
  case False
  with assms show ?thesis by (simp add: scanFile_agentMap)
next
  case True
  let ?s0 = "onProgress (s\<lparr>progress := (progress s)\<lparr>currentFile := Some (path f)\<rparr>\<rparr>)"
  let ?s1 = "sourceStep rt (join_path sp (path f)) T f ?s0"
  from assms True have "e \<in> set (agentMap ?s1)
      \<or> (isCrewaiConfig f \<and> (\<exists>n. e = (agentKey Crewai (path f), configRecord rt f n)))"
    by (auto simp: scanFile_agentMap configStep_agentMap split: if_splits)
  then show ?thesis
  proof
    assume "e \<in> set (agentMap ?s1)"
    from sourceStep_entries [OF this] True show ?thesis by auto
  next
    assume "isCrewaiConfig f \<and> (\<exists>n. e = (agentKey Crewai (path f), configRecord rt f n))"
    with True show ?thesis by (auto intro: configRecord_fromConfig)
  qed
qed

lemma scanFile_prefix:
  "\<exists>news. agentMap (scanFile rt sp T cfg f s) = agentMap s @ news"
proof -
  let ?s0 = "onProgress (s\<lparr>progress := (progress s)\<lparr>currentFile := Some (path f)\<rparr>\<rparr>)"
  obtain news where "agentMap (sourceStep rt (join_path sp (path f)) T f ?s0) = agentMap s @ news"
    using sourceStep_prefix [of rt "join_path sp (path f)" T f ?s0] by auto
  then show ?thesis
    by (auto simp: scanFile_agentMap configStep_agentMap)
qed

lemma scanFile_dependencyEvidence:
  "dependencyEvidence (scanFile rt sp T cfg f s) = dependencyEvidence s @ fileDependencies rt f"
  by (simp add: scanFile_def scannable_def fileDependencies_def dependencyStep_def Let_def
      split: option.splits)

lemma scanFile_envEvidence:
  "envEvidence (scanFile rt sp T cfg f s) = envEvidence s @ fileEnvVars rt f"
  by (simp add: scanFile_def scannable_def fileEnvVars_def envStep_def Let_def
      split: option.splits)

lemma fold_scanFile_keys:
  assumes "cfg_ok cfg"
  shows "fst ` set (agentMap (fold (scanFile rt sp T cfg) fs s)) =
           fst ` set (agentMap s) \<union> (\<Union>f \<in> set fs. set (fileKeys rt sp T f))"
  by (induction fs arbitrary: s) (auto simp: scanFile_keys [OF assms])

lemma fold_scanFile_distinct:
  "distinct (map fst (agentMap s)) \<Longrightarrow>
   distinct (map fst (agentMap (fold (scanFile rt sp T cfg) fs s)))"
  by (induction fs arbitrary: s) (simp_all add: scanFile_distinct)

lemma fold_scanFile_entries:
  "e \<in> set (agentMap (fold (scanFile rt sp T cfg) fs s)) \<Longrightarrow>
     e \<in> set (agentMap s) \<or> fromFiles rt sp T fs e"
proof (induction fs arbitrary: s)
  case Nil
  then show ?case by simp
next
  case (Cons f fs)
  from Cons.prems have "e \<in> set (agentMap (fold (scanFile rt sp T cfg) fs (scanFile rt sp T cfg f s)))"
    by simp
  from Cons.IH [OF this] show ?case
  proof
    assume "e \<in> set (agentMap (scanFile rt sp T cfg f s))"
    from scanFile_entries [OF this] show ?thesis
      by (auto simp: fromFiles_def)
  next
    assume "fromFiles rt sp T fs e"
    then show ?thesis by (simp add: fromFiles_def)
  qed
qed

lemma fold_scanFile_dependencyEvidence:
  "dependencyEvidence (fold (scanFile rt sp T cfg) fs s) =
     dependencyEvidence s @ concat (map (fileDependencies rt) fs)"
  by (induction fs arbitrary: s) (simp_all add: scanFile_dependencyEvidence)

lemma fold_scanFile_envEvidence:
  "envEvidence (fold (scanFile rt sp T cfg) fs s) =
     envEvidence s @ concat (map (fileEnvVars rt) fs)"
  by (induction fs arbitrary: s) (simp_all add: scanFile_envEvidence)

section \<open>Keys of the registry\<close>

lemma framework_name_no_colon: "CHR '':'' \<notin> set (framework_name fw)"
  by (cases fw) simp_all

lemma framework_name_inj: "framework_name a = framework_name b \<Longrightarrow> a = b"
  by (cases a; cases b; simp)

lemma takeWhile_until: "x \<notin> set xs \<Longrightarrow> takeWhile (\<lambda>c. c \<noteq> x) (xs @ x # ys) = xs"
  by (induction xs) auto

lemma agentKey_inj:
  assumes "agentKey fw1 f1 = agentKey fw2 f2"
  shows "fw1 = fw2 \<and> f1 = f2"
proof -
  from assms have eq: "framework_name fw1 @ CHR '':'' # f1 = framework_name fw2 @ CHR '':'' # f2"
    by (simp add: agentKey_def)
  have "takeWhile (\<lambda>c. c \<noteq> CHR '':'') (framework_name fw1 @ CHR '':'' # f1) = framework_name fw1"
    by (rule takeWhile_until [OF framework_name_no_colon])
  moreover have "takeWhile (\<lambda>c. c \<noteq> CHR '':'') (framework_name fw2 @ CHR '':'' # f2) = framework_name fw2"
    by (rule takeWhile_until [OF framework_name_no_colon])
  ultimately have names: "framework_name fw1 = framework_name fw2" using eq by simp
  then have "fw1 = fw2" by (rule framework_name_inj)
  with eq show ?thesis by simp
qed

lemma config_file_names:
  "getAgentConfigFileNames =
     [''crewai.yaml'', ''crewai.yml'', ''agents.yaml'', ''agents.yml'', ''agent.json'',
      ''agent_config.json'', ''agent_config.yaml'']"
  by (simp add: getAgentConfigFileNames_def ALL_PATTERNS_def array_from_set_def
      langchainPatterns_def langgraphPatterns_def crewaiPatterns_def autogenPatterns_def
      semanticKernelPatterns_def haystackPatterns_def llamaindexPatterns_def
      openaiAssistantsPatterns_def anthropicPatterns_def awsBedrockPatterns_def
      googleVertexPatterns_def langchainJsPatterns_def vercelAiPatterns_def
      openaiSdkJsPatterns_def)

lemma cfg_ok_registry: "cfg_ok getAgentConfigFileNames"
  by (simp add: cfg_ok_def config_file_names)

section \<open>Bounds on what the matcher and the analyzers contribute\<close>

lemma registry_weights_nonneg:
  "\<forall>fp \<in> set ALL_PATTERNS. \<forall>pd \<in> set (fp_imports fp @ instantiations fp). 0 \<le> pd_confidence pd"
  by (simp add: ALL_PATTERNS_def
      langchainPatterns_def langgraphPatterns_def crewaiPatterns_def autogenPatterns_def
      semanticKernelPatterns_def haystackPatterns_def llamaindexPatterns_def
      openaiAssistantsPatterns_def anthropicPatterns_def awsBedrockPatterns_def
      googleVertexPatterns_def langchainJsPatterns_def vercelAiPatterns_def
      openaiSdkJsPatterns_def)

lemma dependency_weights_nonneg:
  "\<forall>d \<in> set DEPENDENCY_MAPPINGS. 0 \<le> dm_confidence d"
  by (simp add: DEPENDENCY_MAPPINGS_def)

lemma update_member: "e \<in> set (AList.update k v al) \<Longrightarrow> e = (k, v) \<or> e \<in> set al"
  by (induction al) (auto split: if_splits)

lemma deduplicate_fold_patterns:
  assumes "\<forall>p \<in> set ps. \<forall>pd \<in> set (fp_imports p @ instantiations p). P pd"
    and "\<forall>e \<in> set seen. \<forall>pd \<in> set (fp_imports (snd e) @ instantiations (snd e)). P pd"
  shows "\<forall>e \<in> set (fold (\<lambda>p seen.
                case map_of seen (fp_framework p) of
                  None \<Rightarrow> AList.update (fp_framework p) p seen
                | Some existing \<Rightarrow>
                    AList.update (fp_framework p)
                      (existing\<lparr>fp_imports := fp_imports existing @ fp_imports p,
                                instantiations := instantiations existing @ instantiations p,
                                configFiles := Some (or_empty (configFiles existing) @ or_empty (configFiles p)),
                                dependencies := Some (or_empty (dependencies existing) @ or_empty (dependencies p))\<rparr>)
                      seen) ps seen).
           \<forall>pd \<in> set (fp_imports (snd e) @ instantiations (snd e)). P pd"
  using assms
proof (induction ps arbitrary: seen)
  case Nil
  then show ?case by simp
next
  case (Cons p ps)
  show ?case
  proof (cases "map_of seen (fp_framework p)")
    case None
    have "\<forall>e \<in> set (AList.update (fp_framework p) p seen).
            \<forall>pd \<in> set (fp_imports (snd e) @ instantiations (snd e)). P pd"
      using Cons.prems by (auto dest!: update_member)
    with Cons.IH [of "AList.update (fp_framework p) p seen"] Cons.prems None
    show ?thesis by simp
  next
    case (Some existing)
    let ?m = "existing\<lparr>fp_imports := fp_imports existing @ fp_imports p,
                       instantiations := instantiations existing @ instantiations p,
                       configFiles := Some (or_empty (configFiles existing) @ or_empty (configFiles p)),
                       dependencies := Some (or_empty (dependencies existing) @ or_empty (dependencies p))\<rparr>"
    from Some have "(fp_framework p, existing) \<in> set seen" by (rule map_of_SomeD)
    with Cons.prems have ex: "\<forall>pd \<in> set (fp_imports existing @ instantiations existing). P pd"
      by force
    from Cons.prems have "\<forall>pd \<in> set (fp_imports p @ instantiations p). P pd" by simp
    with ex have "\<forall>pd \<in> set (fp_imports ?m @ instantiations ?m). P pd" by auto
    then have "\<forall>e \<in> set (AList.update (fp_framework p) ?m seen).
            \<forall>pd \<in> set (fp_imports (snd e) @ instantiations (snd e)). P pd"
      using Cons.prems(2) by (auto dest!: update_member)
    with Cons.IH [of "AList.update (fp_framework p) ?m seen"] Cons.prems Some
    show ?thesis by simp
  qed
qed

lemma deduplicatePatterns_patterns:
  assumes "\<forall>p \<in> set ps. \<forall>pd \<in> set (fp_imports p @ instantiations p). P pd"
    and "fp \<in> set (deduplicatePatterns ps)"
  shows "\<forall>pd \<in> set (fp_imports fp @ instantiations fp). P pd"
  using deduplicate_fold_patterns [OF assms(1), of "[]"] assms(2)
  unfolding deduplicatePatterns_def by auto

lemma scanLines_contribution:
  "e \<in> set (scanLines rx pd fp ls k) \<Longrightarrow> confidenceContribution e = pd_confidence pd"
  by (induction ls arbitrary: k) (auto split: option.splits)

lemma matchPatterns_contribution:
  "e \<in> set (matchPatterns rx cont fp fps) \<Longrightarrow>
     \<exists>pd \<in> set (fp_imports fps @ instantiations fps). confidenceContribution e = pd_confidence pd"
  unfolding matchPatterns_concat by (auto dest: scanLines_contribution)

lemma calculateConfidence_nonneg:
  assumes "\<forall>e \<in> set ev. 0 \<le> confidenceContribution e"
  shows "0 \<le> calculateConfidence ev"
proof -
  have s: "0 \<le> sum_list (map confidenceContribution ev)"
    by (rule sum_list_nonneg) (use assms in auto)
  then have "0 \<le> (sum_list (map confidenceContribution ev)
                 + (if card (set (map ev_type ev)) \<ge> 2 then 1 / 10 else 0)) * 100 + 1 / 2"
    by simp
  then have "0 \<le> \<lfloor>(sum_list (map confidenceContribution ev)
                 + (if card (set (map ev_type ev)) \<ge> 2 then 1 / 10 else 0)) * 100 + 1 / 2\<rfloor>"
    by (simp only: zero_le_floor)
  then show ?thesis
    by (simp add: calculateConfidence_eq spec_confidence_def Let_def)
qed

lemma detectFrameworks_member:
  "d \<in> set (detectFrameworks rx cont fp ups) \<Longrightarrow>
     \<exists>fps \<in> set ups. fd_framework d = fp_framework fps
        \<and> fd_evidence d = matchPatterns rx cont fp fps
        \<and> totalConfidence d = calculateConfidence (matchPatterns rx cont fp fps)"
proof -
  have gen: "d \<in> set (fold (\<lambda>frameworkPatterns ds.
             let ev = matchPatterns rx cont fp frameworkPatterns
             in if length ev > 0
                then ds @ [\<lparr>fd_framework = fp_framework frameworkPatterns,
                             fd_displayName = displayName frameworkPatterns,
                             fd_evidence = ev,
                             totalConfidence = calculateConfidence ev\<rparr>]
                else ds) ups acc) \<Longrightarrow>
        d \<in> set acc \<or> (\<exists>fps \<in> set ups. fd_framework d = fp_framework fps
        \<and> fd_evidence d = matchPatterns rx cont fp fps
        \<and> totalConfidence d = calculateConfidence (matchPatterns rx cont fp fps))" for acc
  proof (induction ups arbitrary: acc)
    case Nil
    then show ?case by simp
  next
    case (Cons u ups)
    from Cons.IH [OF Cons.prems [simplified fold_simps]] show ?case
      by (auto simp: Let_def split: if_splits)
  qed
  assume "d \<in> set (detectFrameworks rx cont fp ups)"
  then show ?thesis using gen [of "[]"] by (simp add: detectFrameworks_def)
qed

lemma getPatternsForLanguage_subset: "set (getPatternsForLanguage l) \<subseteq> set ALL_PATTERNS"
  by (auto simp: getPatternsForLanguage_def)

lemma analyzeFile_detections:
  assumes "d \<in> set (detections (analyzeFile rx fp rd))"
  shows "\<exists>cont ps. rd = Some cont \<and> set ps \<subseteq> set ALL_PATTERNS
           \<and> d \<in> set (detectFrameworks rx cont fp (deduplicatePatterns ps))"
proof (cases "detectLanguage fp = UnknownLanguage")
  case True
  with assms show ?thesis by (simp add: analyzeFile_def Let_def)
next
  case False
  show ?thesis
  proof (cases rd)
    case None
    with assms False show ?thesis by (simp add: analyzeFile_def Let_def)
  next
    case (Some cont)
    let ?ps = "(if detectLanguage fp = Typescript
                then getPatternsForLanguage (detectLanguage fp) @ getPatternsForLanguage Javascript
                else if detectLanguage fp = Javascript
                then getPatternsForLanguage (detectLanguage fp) @ getPatternsForLanguage Typescript
                else getPatternsForLanguage (detectLanguage fp))"
    from assms False Some
    have "d \<in> set (detectFrameworks rx cont fp (deduplicatePatterns ?ps))"
      by (simp add: analyzeFile_def Let_def)
    moreover have "set ?ps \<subseteq> set ALL_PATTERNS"
      using getPatternsForLanguage_subset by auto
    ultimately show ?thesis using Some by blast
  qed
qed

lemma analyzeFile_detection_bounds:
  assumes "d \<in> set (detections (analyzeFile rx fp rd))"
  shows "0 \<le> totalConfidence d \<and> totalConfidence d \<le> 1"
proof -
  from analyzeFile_detections [OF assms] obtain cont ps where ps: "set ps \<subseteq> set ALL_PATTERNS"
    and d: "d \<in> set (detectFrameworks rx cont fp (deduplicatePatterns ps))"
    by blast
  from detectFrameworks_member [OF d] obtain fps where fps: "fps \<in> set (deduplicatePatterns ps)"
    and tc: "totalConfidence d = calculateConfidence (matchPatterns rx cont fp fps)"
    by blast
  have "\<forall>p \<in> set ps. \<forall>pd \<in> set (fp_imports p @ instantiations p). 0 \<le> pd_confidence pd"
    using ps registry_weights_nonneg by blast
  from deduplicatePatterns_patterns [OF this fps]
  have "\<forall>e \<in> set (matchPatterns rx cont fp fps). 0 \<le> confidenceContribution e"
    by (metis matchPatterns_contribution)
  from calculateConfidence_nonneg [OF this] tc calculateConfidence_le_1
  show ?thesis by simp
qed

section \<open>Fold-in of auxiliary evidence\<close>

lemma boosted_refl: "confidence a \<le> 1 \<Longrightarrow> boosted a a"
  by (simp add: boosted_def)

lemma boosted_trans: "boosted a b \<Longrightarrow> boosted b c \<Longrightarrow> boosted a c"
  by (auto simp: boosted_def)

lemma addDependency_boosted:
  "0 \<le> confidenceContribution dep \<Longrightarrow> confidence a \<le> 1 \<Longrightarrow> boosted a (addDependency dep mp a)"
  by (simp add: addDependency_def boosted_def)

lemma dependencyBoost_boosted:
  "0 \<le> confidenceContribution dep \<Longrightarrow> confidence a \<le> 1 \<Longrightarrow> boosted a (dependencyBoost dep a)"
  by (simp add: dependencyBoost_def addDependency_boosted boosted_refl split: option.splits)

lemma addEnvVar_boosted: "confidence a \<le> 1 \<Longrightarrow> boosted a (addEnvVar env a)"
  by (simp add: addEnvVar_def boosted_def)

lemma enrichWithDependencies_alt:
  "enrichWithDependencies m deps =
     fold (\<lambda>dep m. map (\<lambda>(k, agent). (k, dependencyBoost dep agent)) m) deps m"
  unfolding enrichWithDependencies_def
  by (rule arg_cong [where f = "\<lambda>F. fold F deps m"])
     (auto simp: fun_eq_iff dependencyBoost_def split: option.splits)

lemma list_all2_right:
  "list_all2 R xs ys \<Longrightarrow> (\<And>x y. R x y \<Longrightarrow> P y) \<Longrightarrow> \<forall>y \<in> set ys. P y"
  by (induction rule: list_all2_induct) auto

lemma fold_map_boosted:
  assumes "\<And>x a. x \<in> set xs \<Longrightarrow> confidence a \<le> 1 \<Longrightarrow> boosted a (h x a)"
    and "\<forall>e \<in> set m. confidence (snd e) \<le> 1"
  shows "list_all2 (\<lambda>e e'. fst e' = fst e \<and> boosted (snd e) (snd e')) m
           (fold (\<lambda>x m. map (\<lambda>(k, a). (k, h x a)) m) xs m)"
  using assms
proof (induction xs arbitrary: m)
  case Nil
  then show ?case by (simp add: list_all2_same boosted_refl)
next
  case (Cons x xs)
  let ?m1 = "map (\<lambda>(k, a). (k, h x a)) m"
  have step: "list_all2 (\<lambda>e e'. fst e' = fst e \<and> boosted (snd e) (snd e')) m ?m1"
    using Cons.prems by (auto simp: list_all2_map2 list_all2_same split: prod.splits)
  then have le: "\<forall>e \<in> set ?m1. confidence (snd e) \<le> 1"
    by (rule list_all2_right) (simp add: boosted_def)
  have "list_all2 (\<lambda>e e'. fst e' = fst e \<and> boosted (snd e) (snd e')) ?m1
          (fold (\<lambda>x m. map (\<lambda>(k, a). (k, h x a)) m) xs ?m1)"
    by (rule Cons.IH) (use Cons.prems le in auto)
  with step have "list_all2 (\<lambda>e e'. fst e' = fst e \<and> boosted (snd e) (snd e')) m
          (fold (\<lambda>x m. map (\<lambda>(k, a). (k, h x a)) m) xs ?m1)"
    by (rule list_all2_trans [rotated]) (auto intro: boosted_trans)
  then show ?case by simp
qed

lemma fold_map_unchanged:
  assumes "\<And>x a. x \<in> set xs \<Longrightarrow> Q a \<Longrightarrow> h x a = a"
  shows "list_all2 (\<lambda>e e'. Q (snd e) \<longrightarrow> e' = e) m
           (fold (\<lambda>x m. map (\<lambda>(k, a). (k, h x a)) m) xs m)"
  using assms
proof (induction xs arbitrary: m)
  case Nil
  then show ?case by (simp add: list_all2_same)
next
  case (Cons x xs)
  let ?m1 = "map (\<lambda>(k, a). (k, h x a)) m"
  have step: "list_all2 (\<lambda>e e'. Q (snd e) \<longrightarrow> e' = e) m ?m1"
    using Cons.prems by (auto simp: list_all2_map2 list_all2_same split: prod.splits)
  have "list_all2 (\<lambda>e e'. Q (snd e) \<longrightarrow> e' = e) ?m1
          (fold (\<lambda>x m. map (\<lambda>(k, a). (k, h x a)) m) xs ?m1)"
    by (rule Cons.IH) (use Cons.prems in auto)
  with step have "list_all2 (\<lambda>e e'. Q (snd e) \<longrightarrow> e' = e) m
          (fold (\<lambda>x m. map (\<lambda>(k, a). (k, h x a)) m) xs ?m1)"
    by (rule list_all2_trans [rotated]) auto
  then show ?case by simp
qed

lemma enrichWithDependencies_boosted:
  assumes "\<forall>d \<in> set deps. 0 \<le> confidenceContribution d"
    and "\<forall>e \<in> set m. confidence (snd e) \<le> 1"
  shows "list_all2 (\<lambda>e e'. fst e' = fst e \<and> boosted (snd e) (snd e')) m
           (enrichWithDependencies m deps)"
  unfolding enrichWithDependencies_alt
  by (rule fold_map_boosted) (use assms in \<open>auto intro: dependencyBoost_boosted\<close>)

lemma enrichWithEnvVars_boosted:
  assumes "\<forall>e \<in> set m. confidence (snd e) \<le> 1"
  shows "list_all2 (\<lambda>e e'. fst e' = fst e \<and> boosted (snd e) (snd e')) m
           (enrichWithEnvVars m envs)"
  unfolding enrichWithEnvVars_def
  by (rule fold_map_boosted) (use assms in \<open>auto intro: addEnvVar_boosted\<close>)

lemma enrich_boosted:
  assumes "\<forall>d \<in> set deps. 0 \<le> confidenceContribution d"
    and "\<forall>e \<in> set m. confidence (snd e) \<le> 1"
  shows "list_all2 (\<lambda>e e'. fst e' = fst e \<and> boosted (snd e) (snd e')) m
           (enrichWithEnvVars (enrichWithDependencies m deps) envs)"
proof -
  let ?m1 = "enrichWithDependencies m deps"
  have a: "list_all2 (\<lambda>e e'. fst e' = fst e \<and> boosted (snd e) (snd e')) m ?m1"
    by (rule enrichWithDependencies_boosted [OF assms])
  then have "\<forall>e \<in> set ?m1. confidence (snd e) \<le> 1"
    by (rule list_all2_right) (simp add: boosted_def)
  then have "list_all2 (\<lambda>e e'. fst e' = fst e \<and> boosted (snd e) (snd e')) ?m1
               (enrichWithEnvVars ?m1 envs)"
    by (rule enrichWithEnvVars_boosted)
  with a show ?thesis
    by (rule list_all2_trans [rotated]) (auto intro: boosted_trans)
qed

lemma dependencyBoost_other_framework:
  assumes "\<forall>mp. find (\<lambda>d. dm_name d = ev_pattern dep) DEPENDENCY_MAPPINGS = Some mp
             \<longrightarrow> dm_framework mp \<noteq> fw"
    and "framework a = fw"
  shows "dependencyBoost dep a = a"
  using assms by (auto simp: dependencyBoost_def addDependency_def split: option.splits)

lemma enrichWithDependencies_unchanged:
  assumes "\<forall>dep \<in> set deps. \<forall>mp. find (\<lambda>d. dm_name d = ev_pattern dep) DEPENDENCY_MAPPINGS = Some mp
             \<longrightarrow> dm_framework mp \<noteq> fw"
  shows "list_all2 (\<lambda>e e'. framework (snd e) = fw \<longrightarrow> e' = e) m (enrichWithDependencies m deps)"
  unfolding enrichWithDependencies_alt
  by (rule fold_map_unchanged) (use assms in \<open>auto intro: dependencyBoost_other_framework\<close>)

section \<open>The agents of the result\<close>

lemma scanLocal_agents:
  "agents (snd (scanLocal rt tree options)) =
     fst (enrichWithRisks rt (enrichWithGitBlame rt
            (sortByConfidence (map snd (enrichedAgentMap rt tree options)))))"
  by (simp add: scanLocal_def Let_def split: prod.splits)

lemma enrichWithGitBlame_core: "map agentCore (enrichWithGitBlame rt ags) = map agentCore ags"
  by (simp add: enrichWithGitBlame_def agentCore_def Let_def)

lemma enrichWithRisks_core: "map agentCore (fst (enrichWithRisks rt ags)) = map agentCore ags"
  by (simp add: enrichWithRisks_def agentCore_def Let_def)

lemma scanLocal_agents_core:
  "map agentCore (agents (snd (scanLocal rt tree options))) =
     map agentCore (sortByConfidence (map snd (enrichedAgentMap rt tree options)))"
  by (simp add: scanLocal_agents enrichWithRisks_core enrichWithGitBlame_core)

lemma sortByConfidence_sorted:
  "sorted_wrt (\<lambda>a b. confidence b \<le> confidence a) (sortByConfidence ags)"
proof -
  have "sorted (map (\<lambda>a. - confidence a) (sortByConfidence ags))"
    by (simp add: sortByConfidence_def)
  then show ?thesis
    by (simp add: sorted_map sorted_wrt_iff_nth_less)
qed

lemma sortByConfidence_set [simp]: "set (sortByConfidence ags) = set ags"
  by (simp add: sortByConfidence_def)

lemma sortByConfidence_length [simp]: "length (sortByConfidence ags) = length ags"
  by (simp add: sortByConfidence_def)

lemma sortByConfidence_distinct_map:
  "distinct (map g ags) \<Longrightarrow> distinct (map g (sortByConfidence ags))"
  by (simp add: distinct_map sortByConfidence_def)

lemma sortByConfidence_filter:
  "filter P (sortByConfidence ags) = sortByConfidence (filter P ags)"
  by (simp add: sortByConfidence_def filter_sort)

section \<open>The registry after the loop\<close>

lemma scanFiles_fold:
  "\<exists>s0. agentMap s0 = [] \<and> dependencyEvidence s0 = [] \<and> envEvidence s0 = []
     \<and> scanFiles rt tree options =
         fold (scanFile rt (scanPathOf rt options) (thresholdOf options) getAgentConfigFileNames)
              (discoveredFiles tree options) s0"
  by (rule exI [of _ "onProgress ((onProgress initialState)\<lparr>progress :=
          (progress (onProgress initialState))\<lparr>phase := Scanning,
             filesDiscovered := length (discoveredFiles tree options)\<rparr>\<rparr>)"])
     (simp add: scanFiles_def Let_def initialState_def)

lemma scanFiles_keys:
  "fst ` set (agentMap (scanFiles rt tree options)) =
     (\<Union>f \<in> set (discoveredFiles tree options).
        set (fileKeys rt (scanPathOf rt options) (thresholdOf options) f))"
proof -
  from scanFiles_fold [of rt tree options] obtain s0 where "agentMap s0 = []"
    and "scanFiles rt tree options =
         fold (scanFile rt (scanPathOf rt options) (thresholdOf options) getAgentConfigFileNames)
              (discoveredFiles tree options) s0"
    by blast
  then show ?thesis by (simp add: fold_scanFile_keys [OF cfg_ok_registry])
qed

lemma scanFiles_distinct: "distinct (map fst (agentMap (scanFiles rt tree options)))"
proof -
  from scanFiles_fold [of rt tree options] obtain s0 where "agentMap s0 = []"
    and "scanFiles rt tree options =
         fold (scanFile rt (scanPathOf rt options) (thresholdOf options) getAgentConfigFileNames)
              (discoveredFiles tree options) s0"
    by blast
  then show ?thesis by (simp add: fold_scanFile_distinct)
qed

lemma scanFiles_entries:
  assumes "e \<in> set (agentMap (scanFiles rt tree options))"
  shows "fromFiles rt (scanPathOf rt options) (thresholdOf options) (discoveredFiles tree options) e"
proof -
  from scanFiles_fold [of rt tree options] obtain s0 where s0: "agentMap s0 = []"
    and "scanFiles rt tree options =
         fold (scanFile rt (scanPathOf rt options) (thresholdOf options) getAgentConfigFileNames)
              (discoveredFiles tree options) s0"
    by blast
  with assms fold_scanFile_entries [of e rt "scanPathOf rt options" "thresholdOf options"
      getAgentConfigFileNames "discoveredFiles tree options" s0]
  show ?thesis by simp
qed

lemma scanFiles_dependencyEvidence:
  "dependencyEvidence (scanFiles rt tree options) =
     concat (map (fileDependencies rt) (discoveredFiles tree options))"
proof -
  from scanFiles_fold [of rt tree options] obtain s0 where "dependencyEvidence s0 = []"
    and "scanFiles rt tree options =
         fold (scanFile rt (scanPathOf rt options) (thresholdOf options) getAgentConfigFileNames)
              (discoveredFiles tree options) s0"
    by blast
  then show ?thesis by (simp add: fold_scanFile_dependencyEvidence)
qed

lemma scanFiles_envEvidence:
  "envEvidence (scanFiles rt tree options) =
     concat (map (fileEnvVars rt) (discoveredFiles tree options))"
proof -
  from scanFiles_fold [of rt tree options] obtain s0 where "envEvidence s0 = []"
    and "scanFiles rt tree options =
         fold (scanFile rt (scanPathOf rt options) (thresholdOf options) getAgentConfigFileNames)
              (discoveredFiles tree options) s0"
    by blast
  then show ?thesis by (simp add: fold_scanFile_envEvidence)
qed

lemma fromFiles_key:
  "fromFiles rt sp T fs e \<Longrightarrow> fst e = agentKey (framework (snd e)) (filePath (location (snd e)))"
  by (auto simp: fromFiles_def fromSource_def fromConfig_def list_ex_iff)

lemma fromFiles_bounds:
  assumes "fromFiles rt sp T fs e"
  shows "0 \<le> confidence (snd e) \<and> confidence (snd e) \<le> 1"
proof -
  from assms obtain f where "fromSource rt sp T f (fst e) (snd e) \<or> fromConfig f (fst e) (snd e)"
    by (auto simp: fromFiles_def list_ex_iff)
  then show ?thesis
  proof
    assume "fromSource rt sp T f (fst e) (snd e)"
    then obtain d where "d \<in> set (fileDetections rt sp f)" "confidence (snd e) = totalConfidence d"
      by (auto simp: fromSource_def list_ex_iff)
    then show ?thesis
      using analyzeFile_detection_bounds [of d "regexExec rt" "join_path sp (path f)" "content f"]
      by (simp add: fileDetections_def)
  next
    assume "fromConfig f (fst e) (snd e)"
    then show ?thesis by (simp add: fromConfig_def)
  qed
qed

lemma find_member: "find P xs = Some x \<Longrightarrow> x \<in> set xs"
  by (induction xs) (auto split: if_splits)

lemma analyzeDependencyFile_nonneg:
  assumes "d \<in> set (analyzeDependencyFile rt cont fp nm)"
  shows "0 \<le> confidenceContribution d"
proof -
  have pick: "find P DEPENDENCY_MAPPINGS = Some mp \<Longrightarrow> 0 \<le> dm_confidence mp" for P mp
    using dependency_weights_nonneg by (auto dest: find_member)
  have pick': "Some mp = find P DEPENDENCY_MAPPINGS \<Longrightarrow> 0 \<le> dm_confidence mp" for P mp
    using pick [of P mp] by simp
  have direct: "mp \<in> set DEPENDENCY_MAPPINGS \<Longrightarrow> 0 \<le> dm_confidence mp" for mp
    using dependency_weights_nonneg by auto
  consider (lines) "nm = ''requirements.txt'' \<or> nm = ''Pipfile''"
    | (toml) "\<not> (nm = ''requirements.txt'' \<or> nm = ''Pipfile'')" "nm = ''pyproject.toml''"
    | (json) "\<not> (nm = ''requirements.txt'' \<or> nm = ''Pipfile'')" "nm \<noteq> ''pyproject.toml''"
        "nm = ''package.json''"
    | (other) "\<not> (nm = ''requirements.txt'' \<or> nm = ''Pipfile'')" "nm \<noteq> ''pyproject.toml''"
        "nm \<noteq> ''package.json''"
    by blast
  then show ?thesis
  proof cases
    case lines
    with assms show ?thesis
      by (auto simp: analyzeDependencyFile_def split: option.splits intro: pick pick')
  next
    case toml
    with assms show ?thesis
      by (auto simp: analyzeDependencyFile_def split: if_splits dest: direct)
  next
    case json
    with assms show ?thesis
      by (auto simp: analyzeDependencyFile_def split: option.splits intro: pick pick')
  next
    case other
    with assms show ?thesis by (simp add: analyzeDependencyFile_def)
  qed
qed

lemma scanFiles_dependencies_nonneg:
  "\<forall>d \<in> set (dependencyEvidence (scanFiles rt tree options)). 0 \<le> confidenceContribution d"
  by (auto simp: scanFiles_dependencyEvidence fileDependencies_def
      split: if_splits option.splits dest: analyzeDependencyFile_nonneg)

lemma registry_boosted:
  "list_all2 (\<lambda>e e'. fst e' = fst e \<and> boosted (snd e) (snd e'))
     (agentMap (scanFiles rt tree options)) (enrichedAgentMap rt tree options)"
  unfolding enrichedAgentMap_def Let_def
  by (rule enrich_boosted [OF scanFiles_dependencies_nonneg])
     (auto dest!: scanFiles_entries fromFiles_bounds)

section \<open>From the registry to the result\<close>

lemma list_all2_left_ex: "list_all2 R xs ys \<Longrightarrow> x \<in> set xs \<Longrightarrow> \<exists>y \<in> set ys. R x y"
  by (induction rule: list_all2_induct) auto

lemma list_all2_right_ex: "list_all2 R xs ys \<Longrightarrow> y \<in> set ys \<Longrightarrow> \<exists>x \<in> set xs. R x y"
  by (induction rule: list_all2_induct) auto

lemma list_all2_same_image: "list_all2 (\<lambda>x y. f y = f x \<and> Q x y) xs ys \<Longrightarrow> map f ys = map f xs"
  by (induction rule: list_all2_induct) auto

lemma agentCore_fields:
  "agentCore a = agentCore b \<Longrightarrow>
     framework a = framework b \<and> location a = location b \<and> confidence a = confidence b
     \<and> evidence a = evidence b"
  by (simp add: agentCore_def)

lemma boosted_core: "boosted a0 b \<Longrightarrow> agentCore a = agentCore b \<Longrightarrow> boosted a0 a"
  by (simp add: boosted_def agentCore_def)

lemma agents_core_set:
  "agentCore ` set (agents (snd (scanLocal rt tree options))) =
     agentCore ` snd ` set (enrichedAgentMap rt tree options)"
proof -
  have "set (map agentCore (agents (snd (scanLocal rt tree options)))) =
          set (map agentCore (sortByConfidence (map snd (enrichedAgentMap rt tree options))))"
    by (simp only: scanLocal_agents_core)
  then show ?thesis by simp
qed

lemma result_agent_origin:
  assumes "a \<in> set (agents (snd (scanLocal rt tree options)))"
  shows "\<exists>e \<in> set (agentMap (scanFiles rt tree options)). boosted (snd e) a"
proof -
  from assms have "agentCore a \<in> agentCore ` snd ` set (enrichedAgentMap rt tree options)"
    using agents_core_set [of rt tree options] by blast
  then obtain e' where e': "e' \<in> set (enrichedAgentMap rt tree options)"
    and core: "agentCore a = agentCore (snd e')"
    by auto
  from list_all2_right_ex [OF registry_boosted e'] obtain e
    where "e \<in> set (agentMap (scanFiles rt tree options))" "boosted (snd e) (snd e')"
    by blast
  with core show ?thesis by (blast intro: boosted_core)
qed

lemma registry_entry_result:
  assumes "e \<in> set (agentMap (scanFiles rt tree options))"
  shows "\<exists>a \<in> set (agents (snd (scanLocal rt tree options))). boosted (snd e) a"
proof -
  from list_all2_left_ex [OF registry_boosted assms] obtain e'
    where e': "e' \<in> set (enrichedAgentMap rt tree options)" and b: "boosted (snd e) (snd e')"
    by blast
  from e' have "agentCore (snd e') \<in> agentCore ` set (agents (snd (scanLocal rt tree options)))"
    using agents_core_set [of rt tree options] by blast
  then obtain a where "a \<in> set (agents (snd (scanLocal rt tree options)))"
    and "agentCore a = agentCore (snd e')"
    by auto
  with b show ?thesis by (blast intro: boosted_core)
qed

lemma enriched_keys:
  "map fst (enrichedAgentMap rt tree options) = map fst (agentMap (scanFiles rt tree options))"
  by (rule list_all2_same_image [OF registry_boosted])

lemma enriched_key_of_pair:
  assumes "e' \<in> set (enrichedAgentMap rt tree options)"
  shows "fst e' = agentKey (framework (snd e')) (filePath (location (snd e')))"
proof -
  from list_all2_right_ex [OF registry_boosted assms] obtain e
    where e: "e \<in> set (agentMap (scanFiles rt tree options))"
      and k: "fst e' = fst e" and b: "boosted (snd e) (snd e')"
    by blast
  from fromFiles_key [OF scanFiles_entries [OF e]] k b show ?thesis
    by (simp add: boosted_def)
qed

lemma distinct_map_comp: "distinct (map (\<lambda>x. f (g x)) xs) \<Longrightarrow> distinct (map g xs)"
  by (induction xs) auto

lemma enriched_pairs_distinct:
  "distinct (map (\<lambda>a. (framework a, filePath (location a)))
                 (map snd (enrichedAgentMap rt tree options)))"
proof -
  let ?m = "enrichedAgentMap rt tree options"
  have eq: "map fst ?m = map (\<lambda>e. agentKey (framework (snd e)) (filePath (location (snd e)))) ?m"
    by (rule map_cong [OF refl]) (rule enriched_key_of_pair)
  have "distinct (map fst ?m)"
    by (simp add: enriched_keys scanFiles_distinct)
  then have d: "distinct (map (\<lambda>e. agentKey (framework (snd e)) (filePath (location (snd e)))) ?m)"
    unfolding eq .
  have "distinct (map (\<lambda>e. (framework (snd e), filePath (location (snd e)))) ?m)"
    by (rule distinct_map_comp [where f = "\<lambda>p. agentKey (fst p) (snd p)"]) (simp add: d)
  then show ?thesis by (simp add: comp_def)
qed

lemma result_pairs:
  "map (\<lambda>a. (framework a, filePath (location a))) (agents (snd (scanLocal rt tree options))) =
   map (\<lambda>a. (framework a, filePath (location a)))
       (sortByConfidence (map snd (enrichedAgentMap rt tree options)))"
proof -
  have "map (\<lambda>c. (fst c, filePath (fst (snd c))))
          (map agentCore (agents (snd (scanLocal rt tree options)))) =
        map (\<lambda>c. (fst c, filePath (fst (snd c))))
          (map agentCore (sortByConfidence (map snd (enrichedAgentMap rt tree options))))"
    by (simp only: scanLocal_agents_core)
  then show ?thesis by (simp add: agentCore_def comp_def)
qed

lemma result_pairs_distinct:
  "distinct (map (\<lambda>a. (framework a, filePath (location a)))
                 (agents (snd (scanLocal rt tree options))))"
  unfolding result_pairs
  by (rule sortByConfidence_distinct_map) (rule enriched_pairs_distinct)

lemma result_confidences:
  "map confidence (agents (snd (scanLocal rt tree options))) =
   map confidence (sortByConfidence (map snd (enrichedAgentMap rt tree options)))"
proof -
  have "map (\<lambda>c. fst (snd (snd c)))
          (map agentCore (agents (snd (scanLocal rt tree options)))) =
        map (\<lambda>c. fst (snd (snd c)))
          (map agentCore (sortByConfidence (map snd (enrichedAgentMap rt tree options))))"
    by (simp only: scanLocal_agents_core)
  then show ?thesis by (simp add: agentCore_def comp_def)
qed

lemma result_agent_bounds:
  assumes "a \<in> set (agents (snd (scanLocal rt tree options)))"
  shows "0 \<le> confidence a \<and> confidence a \<le> 1"
proof -
  from result_agent_origin [OF assms] obtain e
    where e: "e \<in> set (agentMap (scanFiles rt tree options))" and b: "boosted (snd e) a"
    by blast
  from fromFiles_bounds [OF scanFiles_entries [OF e]] b show ?thesis
    by (simp add: boosted_def)
qed

section \<open>Invariants of the result\<close>

text \<open>
  Claim C3. In the result of every local scan, every agent record has a confidence between
  0 and 1 (the boosts of the fold-in are capped at 1, and no weight of the registry or of
  the dependency table is negative), and no two records have the same framework and file
  path.
\<close>

theorem C3_confidence_range_and_unique_keys:
  "(\<forall>a \<in> set (agents (snd (scanLocal rt tree options))). 0 \<le> confidence a \<and> confidence a \<le> 1)
   \<and> distinct (map (\<lambda>a. (framework a, filePath (location a)))
                    (agents (snd (scanLocal rt tree options))))"
  using result_agent_bounds [of _ rt tree options] result_pairs_distinct [of rt tree options]
  by blast

text \<open>
  Claim C8. The agents of the result are in descending order of confidence, and these
  confidences are the ones the registry holds after the dependency and environment-variable
  boosts: ownership enrichment and risk evaluation, which run after the sort, leave them as
  they are.
\<close>

theorem C8_sorted_by_final_confidence:
  "sorted_wrt (\<lambda>a b. confidence b \<le> confidence a) (agents (snd (scanLocal rt tree options)))
   \<and> map confidence (agents (snd (scanLocal rt tree options))) =
       map confidence (sortByConfidence (map snd (enrichedAgentMap rt tree options)))"
proof
  have "sorted_wrt (\<lambda>a b. confidence b \<le> confidence a)
          (sortByConfidence (map snd (enrichedAgentMap rt tree options)))"
    by (rule sortByConfidence_sorted)
  then have "sorted_wrt (\<lambda>x y. y \<le> x)
          (map confidence (sortByConfidence (map snd (enrichedAgentMap rt tree options))))"
    by (simp add: sorted_wrt_map)
  then have "sorted_wrt (\<lambda>x y. y \<le> x)
          (map confidence (agents (snd (scanLocal rt tree options))))"
    by (simp only: result_confidences)
  then show "sorted_wrt (\<lambda>a b. confidence b \<le> confidence a)
          (agents (snd (scanLocal rt tree options)))"
    by (simp add: sorted_wrt_map)
next
  show "map confidence (agents (snd (scanLocal rt tree options))) =
       map confidence (sortByConfidence (map snd (enrichedAgentMap rt tree options)))"
    by (rule result_confidences)
qed

section \<open>The threshold\<close>

lemma enrichWithDependencies_length [simp]: "length (enrichWithDependencies m deps) = length m"
  unfolding enrichWithDependencies_alt by (induction deps arbitrary: m) simp_all

lemma enrichWithEnvVars_length [simp]: "length (enrichWithEnvVars m envs) = length m"
  unfolding enrichWithEnvVars_def by (induction envs arbitrary: m) simp_all

lemma enrichWithGitBlame_length [simp]: "length (enrichWithGitBlame rt ags) = length ags"
  by (simp add: enrichWithGitBlame_def)

lemma enrichWithRisks_length [simp]: "length (fst (enrichWithRisks rt ags)) = length ags"
  by (simp add: enrichWithRisks_def Let_def)

lemma result_length:
  "length (agents (snd (scanLocal rt tree options))) = length (agentMap (scanFiles rt tree options))"
  by (simp add: scanLocal_agents enrichedAgentMap_def Let_def)

lemma registry_size:
  "length (agentMap (scanFiles rt tree options)) =
     card (\<Union>f \<in> set (discoveredFiles tree options).
             set (fileKeys rt (scanPathOf rt options) (thresholdOf options) f))"
proof -
  have "card (set (map fst (agentMap (scanFiles rt tree options)))) =
          length (map fst (agentMap (scanFiles rt tree options)))"
    by (rule distinct_card) (rule scanFiles_distinct)
  then show ?thesis by (simp add: scanFiles_keys)
qed

lemma fileKeys_antimono:
  assumes "T1 \<le> T2"
  shows "set (fileKeys rt sp T2 f) \<subseteq> set (fileKeys rt sp T1 f)"
  using assms by (auto simp: fileKeys_def sourceKeys_def)

lemma threshold_update [simp]:
  "thresholdOf (options\<lparr>confidenceThreshold := Some T\<rparr>) = T"
  "scanPathOf rt (options\<lparr>confidenceThreshold := Some T\<rparr>) = scanPathOf rt options"
  "discoveredFiles tree (options\<lparr>confidenceThreshold := Some T\<rparr>) = discoveredFiles tree options"
  by (simp_all add: thresholdOf_def scanPathOf_def discoveredFiles_def)

text \<open>
  Claim C5. For the same tree, runtime and options, raising the confidence threshold from
  \<open>T1\<close> to \<open>T2\<close> never increases the number of agents in the result: the keys that the
  registry holds at \<open>T2\<close> are among those it holds at \<open>T1\<close>.
\<close>

theorem C5_threshold_monotone:
  assumes "T1 < T2"
  shows "length (agents (snd (scanLocal rt tree (options\<lparr>confidenceThreshold := Some T2\<rparr>))))
         \<le> length (agents (snd (scanLocal rt tree (options\<lparr>confidenceThreshold := Some T1\<rparr>))))"
proof -
  let ?K = "\<lambda>T. (\<Union>f \<in> set (discoveredFiles tree options).
                    set (fileKeys rt (scanPathOf rt options) T f))"
  from assms have "T1 \<le> T2" by simp
  then have "?K T2 \<subseteq> ?K T1"
    using fileKeys_antimono [of T1 T2 rt "scanPathOf rt options"] by blast
  moreover have "finite (?K T1)" by simp
  ultimately have "card (?K T2) \<le> card (?K T1)" by (rule card_mono [rotated])
  then show ?thesis by (simp add: result_length registry_size)
qed

section \<open>Records created from a crewai configuration file\<close>

lemma crewai_config_not_source: "isCrewaiConfig f \<Longrightarrow> \<not> isSourceFile f"
  by (auto simp: isCrewaiConfig_def isSourceFile_def extname_def Let_def toLowerCase_def
      lower_char_def LANGUAGE_EXTENSIONS_def)

lemma same_path_config: "path g = path f \<Longrightarrow> isCrewaiConfig g = isCrewaiConfig f"
  by (simp add: isCrewaiConfig_def)

lemma same_path_evidence: "path g = path f \<Longrightarrow> crewaiConfigEvidence g = crewaiConfigEvidence f"
  by (simp add: crewaiConfigEvidence_def)

lemma config_key_present:
  assumes "f \<in> set (discoveredFiles tree options)" "scannable f" "isCrewaiConfig f"
  shows "agentKey Crewai (path f) \<in> fst ` set (agentMap (scanFiles rt tree options))"
  using assms by (auto simp: scanFiles_keys fileKeys_def)

lemma config_record_in_registry:
  assumes "f \<in> set (discoveredFiles tree options)" "scannable f" "isCrewaiConfig f"
  shows "\<exists>a0. (agentKey Crewai (path f), a0) \<in> set (agentMap (scanFiles rt tree options))
              \<and> framework a0 = Crewai \<and> confidence a0 = 7 / 10
              \<and> evidence a0 = [crewaiConfigEvidence f] \<and> filePath (location a0) = path f"
proof -
  from config_key_present [OF assms] obtain a0
    where e: "(agentKey Crewai (path f), a0) \<in> set (agentMap (scanFiles rt tree options))"
    by force
  from scanFiles_entries [OF e] obtain g
    where g: "fromSource rt (scanPathOf rt options) (thresholdOf options) g
                (agentKey Crewai (path f)) a0
              \<or> fromConfig g (agentKey Crewai (path f)) a0"
    by (auto simp: fromFiles_def list_ex_iff)
  then have "fromConfig g (agentKey Crewai (path f)) a0 \<and> path g = path f"
  proof
    assume src: "fromSource rt (scanPathOf rt options) (thresholdOf options) g
                   (agentKey Crewai (path f)) a0"
    then have "\<exists>d :: FileDetection. agentKey Crewai (path f) = agentKey (fd_framework d) (path g)"
      unfolding fromSource_def list_ex_iff by blast
    then obtain d :: FileDetection
      where "agentKey Crewai (path f) = agentKey (fd_framework d) (path g)" ..
    from agentKey_inj [OF this] have "path g = path f" by simp
    with assms(3) have "\<not> isSourceFile g"
      using crewai_config_not_source [of g] same_path_config [of g f] by simp
    with src show ?thesis by (simp add: fromSource_def)
  next
    assume cfg: "fromConfig g (agentKey Crewai (path f)) a0"
    then have "agentKey Crewai (path f) = agentKey Crewai (path g)"
      by (simp add: fromConfig_def)
    from agentKey_inj [OF this] cfg show ?thesis by simp
  qed
  then have "framework a0 = Crewai \<and> confidence a0 = 7 / 10
              \<and> evidence a0 = [crewaiConfigEvidence f] \<and> filePath (location a0) = path f"
    using same_path_evidence [of g f] by (simp add: fromConfig_def)
  with e show ?thesis by blast
qed

text \<open>
  Claim C10, as amended. Whatever the threshold \<open>t\<close> (also above 0.7), a crewai.yaml or
  crewai.yml among the discovered files that passes the size check puts a crewai record
  into the registry with confidence exactly 0.7 and the configuration file as its only
  evidence: that branch never compares with the threshold. The result then holds a crewai
  record for that path whose evidence starts with the configuration item and whose
  confidence is at least 0.7 and at most 1 (0.7 plus the boosts of the fold-in).
\<close>

theorem C10_config_record_ignores_threshold:
  assumes "f \<in> set (discoveredFiles tree options)" and "scannable f" and "isCrewaiConfig f"
  shows "(\<exists>a0. map_of (agentMap (scanFiles rt tree (options\<lparr>confidenceThreshold := Some t\<rparr>)))
                  (agentKey Crewai (path f)) = Some a0
               \<and> framework a0 = Crewai \<and> confidence a0 = 7 / 10
               \<and> evidence a0 = [crewaiConfigEvidence f])
         \<and> (\<exists>a \<in> set (agents (snd (scanLocal rt tree (options\<lparr>confidenceThreshold := Some t\<rparr>)))).
               framework a = Crewai \<and> filePath (location a) = path f
               \<and> 7 / 10 \<le> confidence a \<and> confidence a \<le> 1
               \<and> prefix [crewaiConfigEvidence f] (evidence a))"
proof -
  let ?o = "options\<lparr>confidenceThreshold := Some t\<rparr>"
  have f: "f \<in> set (discoveredFiles tree ?o)" using assms(1) by simp
  from config_record_in_registry [OF f assms(2) assms(3), of rt] obtain a0
    where e: "(agentKey Crewai (path f), a0) \<in> set (agentMap (scanFiles rt tree ?o))"
      and a0: "framework a0 = Crewai" "confidence a0 = 7 / 10"
        "evidence a0 = [crewaiConfigEvidence f]" "filePath (location a0) = path f"
    by blast
  have "map_of (agentMap (scanFiles rt tree ?o)) (agentKey Crewai (path f)) = Some a0"
    by (rule map_of_is_SomeI [OF scanFiles_distinct e])
  with a0 have first: "\<exists>a0. map_of (agentMap (scanFiles rt tree ?o))
                  (agentKey Crewai (path f)) = Some a0
               \<and> framework a0 = Crewai \<and> confidence a0 = 7 / 10
               \<and> evidence a0 = [crewaiConfigEvidence f]"
    by blast
  from registry_entry_result [OF e] obtain a
    where "a \<in> set (agents (snd (scanLocal rt tree ?o)))" and "boosted a0 a"
    by auto
  with a0 have "\<exists>a \<in> set (agents (snd (scanLocal rt tree ?o))).
               framework a = Crewai \<and> filePath (location a) = path f
               \<and> 7 / 10 \<le> confidence a \<and> confidence a \<le> 1
               \<and> prefix [crewaiConfigEvidence f] (evidence a)"
    by (auto simp: boosted_def)
  with first show ?thesis by blast
qed

lemma filter_single:
  assumes "distinct (map g xs)" and "\<forall>y \<in> set xs. P y \<longrightarrow> g y = c" and "x \<in> set xs" and "P x"
  shows "filter P xs = [x]"
  using assms
proof (induction xs)
  case Nil
  then show ?case by simp
next
  case (Cons y ys)
  show ?case
  proof (cases "x = y")
    case True
    have "filter P ys = []"
    proof (rule ccontr)
      assume "filter P ys \<noteq> []"
      then obtain z where z: "z \<in> set ys" "P z"
        by (metis filter_False)
      with Cons.prems(2) have "g z = c" by simp
      moreover from Cons.prems(2,4) True have "g y = c" by simp
      ultimately have "g y \<in> g ` set ys" using z(1) by (metis image_eqI)
      with Cons.prems(1) show False by simp
    qed
    with True Cons.prems(4) show ?thesis by simp
  next
    case False
    with Cons.prems have x: "x \<in> set ys" by simp
    have "\<not> P y"
    proof
      assume "P y"
      with Cons.prems(2) have "g y = c" by simp
      moreover from Cons.prems(2) x Cons.prems(4) have "g x = c" by simp
      ultimately have "g y \<in> g ` set ys" using x by (metis image_eqI)
      with Cons.prems(1) show False by simp
    qed
    moreover have "filter P ys = [x]"
      by (rule Cons.IH) (use Cons.prems x in auto)
    ultimately show ?thesis by simp
  qed
qed

lemma enrichWithEnvVars_nil [simp]: "enrichWithEnvVars m [] = m"
  by (simp add: enrichWithEnvVars_def)

text \<open>
  Claim C2, as amended. Let a crewai.yaml or crewai.yml be among the discovered files and
  pass the size check. If it is the only such file, no source file yields a crewai
  detection that meets the threshold, and the scan collected no environment-variable
  evidence and no dependency evidence mapped to crewai, then the result holds exactly one
  crewai record: the one for that file, with confidence exactly 0.7 and the configuration
  file as its only evidence. (The other names of the configuration-file list create no
  record.)
\<close>

theorem C2_standalone_crewai_config:
  assumes "f \<in> set (discoveredFiles tree options)" and "scannable f" and "isCrewaiConfig f"
    and only: "\<forall>g \<in> set (discoveredFiles tree options).
                 scannable g \<and> isCrewaiConfig g \<longrightarrow> path g = path f"
    and nosrc: "\<forall>g \<in> set (discoveredFiles tree options). scannable g \<and> isSourceFile g \<longrightarrow>
                 (\<forall>d \<in> set (fileDetections rt (scanPathOf rt options) g).
                     thresholdOf options \<le> totalConfidence d \<longrightarrow> fd_framework d \<noteq> Crewai)"
    and noenv: "envEvidence (scanFiles rt tree options) = []"
    and nodep: "\<forall>dep \<in> set (dependencyEvidence (scanFiles rt tree options)).
                 \<forall>mp. find (\<lambda>d. dm_name d = ev_pattern dep) DEPENDENCY_MAPPINGS = Some mp
                      \<longrightarrow> dm_framework mp \<noteq> Crewai"
  shows "\<exists>a. filter (\<lambda>a. framework a = Crewai) (agents (snd (scanLocal rt tree options))) = [a]
             \<and> filePath (location a) = path f \<and> confidence a = 7 / 10
             \<and> evidence a = [crewaiConfigEvidence f]"
proof -
  let ?m0 = "agentMap (scanFiles rt tree options)"
  let ?ags = "agents (snd (scanLocal rt tree options))"
  from config_record_in_registry [OF assms(1-3), of rt] obtain a0
    where e: "(agentKey Crewai (path f), a0) \<in> set ?m0"
      and a0: "framework a0 = Crewai" "confidence a0 = 7 / 10"
        "evidence a0 = [crewaiConfigEvidence f]" "filePath (location a0) = path f"
    by blast
  have "list_all2 (\<lambda>e e'. framework (snd e) = Crewai \<longrightarrow> e' = e) ?m0
          (enrichedAgentMap rt tree options)"
    using enrichWithDependencies_unchanged [OF nodep, of ?m0]
    by (simp add: enrichedAgentMap_def Let_def noenv)
  from list_all2_left_ex [OF this e] a0(1)
  have "(agentKey Crewai (path f), a0) \<in> set (enrichedAgentMap rt tree options)"
    by auto
  then have "agentCore a0 \<in> agentCore ` set ?ags"
    using agents_core_set [of rt tree options] by force
  then obtain a where a: "a \<in> set ?ags" and core: "agentCore a = agentCore a0"
    by auto
  from agentCore_fields [OF core] a0
  have fields: "framework a = Crewai" "filePath (location a) = path f" "confidence a = 7 / 10"
    "evidence a = [crewaiConfigEvidence f]"
    by simp_all
  have same: "\<forall>b \<in> set ?ags. framework b = Crewai \<longrightarrow>
                (framework b, filePath (location b)) = (Crewai, path f)"
  proof (intro ballI impI)
    fix b
    assume b: "b \<in> set ?ags" and fw: "framework b = Crewai"
    from result_agent_origin [OF b] obtain e0
      where e0: "e0 \<in> set ?m0" and bo: "boosted (snd e0) b"
      by blast
    from bo fw have fw0: "framework (snd e0) = Crewai" and loc: "location b = location (snd e0)"
      by (simp_all add: boosted_def)
    from scanFiles_entries [OF e0] obtain g
      where g: "g \<in> set (discoveredFiles tree options)" "scannable g"
        and org: "fromSource rt (scanPathOf rt options) (thresholdOf options) g (fst e0) (snd e0)
                  \<or> fromConfig g (fst e0) (snd e0)"
      by (auto simp: fromFiles_def list_ex_iff)
    from org have "fromConfig g (fst e0) (snd e0)"
    proof
      assume src: "fromSource rt (scanPathOf rt options) (thresholdOf options) g (fst e0) (snd e0)"
      then obtain d where "isSourceFile g"
        and "d \<in> set (fileDetections rt (scanPathOf rt options) g)"
        and "thresholdOf options \<le> totalConfidence d" and "framework (snd e0) = fd_framework d"
        by (auto simp: fromSource_def list_ex_iff)
      with nosrc g fw0 show ?thesis by force
    qed
    then have "isCrewaiConfig g" and "filePath (location (snd e0)) = path g"
      by (simp_all add: fromConfig_def)
    with only g have "filePath (location (snd e0)) = path f" by auto
    with fw loc show "(framework b, filePath (location b)) = (Crewai, path f)" by simp
  qed
  have "filter (\<lambda>a. framework a = Crewai) ?ags = [a]"
    by (rule filter_single [where g = "\<lambda>a. (framework a, filePath (location a))",
          OF result_pairs_distinct same a fields(1)])
  with fields show ?thesis by blast
qed

section \<open>Concrete scans\<close>

lemmas registry_defs = ALL_PATTERNS_def
  langchainPatterns_def langgraphPatterns_def crewaiPatterns_def autogenPatterns_def
  semanticKernelPatterns_def haystackPatterns_def llamaindexPatterns_def
  openaiAssistantsPatterns_def anthropicPatterns_def awsBedrockPatterns_def
  googleVertexPatterns_def langchainJsPatterns_def vercelAiPatterns_def
  openaiSdkJsPatterns_def

lemmas file_defs = config_file_def source_file_def env_file_def requirements_file_def

lemmas path_eval = extname_def basename_def toLowerCase_def lower_char_def
  LANGUAGE_EXTENSIONS_def Let_def

lemma files_scannable:
  "scannable config_file" "scannable source_file" "scannable env_file"
  "scannable requirements_file"
  by (simp_all add: scannable_def MAX_FILE_SIZE_def file_defs)

lemma files_config:
  "isCrewaiConfig config_file" "\<not> isCrewaiConfig source_file" "\<not> isCrewaiConfig env_file"
  "\<not> isCrewaiConfig requirements_file"
  by (simp_all add: isCrewaiConfig_def basename_def file_defs)

lemma files_source:
  "\<not> isSourceFile config_file" "isSourceFile source_file" "\<not> isSourceFile env_file"
  "\<not> isSourceFile requirements_file"
  by (simp_all add: isSourceFile_def path_eval file_defs)

lemma discovered_eval:
  "discoveredFiles tree_with_source (default_options\<lparr>confidenceThreshold := t\<rparr>)
     = [config_file, source_file]"
  "discoveredFiles tree_with_env (default_options\<lparr>confidenceThreshold := t\<rparr>)
     = [config_file, env_file]"
  "discoveredFiles tree_with_requirements (default_options\<lparr>confidenceThreshold := t\<rparr>)
     = [config_file, requirements_file]"
  by (simp_all add: discoveredFiles_def slice0_def default_options_def tree_with_source_def
      tree_with_env_def tree_with_requirements_def file_defs)

lemma python_patterns:
  "deduplicatePatterns (getPatternsForLanguage Python) =
     [langchainPatterns, langgraphPatterns, crewaiPatterns, autogenPatterns,
      semanticKernelPatterns, haystackPatterns, llamaindexPatterns, openaiAssistantsPatterns,
      anthropicPatterns, awsBedrockPatterns, googleVertexPatterns]"
  by (simp add: deduplicatePatterns_def getPatternsForLanguage_def registry_defs)

lemma import_crewai_matches:
  "matchPatterns reference_exec ''import crewai'' ''/work/crew.py'' langchainPatterns = []"
  "matchPatterns reference_exec ''import crewai'' ''/work/crew.py'' langgraphPatterns = []"
  "matchPatterns reference_exec ''import crewai'' ''/work/crew.py'' crewaiPatterns =
     [\<lparr>ev_type = Import, ev_pattern = ''import'' @ [CHR 0x5C] @ ''s+crewai'',
       matchedText = ''import crewai'', ev_filePath = ''/work/crew.py'',
       ev_line = Some 1, confidenceContribution = 3 / 10\<rparr>]"
  "matchPatterns reference_exec ''import crewai'' ''/work/crew.py'' autogenPatterns = []"
  "matchPatterns reference_exec ''import crewai'' ''/work/crew.py'' semanticKernelPatterns = []"
  "matchPatterns reference_exec ''import crewai'' ''/work/crew.py'' haystackPatterns = []"
  "matchPatterns reference_exec ''import crewai'' ''/work/crew.py'' llamaindexPatterns = []"
  "matchPatterns reference_exec ''import crewai'' ''/work/crew.py'' openaiAssistantsPatterns = []"
  "matchPatterns reference_exec ''import crewai'' ''/work/crew.py'' anthropicPatterns = []"
  "matchPatterns reference_exec ''import crewai'' ''/work/crew.py'' awsBedrockPatterns = []"
  "matchPatterns reference_exec ''import crewai'' ''/work/crew.py'' googleVertexPatterns = []"
  by (simp_all add: matchPatterns_def registry_defs rx_eval truncate_text_def)

lemma source_file_detections:
  "fileDetections plain_runtime ''/work'' source_file = [crewai_detection]"
proof -
  have lang: "detectLanguage ''/work/crew.py'' = Python"
    by (simp add: detectLanguage_def path_eval)
  have meta: "fp_framework crewaiPatterns = Crewai" "displayName crewaiPatterns = ''CrewAI''"
    by (simp_all add: crewaiPatterns_def)
  have "detectFrameworks reference_exec ''import crewai'' ''/work/crew.py''
          (deduplicatePatterns (getPatternsForLanguage Python)) = [crewai_detection]"
    unfolding python_patterns detectFrameworks_def
    by (simp add: import_crewai_matches crewai_detection_def meta calculateConfidence_def)
  then show ?thesis
    by (simp add: fileDetections_def analyzeFile_def lang join_path_def source_file_def
        plain_runtime_def)
qed

lemma file_fields:
  "path config_file = ''crewai.yaml''" "path source_file = ''crew.py''"
  "path env_file = ''.env.local''" "path requirements_file = ''requirements.txt''"
  "content config_file = Some ''agents: []''" "content source_file = Some ''import crewai''"
  "content env_file = Some ''OPENAI_API_KEY=sk-test''"
  "content requirements_file = Some ''crewai>=0.1''"
  by (simp_all add: file_defs)

lemma discovered_default:
  "discoveredFiles tree_with_source default_options = [config_file, source_file]"
  "discoveredFiles tree_with_env default_options = [config_file, env_file]"
  "discoveredFiles tree_with_requirements default_options = [config_file, requirements_file]"
  by (simp_all add: discoveredFiles_def slice0_def default_options_def tree_with_source_def
      tree_with_env_def tree_with_requirements_def)

lemma options_eval [simp]:
  "scanPathOf plain_runtime (default_options\<lparr>confidenceThreshold := t\<rparr>) = ''/work''"
  "scanPathOf plain_runtime default_options = ''/work''"
  "thresholdOf default_options = 2 / 5"
  by (simp_all add: scanPathOf_def thresholdOf_def default_options_def
      CONFIDENCE_THRESHOLDS_REPORT_def)

lemma file_dependencies_eval:
  "fileDependencies plain_runtime config_file = []"
  "fileDependencies plain_runtime source_file = []"
  "fileDependencies plain_runtime env_file = []"
  "fileDependencies plain_runtime requirements_file = [crewai_dependency]"
  by (simp_all add: fileDependencies_def files_scannable basename_def DEPENDENCY_FILES_def
      analyzeDependencyFile_def cleanLine_def trim_def is_js_space_def toLowerCase_def
      lower_char_def DEPENDENCY_MAPPINGS_def python_dependency_def file_fields
      crewai_dependency_def)

lemma file_env_eval:
  "fileEnvVars plain_runtime config_file = []"
  "fileEnvVars plain_runtime source_file = []"
  "fileEnvVars plain_runtime env_file = [openai_env_evidence]"
  "fileEnvVars plain_runtime requirements_file = []"
  by (simp_all add: fileEnvVars_def files_scannable basename_def startsWith_def
      analyzeEnvFile_def ENV_VAR_PATTERNS_def redacted_text_def rx_eval file_fields
      openai_env_evidence_def plain_runtime_def)

lemma file_keys_eval:
  "fileKeys plain_runtime ''/work'' t config_file = [''crewai:crewai.yaml'']"
  "fileKeys plain_runtime ''/work'' t source_file =
     (if t \<le> 3 / 10 then [''crewai:crew.py''] else [])"
  "fileKeys plain_runtime ''/work'' t env_file = []"
  "fileKeys plain_runtime ''/work'' t requirements_file = []"
  by (simp_all add: fileKeys_def sourceKeys_def files_scannable files_config files_source
      source_file_detections agentKey_def crewai_detection_def file_fields)

lemma scanFile_agentMap_nonsource:
  assumes "\<not> isSourceFile f"
  shows "agentMap (scanFile rt sp T cfg f s) =
     (if scannable f \<and> basename (path f) \<in> set cfg \<and> isCrewaiConfig f
         \<and> map_of (agentMap s) (agentKey Crewai (path f)) = None
      then agentMap s @ [(agentKey Crewai (path f), configRecord rt f (length (agentMap s)))]
      else agentMap s)"
  using assms
  by (simp add: scanFile_agentMap configStep_agentMap sourceStep_def isSourceFile_def)

lemma config_record_eval: "configRecord plain_runtime config_file 0 = crewai_record"
  by (simp add: configRecord_def crewai_record_def crewaiConfigEvidence_def basename_def
      plain_runtime_def file_fields)

lemma registry_config_then_other:
  assumes "\<not> isSourceFile g" and "\<not> isCrewaiConfig g"
    and "discoveredFiles tree options = [config_file, g]"
  shows "agentMap (scanFiles plain_runtime tree options) = [(''crewai:crewai.yaml'', crewai_record)]"
proof -
  from scanFiles_fold [of plain_runtime tree options] obtain s0 where s0: "agentMap s0 = []"
    and sf: "scanFiles plain_runtime tree options =
         fold (scanFile plain_runtime (scanPathOf plain_runtime options) (thresholdOf options)
                 getAgentConfigFileNames) (discoveredFiles tree options) s0"
    by blast
  let ?step = "scanFile plain_runtime (scanPathOf plain_runtime options) (thresholdOf options)
                 getAgentConfigFileNames"
  have key: "agentKey Crewai (path config_file) = ''crewai:crewai.yaml''"
    by (simp add: agentKey_def file_fields)
  have "basename (path config_file) \<in> set getAgentConfigFileNames"
    by (simp add: config_file_names basename_def file_fields)
  then have one: "agentMap (?step config_file s0) = [(''crewai:crewai.yaml'', crewai_record)]"
    by (simp add: scanFile_agentMap_nonsource [OF files_source(1)] files_scannable files_config
        s0 key config_record_eval)
  have "agentMap (?step g (?step config_file s0)) = [(''crewai:crewai.yaml'', crewai_record)]"
    by (simp add: scanFile_agentMap_nonsource [OF assms(1)] assms(2) one)
  then show ?thesis by (simp add: sf assms(3))
qed

lemma env_tree_registry:
  "agentMap (scanFiles plain_runtime tree_with_env default_options) =
     [(''crewai:crewai.yaml'', crewai_record)]"
  by (rule registry_config_then_other [OF files_source(3) files_config(3) discovered_default(2)])

lemma requirements_tree_registry:
  "agentMap (scanFiles plain_runtime tree_with_requirements
               (default_options\<lparr>confidenceThreshold := Some (9 / 10)\<rparr>)) =
     [(''crewai:crewai.yaml'', crewai_record)]"
  by (rule registry_config_then_other [OF files_source(4) files_config(4) discovered_eval(3)])

lemma env_tree_agents:
  "map agentCore (agents (snd (scanLocal plain_runtime tree_with_env default_options))) =
     [(Crewai, \<lparr>filePath = ''crewai.yaml'', line = None, column = None\<rparr>, 3 / 4,
       [\<lparr>ev_type = ConfigFile, ev_pattern = ''crewai.yaml'', matchedText = ''crewai.yaml'',
          ev_filePath = ''crewai.yaml'', ev_line = None, confidenceContribution = 7 / 10\<rparr>,
        openai_env_evidence])]"
proof -
  have d: "dependencyEvidence (scanFiles plain_runtime tree_with_env default_options) = []"
    by (simp add: scanFiles_dependencyEvidence discovered_default file_dependencies_eval)
  have e: "envEvidence (scanFiles plain_runtime tree_with_env default_options)
             = [openai_env_evidence]"
    by (simp add: scanFiles_envEvidence discovered_default file_env_eval)
  have "enrichedAgentMap plain_runtime tree_with_env default_options =
          [(''crewai:crewai.yaml'',
            crewai_record\<lparr>evidence := evidence crewai_record @ [openai_env_evidence],
                           confidence := 3 / 4\<rparr>)]"
    by (simp add: enrichedAgentMap_def Let_def d e env_tree_registry enrichWithDependencies_def
        enrichWithEnvVars_def addEnvVar_def alreadyHas_def crewai_record_def
        openai_env_evidence_def)
  then show ?thesis
    by (simp add: scanLocal_agents_core sortByConfidence_def agentCore_def crewai_record_def)
qed

lemma requirements_tree_agents:
  "map agentCore (agents (snd (scanLocal plain_runtime tree_with_requirements
                                 (default_options\<lparr>confidenceThreshold := Some (9 / 10)\<rparr>)))) =
     [(Crewai, \<lparr>filePath = ''crewai.yaml'', line = None, column = None\<rparr>, 17 / 20,
       [\<lparr>ev_type = ConfigFile, ev_pattern = ''crewai.yaml'', matchedText = ''crewai.yaml'',
          ev_filePath = ''crewai.yaml'', ev_line = None, confidenceContribution = 7 / 10\<rparr>,
        crewai_dependency])]"
proof -
  let ?o = "default_options\<lparr>confidenceThreshold := Some (9 / 10)\<rparr>"
  have d: "dependencyEvidence (scanFiles plain_runtime tree_with_requirements ?o)
             = [crewai_dependency]"
    by (simp add: scanFiles_dependencyEvidence discovered_default file_dependencies_eval)
  have e: "envEvidence (scanFiles plain_runtime tree_with_requirements ?o) = []"
    by (simp add: scanFiles_envEvidence discovered_default file_env_eval)
  have f: "find (\<lambda>d. dm_name d = ev_pattern crewai_dependency) DEPENDENCY_MAPPINGS =
     Some \<lparr>dm_name = ''crewai'', dm_framework = Crewai, dm_confidence = 3 / 10,
           dm_language = DepPython\<rparr>"
    using find_crewai_mapping by (simp add: crewai_dependency_def)
  have c: "confidenceContribution crewai_dependency = 3 / 10"
    by (simp add: crewai_dependency_def)
  have "enrichedAgentMap plain_runtime tree_with_requirements ?o =
          [(''crewai:crewai.yaml'',
            crewai_record\<lparr>evidence := evidence crewai_record @ [crewai_dependency],
                           confidence := 17 / 20\<rparr>)]"
    by (simp add: enrichedAgentMap_def Let_def d e requirements_tree_registry
        enrichWithDependencies_def f c addDependency_def alreadyHas_def crewai_record_def)
  then show ?thesis
    by (simp add: scanLocal_agents_core sortByConfidence_def agentCore_def crewai_record_def)
qed

lemma other_file_adds_nothing:
  "\<not> isSourceFile f \<Longrightarrow> \<not> isCrewaiConfig f \<Longrightarrow>
     agentMap (scanFile rt sp T cfg f s) = agentMap s"
  by (simp add: scanFile_agentMap_nonsource)

lemma source_step_eval:
  assumes s: "agentMap s = [(''crewai:crewai.yaml'', crewai_record)]" and t: "t \<le> 3 / 10"
  shows "map (\<lambda>e. (fst e, confidence (snd e)))
           (agentMap (scanFile plain_runtime ''/work'' t getAgentConfigFileNames source_file s)) =
         [(''crewai:crewai.yaml'', 7 / 10), (''crewai:crew.py'', 3 / 10)]"
proof -
  define s1 where "s1 = onProgress (s\<lparr>progress := (progress s)\<lparr>currentFile := Some (path source_file)\<rparr>\<rparr>)"
  have s1: "agentMap s1 = [(''crewai:crewai.yaml'', crewai_record)]"
    by (simp add: s1_def s)
  have det: "detections (analyzeFile (regexExec plain_runtime) (join_path ''/work'' (path source_file))
                 (content source_file)) = [crewai_detection]"
    using source_file_detections by (simp add: fileDetections_def)
  have key2: "agentKey (fd_framework crewai_detection) (path source_file) = ''crewai:crew.py''"
    by (simp add: agentKey_def crewai_detection_def file_fields)
  have conf: "totalConfidence crewai_detection = 3 / 10"
    by (simp add: crewai_detection_def)
  have src: "map_of LANGUAGE_EXTENSIONS (toLowerCase (extname (path source_file))) \<noteq> None"
    using files_source(2) by (simp add: isSourceFile_def)
  define s2 where "s2 = sourceStep plain_runtime (join_path ''/work'' (path source_file)) t source_file s1"
  have "agentMap s2 = agentMap (addDetection plain_runtime t source_file
           (analyzeFile (regexExec plain_runtime) (join_path ''/work'' (path source_file))
                 (content source_file)) crewai_detection s1)"
    unfolding s2_def sourceStep_def using src by (simp add: Let_def det)
  also have "\<dots> = [(''crewai:crewai.yaml'', crewai_record),
                     (''crewai:crew.py'', sourceRecord plain_runtime source_file
           (analyzeFile (regexExec plain_runtime) (join_path ''/work'' (path source_file))
                 (content source_file)) crewai_detection 1)]"
    using t by (simp add: addDetection_agentMap key2 conf s1)
  finally have s2: "map (\<lambda>e. (fst e, confidence (snd e))) (agentMap s2) =
      [(''crewai:crewai.yaml'', 7 / 10), (''crewai:crew.py'', 3 / 10)]"
    by (simp add: sourceRecord_def crewai_record_def conf)
  have "agentMap (scanFile plain_runtime ''/work'' t getAgentConfigFileNames source_file s) = agentMap s2"
    by (simp add: scanFile_agentMap files_scannable configStep_agentMap files_config
        s2_def s1_def)
  with s2 show ?thesis by simp
qed

lemma source_tree_registry:
  assumes "t \<le> 3 / 10"
  shows "map (\<lambda>e. (fst e, confidence (snd e)))
           (agentMap (scanFiles plain_runtime tree_with_source
                        (default_options\<lparr>confidenceThreshold := Some t\<rparr>))) =
         [(''crewai:crewai.yaml'', 7 / 10), (''crewai:crew.py'', 3 / 10)]"
proof -
  let ?o = "default_options\<lparr>confidenceThreshold := Some t\<rparr>"
  from scanFiles_fold [of plain_runtime tree_with_source ?o] obtain s0 where s0: "agentMap s0 = []"
    and sf: "scanFiles plain_runtime tree_with_source ?o =
         fold (scanFile plain_runtime (scanPathOf plain_runtime ?o) (thresholdOf ?o)
                 getAgentConfigFileNames) (discoveredFiles tree_with_source ?o) s0"
    by blast
  let ?step = "scanFile plain_runtime ''/work'' t getAgentConfigFileNames"
  have key: "agentKey Crewai (path config_file) = ''crewai:crewai.yaml''"
    by (simp add: agentKey_def file_fields)
  have "basename (path config_file) \<in> set getAgentConfigFileNames"
    by (simp add: config_file_names basename_def file_fields)
  then have one: "agentMap (?step config_file s0) = [(''crewai:crewai.yaml'', crewai_record)]"
    by (simp add: scanFile_agentMap_nonsource [OF files_source(1)] files_scannable files_config
        s0 key config_record_eval)
  show ?thesis
    using source_step_eval [OF one assms] by (simp add: sf discovered_default)
qed

lemma source_tree_confidences:
  "map confidence (agents (snd (scanLocal plain_runtime tree_with_source
                                  (default_options\<lparr>confidenceThreshold := Some (3 / 10)\<rparr>))))
     = [7 / 10, 3 / 10]"
proof -
  let ?o = "default_options\<lparr>confidenceThreshold := Some (3 / 10)\<rparr>"
  have d: "dependencyEvidence (scanFiles plain_runtime tree_with_source ?o) = []"
    by (simp add: scanFiles_dependencyEvidence discovered_default file_dependencies_eval)
  have e: "envEvidence (scanFiles plain_runtime tree_with_source ?o) = []"
    by (simp add: scanFiles_envEvidence discovered_default file_env_eval)
  have "map confidence (map snd (enrichedAgentMap plain_runtime tree_with_source ?o))
          = map snd (map (\<lambda>e. (fst e, confidence (snd e)))
               (agentMap (scanFiles plain_runtime tree_with_source ?o)))"
    by (simp add: enrichedAgentMap_def Let_def d e enrichWithDependencies_def comp_def)
  also have "\<dots> = [7 / 10, 3 / 10]"
    by (simp only: source_tree_registry [of "3 / 10", simplified]) simp
  finally have m: "map confidence (map snd (enrichedAgentMap plain_runtime tree_with_source ?o))
                     = [7 / 10, 3 / 10]" .
  then obtain a b where ab: "map snd (enrichedAgentMap plain_runtime tree_with_source ?o) = [a, b]"
    and c: "confidence a = 7 / 10" "confidence b = 3 / 10"
    by (auto simp: map_eq_Cons_conv)
  have "sortByConfidence [a, b] = [a, b]"
    by (simp add: sortByConfidence_def c)
  with ab c show ?thesis by (simp add: result_confidences)
qed

section \<open>The claims on concrete trees\<close>

lemma source_tree_sizes:
  "length (agents (snd (scanLocal plain_runtime tree_with_source
                          (default_options\<lparr>confidenceThreshold := Some (3 / 10)\<rparr>)))) = 2"
  "length (agents (snd (scanLocal plain_runtime tree_with_source
                          (default_options\<lparr>confidenceThreshold := Some (9 / 10)\<rparr>)))) = 1"
  by (simp_all add: result_length registry_size discovered_default file_keys_eval thresholdOf_def)

lemma source_tree_default:
  "envEvidence (scanFiles plain_runtime tree_with_source default_options) = []"
  "dependencyEvidence (scanFiles plain_runtime tree_with_source default_options) = []"
  by (simp_all add: scanFiles_envEvidence scanFiles_dependencyEvidence discovered_default
      file_env_eval file_dependencies_eval)

theorem C3_confidence_range_and_unique_keys_witness:
  "length (agents (snd (scanLocal plain_runtime tree_with_source
                          (default_options\<lparr>confidenceThreshold := Some (3 / 10)\<rparr>)))) = 2
   \<and> list_all (\<lambda>a. 0 \<le> confidence a \<and> confidence a \<le> 1)
        (agents (snd (scanLocal plain_runtime tree_with_source
                        (default_options\<lparr>confidenceThreshold := Some (3 / 10)\<rparr>))))
   \<and> distinct (map (\<lambda>a. (framework a, filePath (location a)))
        (agents (snd (scanLocal plain_runtime tree_with_source
                        (default_options\<lparr>confidenceThreshold := Some (3 / 10)\<rparr>)))))"
  using C3_confidence_range_and_unique_keys [of plain_runtime tree_with_source
      "default_options\<lparr>confidenceThreshold := Some (3 / 10)\<rparr>"]
    source_tree_sizes(1)
  by (simp only: list_all_iff) simp

theorem C8_sorted_by_final_confidence_witness:
  "map confidence (agents (snd (scanLocal plain_runtime tree_with_source
                                  (default_options\<lparr>confidenceThreshold := Some (3 / 10)\<rparr>))))
     = [7 / 10, 3 / 10]
   \<and> sorted_wrt (\<lambda>a b. confidence b \<le> confidence a)
        (agents (snd (scanLocal plain_runtime tree_with_source
                        (default_options\<lparr>confidenceThreshold := Some (3 / 10)\<rparr>))))"
  using C8_sorted_by_final_confidence [of plain_runtime tree_with_source
      "default_options\<lparr>confidenceThreshold := Some (3 / 10)\<rparr>"]
    source_tree_confidences
  by blast

theorem C5_threshold_monotone_witness:
  "(3 / 10 :: rat) < 9 / 10
   \<and> length (agents (snd (scanLocal plain_runtime tree_with_source
                 (default_options\<lparr>confidenceThreshold := Some (3 / 10)\<rparr>)))) = 2
   \<and> length (agents (snd (scanLocal plain_runtime tree_with_source
                 (default_options\<lparr>confidenceThreshold := Some (9 / 10)\<rparr>)))) = 1
   \<and> length (agents (snd (scanLocal plain_runtime tree_with_source
                 (default_options\<lparr>confidenceThreshold := Some (9 / 10)\<rparr>))))
     \<le> length (agents (snd (scanLocal plain_runtime tree_with_source
                 (default_options\<lparr>confidenceThreshold := Some (3 / 10)\<rparr>))))"
proof -
  have lt: "(3 / 10 :: rat) < 9 / 10" by simp
  from C5_threshold_monotone [OF lt, of plain_runtime tree_with_source default_options] lt
    source_tree_sizes
  show ?thesis by blast
qed

theorem C10_config_record_ignores_threshold_witness:
  "config_file \<in> set (discoveredFiles tree_with_requirements default_options)
   \<and> scannable config_file \<and> isCrewaiConfig config_file
   \<and> (\<exists>a0. map_of (agentMap (scanFiles plain_runtime tree_with_requirements
                      (default_options\<lparr>confidenceThreshold := Some (9 / 10)\<rparr>)))
               (agentKey Crewai (path config_file)) = Some a0
           \<and> framework a0 = Crewai \<and> confidence a0 = 7 / 10
           \<and> evidence a0 = [crewaiConfigEvidence config_file])
   \<and> (\<exists>a \<in> set (agents (snd (scanLocal plain_runtime tree_with_requirements
                      (default_options\<lparr>confidenceThreshold := Some (9 / 10)\<rparr>)))).
         framework a = Crewai \<and> filePath (location a) = path config_file
         \<and> 7 / 10 \<le> confidence a \<and> confidence a \<le> 1
         \<and> prefix [crewaiConfigEvidence config_file] (evidence a))"
proof -
  have m: "config_file \<in> set (discoveredFiles tree_with_requirements default_options)"
    by (simp add: discovered_default)
  from C10_config_record_ignores_threshold [OF m files_scannable(1) files_config(1),
      of plain_runtime "9 / 10"] m files_scannable(1) files_config(1)
  show ?thesis by blast
qed

theorem C2_standalone_crewai_config_witness:
  "discoveredFiles tree_with_source default_options = [config_file, source_file]
   \<and> scannable config_file \<and> isCrewaiConfig config_file \<and> \<not> isCrewaiConfig source_file
   \<and> \<not> isSourceFile config_file
   \<and> fileDetections plain_runtime (scanPathOf plain_runtime default_options) source_file
       = [crewai_detection]
   \<and> \<not> thresholdOf default_options \<le> totalConfidence crewai_detection
   \<and> envEvidence (scanFiles plain_runtime tree_with_source default_options) = []
   \<and> dependencyEvidence (scanFiles plain_runtime tree_with_source default_options) = []
   \<and> (\<exists>a. filter (\<lambda>a. framework a = Crewai)
              (agents (snd (scanLocal plain_runtime tree_with_source default_options))) = [a]
          \<and> filePath (location a) = path config_file \<and> confidence a = 7 / 10
          \<and> evidence a = [crewaiConfigEvidence config_file])"
proof -
  have disc: "discoveredFiles tree_with_source default_options = [config_file, source_file]"
    by (rule discovered_default)
  have det: "fileDetections plain_runtime (scanPathOf plain_runtime default_options) source_file
               = [crewai_detection]"
    by (simp add: source_file_detections)
  have low: "\<not> thresholdOf default_options \<le> totalConfidence crewai_detection"
    by (simp add: crewai_detection_def)
  have m: "config_file \<in> set (discoveredFiles tree_with_source default_options)"
    by (simp add: disc)
  have only: "\<forall>g \<in> set (discoveredFiles tree_with_source default_options).
                scannable g \<and> isCrewaiConfig g \<longrightarrow> path g = path config_file"
    by (simp add: disc files_config)
  have nosrc: "\<forall>g \<in> set (discoveredFiles tree_with_source default_options).
                 scannable g \<and> isSourceFile g \<longrightarrow>
                 (\<forall>d \<in> set (fileDetections plain_runtime (scanPathOf plain_runtime default_options) g).
                    thresholdOf default_options \<le> totalConfidence d \<longrightarrow> fd_framework d \<noteq> Crewai)"
    using low by (simp add: disc files_source(1) source_file_detections)
  have nodep: "\<forall>dep \<in> set (dependencyEvidence (scanFiles plain_runtime tree_with_source default_options)).
                 \<forall>mp. find (\<lambda>d. dm_name d = ev_pattern dep) DEPENDENCY_MAPPINGS = Some mp \<longrightarrow>
                   dm_framework mp \<noteq> Crewai"
    by (simp add: source_tree_default)
  from C2_standalone_crewai_config [OF m files_scannable(1) files_config(1) only nosrc
      source_tree_default(1) nodep]
    disc files_scannable(1) files_config(1) files_config(2) files_source(1) det low
    source_tree_default
  show ?thesis by blast
qed

lemma more_files:
  "\<not> isSourceFile generic_config_file" "\<not> isCrewaiConfig generic_config_file"
  "scannable generic_config_file" "\<not> scannable oversized_config_file"
  "isCrewaiConfig oversized_config_file"
  "\<not> isSourceFile second_config_file" "isCrewaiConfig second_config_file"
  "scannable second_config_file"
  by (simp_all add: isSourceFile_def isCrewaiConfig_def scannable_def MAX_FILE_SIZE_def
      path_eval generic_config_file_def oversized_config_file_def second_config_file_def)

lemma more_discovered:
  "discoveredFiles tree_with_generic default_options = [generic_config_file]"
  "discoveredFiles tree_with_oversized default_options = [oversized_config_file]"
  "discoveredFiles tree_with_oversized (default_options\<lparr>confidenceThreshold := t\<rparr>)
     = [oversized_config_file]"
  "discoveredFiles tree_with_two_configs default_options = [config_file, second_config_file]"
  by (simp_all add: discoveredFiles_def slice0_def default_options_def tree_with_generic_def
      tree_with_oversized_def tree_with_two_configs_def)

lemma more_paths:
  "path generic_config_file = ''agents.yaml''" "path oversized_config_file = ''crewai.yaml''"
  "path second_config_file = ''sub/crewai.yml''"
  by (simp_all add: generic_config_file_def oversized_config_file_def second_config_file_def)

lemma more_keys:
  "fileKeys plain_runtime ''/work'' t generic_config_file = []"
  "fileKeys plain_runtime ''/work'' t oversized_config_file = []"
  "fileKeys plain_runtime ''/work'' t second_config_file = [''crewai:sub/crewai.yml'']"
  by (simp_all add: fileKeys_def sourceKeys_def more_files agentKey_def more_paths)

lemma more_sizes:
  "agents (snd (scanLocal plain_runtime tree_with_generic default_options)) = []"
  "agents (snd (scanLocal plain_runtime tree_with_oversized default_options)) = []"
  "agents (snd (scanLocal plain_runtime tree_with_oversized
                  (default_options\<lparr>confidenceThreshold := Some (9 / 10)\<rparr>))) = []"
  "length (agents (snd (scanLocal plain_runtime tree_with_two_configs default_options))) = 2"
proof -
  have "length (agents (snd (scanLocal plain_runtime tree_with_generic default_options))) = 0"
    by (simp add: result_length registry_size more_discovered more_keys)
  then show "agents (snd (scanLocal plain_runtime tree_with_generic default_options)) = []"
    by simp
  have "length (agents (snd (scanLocal plain_runtime tree_with_oversized default_options))) = 0"
    by (simp add: result_length registry_size more_discovered more_keys)
  then show "agents (snd (scanLocal plain_runtime tree_with_oversized default_options)) = []"
    by simp
  have "length (agents (snd (scanLocal plain_runtime tree_with_oversized
                  (default_options\<lparr>confidenceThreshold := Some (9 / 10)\<rparr>)))) = 0"
    by (simp add: result_length registry_size more_discovered more_keys thresholdOf_def)
  then show "agents (snd (scanLocal plain_runtime tree_with_oversized
                  (default_options\<lparr>confidenceThreshold := Some (9 / 10)\<rparr>))) = []"
    by simp
  show "length (agents (snd (scanLocal plain_runtime tree_with_two_configs default_options))) = 2"
    by (simp add: result_length registry_size more_discovered more_keys file_keys_eval)
qed

text \<open>
  The record of a configuration file does not stay at 0.7 when the tree also declares the
  crewai package: with a requirements.txt holding \<open>crewai>=0.1\<close> and the threshold at 0.9,
  the only record of the result has confidence 0.85. A crewai.yaml above the size limit is
  skipped before the configuration branch, and the result is empty.
\<close>

theorem C10_dependency_boost_counterexample:
  "map path (discoveredFiles tree_with_requirements
               (default_options\<lparr>confidenceThreshold := Some (9 / 10)\<rparr>))
     = [''crewai.yaml'', ''requirements.txt'']
   \<and> map agentCore (agents (snd (scanLocal plain_runtime tree_with_requirements
                                 (default_options\<lparr>confidenceThreshold := Some (9 / 10)\<rparr>)))) =
     [(Crewai, \<lparr>filePath = ''crewai.yaml'', line = None, column = None\<rparr>, 17 / 20,
       [\<lparr>ev_type = ConfigFile, ev_pattern = ''crewai.yaml'', matchedText = ''crewai.yaml'',
          ev_filePath = ''crewai.yaml'', ev_line = None, confidenceContribution = 7 / 10\<rparr>,
        crewai_dependency])]
   \<and> map path (discoveredFiles tree_with_oversized
               (default_options\<lparr>confidenceThreshold := Some (9 / 10)\<rparr>)) = [''crewai.yaml'']
   \<and> agents (snd (scanLocal plain_runtime tree_with_oversized
                  (default_options\<lparr>confidenceThreshold := Some (9 / 10)\<rparr>))) = []"
  using requirements_tree_agents more_sizes(3)
  by (simp add: discovered_default more_discovered file_fields more_paths)

text \<open>
  Four trees without any source file. With crewai.yaml beside a .env.local that sets
  \<open>OPENAI_API_KEY\<close>, the only record has confidence 0.75, since environment evidence is
  added to every record. With agents.yaml alone (a name of the configuration-file list), or
  with a crewai.yaml above the size limit, the result has no record. With crewai.yaml and
  sub/crewai.yml, the result has two records.
\<close>

theorem C2_config_file_counterexample:
  "map path (discoveredFiles tree_with_env default_options) = [''crewai.yaml'', ''.env.local'']
   \<and> map agentCore (agents (snd (scanLocal plain_runtime tree_with_env default_options))) =
     [(Crewai, \<lparr>filePath = ''crewai.yaml'', line = None, column = None\<rparr>, 3 / 4,
       [\<lparr>ev_type = ConfigFile, ev_pattern = ''crewai.yaml'', matchedText = ''crewai.yaml'',
          ev_filePath = ''crewai.yaml'', ev_line = None, confidenceContribution = 7 / 10\<rparr>,
        openai_env_evidence])]
   \<and> List.member getAgentConfigFileNames ''agents.yaml''
   \<and> map path (discoveredFiles tree_with_generic default_options) = [''agents.yaml'']
   \<and> agents (snd (scanLocal plain_runtime tree_with_generic default_options)) = []
   \<and> map path (discoveredFiles tree_with_oversized default_options) = [''crewai.yaml'']
   \<and> agents (snd (scanLocal plain_runtime tree_with_oversized default_options)) = []
   \<and> map path (discoveredFiles tree_with_two_configs default_options)
       = [''crewai.yaml'', ''sub/crewai.yml'']
   \<and> length (agents (snd (scanLocal plain_runtime tree_with_two_configs default_options))) = 2"
  using env_tree_agents more_sizes(1,2,4)
  by (simp add: discovered_default more_discovered file_fields more_paths config_file_names)

end
